theory Spec2Isabelle
  imports Complex_Main
begin

section \<open>JavaScript values and built-ins used by the sources\<close>

text \<open>
  A number of the language is a double: a finite value, one of the two infinities, or
  \<^verbatim>\<open>NaN\<close>. A finite value is carried as the real it denotes. The conversions from text
  round to the nearest double (\<open>round_double\<close>); the arithmetic on finite values is exact
  and the sign of a zero is not kept. Strings are byte lists; the character classes below
  are the ASCII part of the ECMAScript ones.
\<close>

datatype jsnum = Fin real | PosInf | NegInf | NaN

text \<open>The nearest integer, the even one at a tie.\<close>

definition round_half_even :: "real \<Rightarrow> int" where
  "round_half_even x =
     (let f = \<lfloor>x\<rfloor>; d = x - of_int f
      in if d < 1 / 2 then f else if 1 / 2 < d then f + 1 else if even f then f else f + 1)"

text \<open>The number of binary digits of a positive integer.\<close>

function bit_length :: "int \<Rightarrow> nat" where
  "bit_length n = (if n \<le> 0 then 0 else Suc (bit_length (n div 2)))"
  by pat_completeness auto
termination
  by (relation "measure nat") auto

text \<open>
  The double nearest to a real (IEEE 754 binary64, round to nearest, ties to even). Every
  double is a multiple of \<open>2\<^sup>-\<^sup>1\<^sup>0\<^sup>7\<^sup>4\<close>: \<open>s\<close> is the magnitude in that unit, and \<open>k\<close> the
  number of its binary digits beyond the 53 that a double keeps (none for a subnormal). A
  magnitude that rounds to \<open>2\<^sup>1\<^sup>0\<^sup>2\<^sup>4\<close> or more is infinite; a magnitude of at most
  \<open>2\<^sup>-\<^sup>1\<^sup>0\<^sup>7\<^sup>5\<close> rounds to 0.
\<close>

definition round_double :: "real \<Rightarrow> jsnum" where
  "round_double x =
     (let s = \<bar>x\<bar> * 2 ^ 1074;
          k = bit_length \<lfloor>s\<rfloor> - 53;
          m = real_of_int (round_half_even (s / 2 ^ k)) * 2 ^ k
      in if 2 ^ 2098 \<le> m then (if x < 0 then NegInf else PosInf)
         else Fin ((if x < 0 then - m else m) / 2 ^ 1074))"

text \<open>
  The operators \<^verbatim>\<open>-x\<close>, \<^verbatim>\<open>x + y\<close>, \<^verbatim>\<open>x - y\<close> and \<^verbatim>\<open>x / y\<close>, \<^verbatim>\<open>x * 100\<close>, the comparisons
  \<^verbatim>\<open>x > y\<close>, \<^verbatim>\<open>x < y\<close> and \<^verbatim>\<open>x === y\<close> (all false on \<^verbatim>\<open>NaN\<close>), and \<^verbatim>\<open>Math.min\<close>,
  \<^verbatim>\<open>Math.max\<close> of two numbers.
\<close>

fun js_neg :: "jsnum \<Rightarrow> jsnum" where
  "js_neg (Fin x) = Fin (- x)"
| "js_neg PosInf = NegInf"
| "js_neg NegInf = PosInf"
| "js_neg NaN = NaN"

fun js_add :: "jsnum \<Rightarrow> jsnum \<Rightarrow> jsnum" where
  "js_add (Fin x) (Fin y) = Fin (x + y)"
| "js_add NaN b = NaN"
| "js_add a NaN = NaN"
| "js_add PosInf NegInf = NaN"
| "js_add NegInf PosInf = NaN"
| "js_add PosInf b = PosInf"
| "js_add a PosInf = PosInf"
| "js_add NegInf b = NegInf"
| "js_add a NegInf = NegInf"

definition js_sub :: "jsnum \<Rightarrow> jsnum \<Rightarrow> jsnum" where
  "js_sub a b = js_add a (js_neg b)"

fun js_div :: "jsnum \<Rightarrow> jsnum \<Rightarrow> jsnum" where
  "js_div (Fin x) (Fin y) =
     (if y \<noteq> 0 then Fin (x / y)
      else if 0 < x then PosInf else if x < 0 then NegInf else NaN)"
| "js_div NaN b = NaN"
| "js_div a NaN = NaN"
| "js_div (Fin x) b = Fin 0"
| "js_div PosInf (Fin y) = (if 0 \<le> y then PosInf else NegInf)"
| "js_div NegInf (Fin y) = (if 0 \<le> y then NegInf else PosInf)"
| "js_div a b = NaN"

fun js_times100 :: "jsnum \<Rightarrow> jsnum" where
  "js_times100 (Fin x) = Fin (x * 100)"
| "js_times100 PosInf = PosInf"
| "js_times100 NegInf = NegInf"
| "js_times100 NaN = NaN"

fun js_gt :: "jsnum \<Rightarrow> real \<Rightarrow> bool" where
  "js_gt (Fin x) r = (r < x)"
| "js_gt PosInf r = True"
| "js_gt NegInf r = False"
| "js_gt NaN r = False"

fun js_lt :: "jsnum \<Rightarrow> real \<Rightarrow> bool" where
  "js_lt (Fin x) r = (x < r)"
| "js_lt PosInf r = False"
| "js_lt NegInf r = True"
| "js_lt NaN r = False"

fun js_greater :: "jsnum \<Rightarrow> jsnum \<Rightarrow> bool" where
  "js_greater a (Fin y) = js_gt a y"
| "js_greater a NaN = False"
| "js_greater a PosInf = False"
| "js_greater a NegInf = (a \<noteq> NaN \<and> a \<noteq> NegInf)"

fun js_eq :: "jsnum \<Rightarrow> jsnum \<Rightarrow> bool" where
  "js_eq NaN b = False"
| "js_eq a b = (a = b)"

fun js_min :: "jsnum \<Rightarrow> jsnum \<Rightarrow> jsnum" where
  "js_min (Fin x) (Fin y) = Fin (min x y)"
| "js_min NaN b = NaN"
| "js_min a NaN = NaN"
| "js_min NegInf b = NegInf"
| "js_min a NegInf = NegInf"
| "js_min PosInf b = b"
| "js_min a PosInf = a"

fun js_max :: "jsnum \<Rightarrow> jsnum \<Rightarrow> jsnum" where
  "js_max (Fin x) (Fin y) = Fin (max x y)"
| "js_max NaN b = NaN"
| "js_max a NaN = NaN"
| "js_max PosInf b = PosInf"
| "js_max a PosInf = PosInf"
| "js_max NegInf b = b"
| "js_max a NegInf = a"

definition is_space :: "char \<Rightarrow> bool" where
  "is_space c = (c \<in> set [CHR '' '', CHR 0x09, CHR 0x0A, CHR 0x0B, CHR 0x0C, CHR 0x0D])"

definition is_digit :: "char \<Rightarrow> bool" where
  "is_digit c = (48 \<le> (of_char c :: nat) \<and> (of_char c :: nat) \<le> 57)"

definition digit_val :: "char \<Rightarrow> nat" where
  "digit_val c = (of_char c :: nat) - 48"

definition is_hex_digit :: "char \<Rightarrow> bool" where
  "is_hex_digit c = (is_digit c \<or> c \<in> set ''abcdefABCDEF'')"

definition hex_val :: "char \<Rightarrow> nat" where
  "hex_val c = (if is_digit c then digit_val c
                else if c \<in> set ''abcdef'' then (of_char c :: nat) - 87
                else (of_char c :: nat) - 55)"

definition digits_value :: "string \<Rightarrow> int" where
  "digits_value ds = foldl (\<lambda>n c. 10 * n + int (digit_val c)) 0 ds"

definition hex_value :: "string \<Rightarrow> int" where
  "hex_value ds = foldl (\<lambda>n c. 16 * n + int (hex_val c)) 0 ds"

text \<open>An optional leading sign: the flag says whether it was a minus.\<close>

definition strip_sign :: "string \<Rightarrow> bool \<times> string" where
  "strip_sign s =
     (case s of
        [] \<Rightarrow> (False, [])
      | c # cs \<Rightarrow> if c = CHR ''-'' then (True, cs)
                  else if c = CHR ''+'' then (False, cs)
                  else (False, s))"

definition has_hex_prefix :: "string \<Rightarrow> bool" where
  "has_hex_prefix s = (take 2 s = ''0x'' \<or> take 2 s = ''0X'')"

text \<open>
  \<^verbatim>\<open>Number.parseInt(s)\<close> without a radix: leading white space, a sign, an optional
  \<^verbatim>\<open>0x\<close> prefix, then the longest run of digits. The result is the double nearest to the
  integer the digits denote, and \<^verbatim>\<open>NaN\<close> when there is no digit.
\<close>

definition parseInt :: "string \<Rightarrow> jsnum" where
  "parseInt s =
     (let (neg, s1) = strip_sign (dropWhile is_space s);
          hex = has_hex_prefix s1;
          ds = (if hex then takeWhile is_hex_digit (drop 2 s1) else takeWhile is_digit s1);
          v = (if hex then hex_value ds else digits_value ds)
      in if ds = [] then NaN else round_double (real_of_int (if neg then - v else v)))"

text \<open>The exponent part of a decimal literal (\<^verbatim>\<open>e\<close>, a sign, digits); 0 when there is none.\<close>

definition exponent_part :: "string \<Rightarrow> int" where
  "exponent_part r =
     (case r of
        [] \<Rightarrow> 0
      | c # cs \<Rightarrow>
          if c = CHR ''e'' \<or> c = CHR ''E'' then
            (let (neg, ds0) = strip_sign cs;
                 ds = takeWhile is_digit ds0
             in if ds = [] then 0
                else if neg then - digits_value ds else digits_value ds)
          else 0)"

definition scale10 :: "real \<Rightarrow> int \<Rightarrow> real" where
  "scale10 m e = (if 0 \<le> e then m * 10 ^ nat e else m / 10 ^ nat (- e))"

text \<open>
  \<^verbatim>\<open>Number.parseFloat\<close> on a string: leading white space, a sign, then the literal
  \<^verbatim>\<open>Infinity\<close> or the longest prefix that is a decimal literal. The result is the double
  nearest to the value of the literal: a literal too small in magnitude reads as 0, one too
  large as an infinity. Without a literal the result is \<^verbatim>\<open>NaN\<close>.
\<close>

definition parseFloat_string :: "string \<Rightarrow> jsnum" where
  "parseFloat_string s =
     (let (neg, s1) = strip_sign (dropWhile is_space s);
          ip = takeWhile is_digit s1;
          r1 = dropWhile is_digit s1;
          (fp, r2) = (case r1 of
                        [] \<Rightarrow> ([], [])
                      | c # cs \<Rightarrow> if c = CHR ''.''
                                  then (takeWhile is_digit cs, dropWhile is_digit cs)
                                  else ([], r1));
          m = real_of_int (digits_value ip) + real_of_int (digits_value fp) / 10 ^ length fp;
          v = scale10 m (exponent_part r2)
      in if take 8 s1 = ''Infinity'' then (if neg then NegInf else PosInf)
         else if ip = [] \<and> fp = [] then NaN
         else round_double (if neg then - v else v))"

text \<open>
  The values a cell of a stored year-to-price mapping can hold. \<open>JNum r\<close> is the number
  written as a JSON literal of value \<open>r\<close>; reading it gives the double nearest to \<open>r\<close>.
\<close>

datatype jsval = JNum real | JStr string | JNull | JBool bool | JObject

text \<open>
  \<^verbatim>\<open>Number.parseFloat(v)\<close> converts its argument to a string first: a number reads back as
  itself, \<^verbatim>\<open>null\<close>, booleans and objects read as \<^verbatim>\<open>NaN\<close>.
\<close>

fun parseFloat :: "jsval \<Rightarrow> jsnum" where
  "parseFloat (JNum r) = round_double r"
| "parseFloat (JStr s) = parseFloat_string s"
| "parseFloat JNull = NaN"
| "parseFloat (JBool b) = NaN"
| "parseFloat JObject = NaN"

text \<open>
  \<^verbatim>\<open>xs.slice(0, k)\<close>: a negative end counts from the end of the array.
\<close>

definition slice0 :: "int \<Rightarrow> 'a list \<Rightarrow> 'a list" where
  "slice0 k xs = (if 0 \<le> k then take (nat k) xs else take (length xs - nat (- k)) xs)"

text \<open>
  \<^verbatim>\<open>xs.sort(cmp)\<close>: the sort is stable; a comparator result that is \<^verbatim>\<open>NaN\<close> counts as 0.
  \<open>comes_after cmp x y\<close> says that the comparator puts \<open>x\<close> behind \<open>y\<close>. For a consistent
  comparator the result of a stable sort is unique, and insertion computes it.
\<close>

definition comes_after :: "('a \<Rightarrow> 'a \<Rightarrow> jsnum) \<Rightarrow> 'a \<Rightarrow> 'a \<Rightarrow> bool" where
  "comes_after cmp x y = js_gt (cmp x y) 0"

fun js_insert :: "('a \<Rightarrow> 'a \<Rightarrow> jsnum) \<Rightarrow> 'a \<Rightarrow> 'a list \<Rightarrow> 'a list" where
  "js_insert cmp x [] = [x]"
| "js_insert cmp x (y # ys) =
     (if comes_after cmp x y then y # js_insert cmp x ys else x # y # ys)"

fun js_sort :: "('a \<Rightarrow> 'a \<Rightarrow> jsnum) \<Rightarrow> 'a list \<Rightarrow> 'a list" where
  "js_sort cmp [] = []"
| "js_sort cmp (x # xs) = js_insert cmp x (js_sort cmp xs)"

text \<open>\<^verbatim>\<open>a || d\<close> on an optional string: \<^verbatim>\<open>null\<close>, \<^verbatim>\<open>undefined\<close> and \<^verbatim>\<open>""\<close> are falsy.\<close>

fun or_else :: "string option \<Rightarrow> string \<Rightarrow> string" where
  "or_else None d = d"
| "or_else (Some s) d = (if s = [] then d else s)"

fun or_opt :: "string option \<Rightarrow> string option \<Rightarrow> string option" where
  "or_opt None b = b"
| "or_opt (Some s) b = (if s = [] then b else Some s)"


section \<open>Data model (\<^verbatim>\<open>src/lib/api.ts\<close>, \<^verbatim>\<open>src/lib/vectorStore.ts\<close>)\<close>

text \<open>The interface \<^verbatim>\<open>HistoricalData\<close>.\<close>

record HistoricalData =
  year :: string
  price :: jsnum
  currency :: string

record SimilarProduct =
  hsn_code :: string
  product_name :: string
  similarity :: real
  countries :: "string list"

record SimilarHistoricalData = SimilarProduct +
  historicalData_of :: "HistoricalData list"

text \<open>
  The loosely typed \<^verbatim>\<open>metadata\<close> object of a stored document: every field may be absent.
  Objects are association lists; time stamps (ISO strings in the source) are milliseconds
  since the epoch, which the ISO format orders the same way. The object is stored as JSON,
  where a price is a finite number or \<^verbatim>\<open>null\<close> (\<open>None\<close>).
\<close>

record metadata =
  md_hsn_code :: "string option"
  md_name :: "string option"
  md_country :: "string option"
  md_type :: "string option"
  md_description :: "string option"
  md_years :: "string list option"
  md_prices :: "(string \<times> real option) list option"
  md_currencies :: "(string \<times> string) list option"
  md_created_at :: "nat option"
  md_updated_at :: "nat option"

text \<open>A row of the table \<^verbatim>\<open>documents\<close>, and a row returned by \<^verbatim>\<open>match_documents\<close>.\<close>

record document =
  doc_id :: nat
  doc_content :: "string option"
  doc_embedding :: "real list"
  doc_hsn_code :: "string option"
  doc_country :: "string option"
  doc_metadata :: "metadata option"
  doc_created_at :: "nat option"
  doc_updated_at :: "nat option"

record match_row = document +
  row_similarity :: "real option"

record VectorSimilarProduct = SimilarProduct +
  content :: "string option"
  vs_metadata :: "metadata option"

text \<open>A cell of the wide table \<^verbatim>\<open>market_prices\<close>; a row maps column names to cells.\<close>

datatype cell = CNull | CText string | CObject "(string \<times> jsval) list" | CNum real | CBool bool

type_synonym row = "(string \<times> cell) list"

text \<open>The error object of the store client: a code and a message.\<close>

datatype pg_error = PgError (pg_code: string) (pg_message: string)

text \<open>Every \<^verbatim>\<open>throw\<close> site of the sources; a wrapped error carries its cause.\<close>

datatype js_error =
    ServiceError string
  | DimensionError nat
  | InitError js_error
  | EmbeddingDimensionError nat
  | EmbeddingError int js_error
  | EmbeddingNotAttempted
  | CheckExistingError string
  | StoreError pg_error
  | UpdateRecordError js_error
  | DatabaseError string
  | NoDataForCode string
  | NoCountryData string
  | CountryNotFound string "string list"
  | NoValidData string string
  | FetchError js_error
  | InvalidDataFormat
  | JsonError
  | ParseError js_error
  | GroqAnalysisError js_error
  | PredictionError js_error
  | TypeError

text \<open>The two requests sent to the generative service, by the arguments the prompt is built from.\<close>

datatype groq_request =
    AnalysisRequest "HistoricalData list" string string string
      "SimilarProduct list" "SimilarHistoricalData list"
  | PredictionRequest "HistoricalData list" string string "SimilarProduct list"

text \<open>
  Everything outside the repository. The first fields are the external services: the
  embedding service, the faults of the store client, the generative service and the clock
  (all by the number of the call), the nearest-neighbour procedure, and \<^verbatim>\<open>JSON.parse\<close>
  followed by \<^verbatim>\<open>Object.entries\<close> (\<open>None\<close> when it throws). The others are the state: call
  counters, the module variable \<^verbatim>\<open>embeddings\<close>, the delays waited and the two tables.
\<close>

record world =
  hf_embed :: "nat \<Rightarrow> string \<Rightarrow> string + real list"
  db_fault :: "nat \<Rightarrow> string option"
  rpc_match :: "real list \<Rightarrow> real \<Rightarrow> int \<Rightarrow> match_row list option"
  groq_post :: "nat \<Rightarrow> groq_request \<Rightarrow> string + string option"
  clock :: "nat \<Rightarrow> nat"
  json_entries :: "string \<Rightarrow> (string \<times> jsval) list option"
  hf_calls :: nat
  db_calls :: nat
  groq_calls :: nat
  clock_reads :: nat
  embeddings :: bool
  waits :: "nat list"
  documents :: "document list"
  market_prices :: "row list"

text \<open>One request to the store: it may fail before reaching a table.\<close>

definition db_request :: "world \<Rightarrow> pg_error option \<times> world" where
  "db_request w =
     (map_option (PgError []) (db_fault w (db_calls w)), w\<lparr>db_calls := Suc (db_calls w)\<rparr>)"

text \<open>
  \<^verbatim>\<open>.single()\<close>: exactly one row, otherwise the error \<^verbatim>\<open>PGRST116\<close> (no row or several).
\<close>

definition single :: "'a list \<Rightarrow> 'a option \<times> pg_error option" where
  "single rows =
     (case rows of
        [r] \<Rightarrow> (Some r, None)
      | _ \<Rightarrow> (None, Some (PgError ''PGRST116'' ''JSON object requested, multiple (or no) rows returned'')))"

text \<open>\<^verbatim>\<open>new Date()\<close>: one reading of the clock.\<close>

definition new_Date :: "world \<Rightarrow> nat \<times> world" where
  "new_Date w = (clock w (clock_reads w), w\<lparr>clock_reads := Suc (clock_reads w)\<rparr>)"


section \<open>Historical data accessor (\<^verbatim>\<open>src/lib/api.ts\<close>, lines 204-303)\<close>

text \<open>\<^verbatim>\<open>Number.parseInt(item.year.split("-")[0])\<close>: the leading token of a year label.\<close>

definition year_key :: "string \<Rightarrow> jsnum" where
  "year_key y = parseInt (takeWhile (\<lambda>c. c \<noteq> CHR ''-'') y)"

text \<open>The comparator \<^verbatim>\<open>(a, b) => parseInt(b.year...) - parseInt(a.year...)\<close>.\<close>

definition by_year_desc :: "HistoricalData \<Rightarrow> HistoricalData \<Rightarrow> jsnum" where
  "by_year_desc a b = js_sub (year_key (year b)) (year_key (year a))"

text \<open>The filter \<^verbatim>\<open>!isNaN(item.price) && item.price > 0\<close>.\<close>

definition valid_price :: "HistoricalData \<Rightarrow> bool" where
  "valid_price item = (price item \<noteq> NaN \<and> js_gt (price item) 0)"

definition parseCountryData ::
  "(string \<Rightarrow> (string \<times> jsval) list option) \<Rightarrow> cell \<Rightarrow> js_error + HistoricalData list" where
  "parseCountryData json countryData =
     (case (case countryData of
              CText s \<Rightarrow> (case json s of None \<Rightarrow> Inl JsonError | Some es \<Rightarrow> Inr es)
            | CObject es \<Rightarrow> Inr es
            | _ \<Rightarrow> Inl InvalidDataFormat) of
        Inl parseError \<Rightarrow> Inl (ParseError parseError)
      | Inr parsedData \<Rightarrow>
          (let historicalPrices =
                 map (\<lambda>(y, p). \<lparr>year = y, price = parseFloat p, currency = ''USD''\<rparr>) parsedData;
               validData =
                 slice0 5 (js_sort by_year_desc (filter valid_price historicalPrices))
           in Inr validData))"

text \<open>
  \<^verbatim>\<open>!countryData\<close> on the cell read from the row (\<open>None\<close>: no such column). A number
  cell reaches the code as the double nearest to it.
\<close>

fun falsy_cell :: "cell option \<Rightarrow> bool" where
  "falsy_cell None = True"
| "falsy_cell (Some CNull) = True"
| "falsy_cell (Some (CText s)) = (s = [])"
| "falsy_cell (Some (CObject es)) = False"
| "falsy_cell (Some (CNum r)) = (round_double r = Fin 0)"
| "falsy_cell (Some (CBool b)) = (\<not> b)"

text \<open>
  The query \<^verbatim>\<open>from("market_prices").select("*").eq("hsn_code", Number.parseInt(hsnCode)).single()\<close>.
  The rows are compared with the number the code parses to. A code that parses to \<^verbatim>\<open>NaN\<close>
  or to an infinity reaches the store as that word; the store answers with an error.
\<close>

definition select_market_prices :: "string \<Rightarrow> world \<Rightarrow> (row option \<times> pg_error option) \<times> world" where
  "select_market_prices hsnCode w =
     (case db_request w of
        (Some err, w') \<Rightarrow> ((None, Some err), w')
      | (None, w') \<Rightarrow>
          (case parseInt hsnCode of
             Fin n \<Rightarrow>
               (single (filter (\<lambda>r. map_of r ''hsn_code'' = Some (CNum n)) (market_prices w')), w')
           | _ \<Rightarrow> ((None, Some (PgError ''22P02'' ''invalid input syntax'')), w')))"

definition fetchHistoricalData ::
  "string \<Rightarrow> string \<Rightarrow> world \<Rightarrow> (js_error + HistoricalData list) \<times> world" where
  "fetchHistoricalData hsnCode country w =
     (case select_market_prices hsnCode w of
        ((data, Some err), w') \<Rightarrow> (Inl (FetchError (DatabaseError (pg_message err))), w')
      | ((None, None), w') \<Rightarrow> (Inl (FetchError (NoDataForCode hsnCode)), w')
      | ((Some data, None), w') \<Rightarrow>
          (let countryData = map_of data country in
           if falsy_cell countryData then
             (let availableCountries =
                    filter (\<lambda>key. key \<noteq> ''hsn_code'' \<and> key \<noteq> ''id'' \<and> key \<noteq> ''created_at''
                                  \<and> key \<noteq> ''updated_at'' \<and> map_of data key \<noteq> Some CNull)
                      (map fst data)
              in if availableCountries = []
                 then (Inl (FetchError (NoCountryData hsnCode)), w')
                 else (Inl (FetchError (CountryNotFound country availableCountries)), w'))
           else
             (case parseCountryData (json_entries w')
                     (case countryData of None \<Rightarrow> CNull | Some c \<Rightarrow> c) of
                Inl e \<Rightarrow> (Inl (FetchError e), w')
              | Inr parsedData \<Rightarrow>
                  if parsedData = []
                  then (Inl (FetchError (NoValidData country hsnCode)), w')
                  else (Inr parsedData, w'))))"

definition getAvailableCountries :: "string \<Rightarrow> world \<Rightarrow> string list \<times> world" where
  "getAvailableCountries hsnCode w =
     (case select_market_prices hsnCode w of
        ((data, Some err), w') \<Rightarrow> ([], w')
      | ((None, None), w') \<Rightarrow> ([], w')
      | ((Some data, None), w') \<Rightarrow>
          (filter (\<lambda>key. key \<noteq> ''hsn_code'' \<and> key \<noteq> ''id'' \<and> key \<noteq> ''created_at''
                        \<and> key \<noteq> ''updated_at'' \<and> map_of data key \<noteq> Some CNull)
             (map fst data), w'))"


section \<open>Embedding client (\<^verbatim>\<open>src/lib/api.ts\<close>, lines 28-124)\<close>

definition EXPECTED_DIMENSIONS :: nat where
  "EXPECTED_DIMENSIONS = 384"

text \<open>\<^verbatim>\<open>embeddings.embedQuery(text)\<close>: one call of the embedding service.\<close>

definition embedQuery :: "string \<Rightarrow> world \<Rightarrow> (js_error + real list) \<times> world" where
  "embedQuery text w =
     ((case hf_embed w (hf_calls w) text of
         Inl m \<Rightarrow> Inl (ServiceError m)
       | Inr v \<Rightarrow> Inr v),
      w\<lparr>hf_calls := Suc (hf_calls w)\<rparr>)"

definition initializeEmbeddings :: "world \<Rightarrow> (js_error + unit) \<times> world" where
  "initializeEmbeddings w =
     (case embedQuery ''test'' w of
        (Inl error, w') \<Rightarrow> (Inl (InitError error), w')
      | (Inr testVector, w') \<Rightarrow>
          if length testVector \<noteq> EXPECTED_DIMENSIONS
          then (Inl (InitError (DimensionError (length testVector))), w')
          else (Inr (), w'))"

text \<open>The body of the \<^verbatim>\<open>try\<close> block of one attempt of \<^verbatim>\<open>generateEmbedding\<close>.\<close>

definition embedding_attempt :: "string \<Rightarrow> world \<Rightarrow> (js_error + real list) \<times> world" where
  "embedding_attempt text w =
     (case (if \<not> embeddings w
            then (case initializeEmbeddings w of
                    (Inl error, w') \<Rightarrow> (Inl error, w')
                  | (Inr u, w') \<Rightarrow> (Inr (), w'\<lparr>embeddings := True\<rparr>))
            else (Inr (), w)) of
        (Inl error, w1) \<Rightarrow> (Inl error, w1)
      | (Inr u, w1) \<Rightarrow>
          (case embedQuery text w1 of
             (Inl error, w2) \<Rightarrow> (Inl error, w2)
           | (Inr embedding, w2) \<Rightarrow>
               if length embedding \<noteq> EXPECTED_DIMENSIONS
               then (Inl (EmbeddingDimensionError (length embedding)), w2)
               else (Inr embedding, w2)))"

text \<open>
  The loop \<^verbatim>\<open>for (let attempt = 1; attempt <= retries; attempt++)\<close>, from a given attempt
  on. A failed attempt that is not the last waits \<^verbatim>\<open>Math.pow(2, attempt) * 1000\<close> ms.
\<close>

function generateEmbedding_from ::
  "int \<Rightarrow> string \<Rightarrow> int \<Rightarrow> world \<Rightarrow> (js_error + real list) \<times> world" where
  "generateEmbedding_from attempt text retries w =
     (if attempt \<le> retries then
        (case embedding_attempt text w of
           (Inr embedding, w') \<Rightarrow> (Inr embedding, w')
         | (Inl error, w') \<Rightarrow>
             if attempt = retries then (Inl (EmbeddingError retries error), w')
             else generateEmbedding_from (attempt + 1) text retries
                    (w'\<lparr>waits := waits w' @ [2 ^ nat attempt * 1000]\<rparr>))
      else (Inl EmbeddingNotAttempted, w))"
  by pat_completeness auto
termination
  by (relation "measure (\<lambda>(attempt, text, retries, w). nat (retries + 1 - attempt))") auto

definition generateEmbedding :: "string \<Rightarrow> int \<Rightarrow> world \<Rightarrow> (js_error + real list) \<times> world" where
  "generateEmbedding text retries w = generateEmbedding_from 1 text retries w"


section \<open>Document store adapter (\<^verbatim>\<open>src/lib/api.ts\<close>, lines 126-202)\<close>

function show_nat :: "nat \<Rightarrow> string" where
  "show_nat n =
     (if n < 10 then [''0123456789'' ! n]
      else show_nat (n div 10) @ [''0123456789'' ! (n mod 10)])"
  by pat_completeness auto
termination
  by (relation "measure id") auto

text \<open>
  \<^verbatim>\<open>x.toFixed(f)\<close> below \<open>10\<^sup>2\<^sup>1\<close>: the nearest multiple of \<open>10\<^sup>-\<^sup>f\<close>, the larger one at a tie,
  in decimal notation.
\<close>

definition toFixed :: "real \<Rightarrow> nat \<Rightarrow> string" where
  "toFixed x f =
     (let n = nat \<lfloor>\<bar>x\<bar> * 10 ^ f + 1 / 2\<rfloor>;
          ds = show_nat n;
          padded = replicate (Suc f - length ds) CHR ''0'' @ ds;
          ip = take (length padded - f) padded;
          fp = drop (length padded - f) padded
      in (if x < 0 then ''-'' else []) @ ip @ (if f = 0 then [] else ''.'' @ fp))"

text \<open>\<^verbatim>\<open>x.toFixed(f)\<close> on any number.\<close>

definition js_toFixed :: "jsnum \<Rightarrow> nat \<Rightarrow> string" where
  "js_toFixed x f =
     (case x of
        Fin r \<Rightarrow> toFixed r f
      | PosInf \<Rightarrow> ''Infinity''
      | NegInf \<Rightarrow> ''-Infinity''
      | NaN \<Rightarrow> ''NaN'')"

definition join :: "string \<Rightarrow> string list \<Rightarrow> string" where
  "join sep xs = (case xs of [] \<Rightarrow> [] | y # ys \<Rightarrow> foldl (\<lambda>acc z. acc @ sep @ z) y ys)"

definition newline :: string where
  "newline = [CHR 0x0A]"

text \<open>The text embedded and stored for a product, also used as the search query.\<close>

definition product_text :: "string \<Rightarrow> string \<Rightarrow> string \<Rightarrow> HistoricalData list \<Rightarrow> string" where
  "product_text productName hsnCode country historicalData =
     (let dataString =
            join newline
              (map (\<lambda>d. year d @ '': $'' @ js_toFixed (price d) 2 @ '' '' @ currency d) historicalData)
      in ''Product: '' @ productName @ newline @ ''HSN: '' @ hsnCode @ newline
         @ ''Country: '' @ country @ newline @ ''Historical Data:'' @ newline @ dataString)"

text \<open>\<^verbatim>\<open>Object.fromEntries\<close>: a later entry with the same key replaces the value.\<close>

fun obj_set :: "'k \<Rightarrow> 'v \<Rightarrow> ('k \<times> 'v) list \<Rightarrow> ('k \<times> 'v) list" where
  "obj_set k v [] = [(k, v)]"
| "obj_set k v ((k', v') # kvs) = (if k' = k then (k, v) # kvs else (k', v') # obj_set k v kvs)"

definition fromEntries :: "('k \<times> 'v) list \<Rightarrow> ('k \<times> 'v) list" where
  "fromEntries es = foldl (\<lambda>obj (k, v). obj_set k v obj) [] es"

text \<open>
  The three requests to the table \<^verbatim>\<open>documents\<close>: the lookup by code and country with
  \<^verbatim>\<open>.single()\<close>, the update by id, and the insert. The store assigns a new row an id that
  no row has; the insert leaves the column \<^verbatim>\<open>updated_at\<close> unset.
\<close>

definition select_document :: "string \<Rightarrow> string \<Rightarrow> world \<Rightarrow> (nat option \<times> pg_error option) \<times> world" where
  "select_document hsnCode country w =
     (case db_request w of
        (Some err, w') \<Rightarrow> ((None, Some err), w')
      | (None, w') \<Rightarrow>
          (single (map doc_id
                     (filter (\<lambda>d. doc_hsn_code d = Some hsnCode \<and> doc_country d = Some country)
                        (documents w'))), w'))"

definition update_document ::
  "nat \<Rightarrow> string \<Rightarrow> real list \<Rightarrow> metadata \<Rightarrow> nat \<Rightarrow> world \<Rightarrow> pg_error option \<times> world" where
  "update_document ident text embedding md t w =
     (case db_request w of
        (Some err, w') \<Rightarrow> (Some err, w')
      | (None, w') \<Rightarrow>
          (None, w'\<lparr>documents :=
                       map (\<lambda>d. if doc_id d = ident
                                then d\<lparr>doc_content := Some text, doc_embedding := embedding,
                                       doc_metadata := Some md, doc_updated_at := Some t\<rparr>
                                else d) (documents w')\<rparr>))"

definition fresh_id :: "document list \<Rightarrow> nat" where
  "fresh_id ds = Suc (foldr max (map doc_id ds) 0)"

definition insert_document ::
  "string \<Rightarrow> real list \<Rightarrow> string \<Rightarrow> string \<Rightarrow> metadata \<Rightarrow> nat \<Rightarrow> world \<Rightarrow> pg_error option \<times> world" where
  "insert_document text embedding hsnCode country md t w =
     (case db_request w of
        (Some err, w') \<Rightarrow> (Some err, w')
      | (None, w') \<Rightarrow>
          (None, w'\<lparr>documents := documents w' @
                       [\<lparr>doc_id = fresh_id (documents w'), doc_content = Some text,
                         doc_embedding = embedding, doc_hsn_code = Some hsnCode,
                         doc_country = Some country, doc_metadata = Some md,
                         doc_created_at = Some t, doc_updated_at = None\<rparr>]\<rparr>))"

text \<open>\<^verbatim>\<open>JSON.stringify\<close> writes a number that is not finite as \<^verbatim>\<open>null\<close>.\<close>

definition json_number :: "jsnum \<Rightarrow> real option" where
  "json_number x = (case x of Fin r \<Rightarrow> Some r | _ \<Rightarrow> None)"

text \<open>
  The object \<^verbatim>\<open>metadata\<close> built at lines 157-169, as the store receives it; \<open>t0\<close> is the
  time read for it.
\<close>

definition product_metadata ::
  "string \<Rightarrow> string \<Rightarrow> string \<Rightarrow> HistoricalData list \<Rightarrow> nat \<Rightarrow> metadata" where
  "product_metadata productName hsnCode country historicalData t0 =
     \<lparr>md_hsn_code = Some hsnCode, md_name = Some productName, md_country = Some country,
      md_type = Some ''product_with_history'',
      md_description = Some (''Historical prices for '' @ productName @ '' in '' @ country),
      md_years = Some (map year historicalData),
      md_prices = Some (fromEntries (map (\<lambda>d. (year d, json_number (price d))) historicalData)),
      md_currencies = Some (fromEntries (map (\<lambda>d. (year d, currency d)) historicalData)),
      md_created_at = Some t0, md_updated_at = None\<rparr>"

definition storeProductWithHistoricalData ::
  "string \<Rightarrow> string \<Rightarrow> string \<Rightarrow> HistoricalData list \<Rightarrow> world \<Rightarrow> (js_error + unit) \<times> world" where
  "storeProductWithHistoricalData productName hsnCode country historicalData w =
     (if historicalData = [] then (Inr (), w)
      else
        (let text = product_text productName hsnCode country historicalData in
         case generateEmbedding text 3 w of
           (Inl error, w1) \<Rightarrow> (Inl (UpdateRecordError error), w1)
         | (Inr embedding, w1) \<Rightarrow>
             (case select_document hsnCode country w1 of
                ((existing, fetchError), w2) \<Rightarrow>
                  (case (case fetchError of
                           None \<Rightarrow> None
                         | Some fe \<Rightarrow> if pg_code fe \<noteq> ''PGRST116'' then Some fe else None) of
                     Some fe \<Rightarrow>
                       (Inl (UpdateRecordError (CheckExistingError (pg_message fe))), w2)
                   | None \<Rightarrow>
                       (let (t0, w3) = new_Date w2;
                            md = product_metadata productName hsnCode country historicalData t0
                        in case existing of
                             Some ident \<Rightarrow>
                               (let (t1, w4) = new_Date w3;
                                    (t2, w5) = new_Date w4
                                in case update_document ident text embedding
                                          (md\<lparr>md_updated_at := Some t1\<rparr>) t2 w5 of
                                     (Some updateError, w6) \<Rightarrow>
                                       (Inl (UpdateRecordError (StoreError updateError)), w6)
                                   | (None, w6) \<Rightarrow> (Inr (), w6))
                           | None \<Rightarrow>
                               (let (t1, w4) = new_Date w3
                                in case insert_document text embedding hsnCode country md t1 w4 of
                                     (Some insertError, w5) \<Rightarrow>
                                       (Inl (UpdateRecordError (StoreError insertError)), w5)
                                   | (None, w5) \<Rightarrow> (Inr (), w5)))))))"


section \<open>Similarity search (\<^verbatim>\<open>src/lib/api.ts\<close>, lines 312-400)\<close>

text \<open>\<^verbatim>\<open>supabase.rpc("match_documents", ...)\<close>: the answer is \<^verbatim>\<open>{data, error}\<close>.\<close>

definition rpc_match_documents ::
  "real list \<Rightarrow> real \<Rightarrow> int \<Rightarrow> world \<Rightarrow> (match_row list option \<times> pg_error option) \<times> world" where
  "rpc_match_documents query_embedding match_threshold match_count w =
     (case db_request w of
        (Some err, w') \<Rightarrow> ((None, Some err), w')
      | (None, w') \<Rightarrow> ((rpc_match w' query_embedding match_threshold match_count, None), w'))"

text \<open>\<^verbatim>\<open>item.metadata?.f\<close>.\<close>

definition meta :: "(metadata \<Rightarrow> 'a option) \<Rightarrow> 'r document_scheme \<Rightarrow> 'a option" where
  "meta f item = (case doc_metadata item of None \<Rightarrow> None | Some md \<Rightarrow> f md)"

text \<open>
  \<^verbatim>\<open>years.map(year => ({year, price: prices[year] || 0, currency: currencies[year] || "USD"}))\<close>.
\<close>

definition docHistoricalData ::
  "string list \<Rightarrow> (string \<times> real option) list \<Rightarrow> (string \<times> string) list \<Rightarrow> HistoricalData list" where
  "docHistoricalData years prices currencies =
     map (\<lambda>y. \<lparr>year = y,
               price = (case map_of prices y of Some (Some p) \<Rightarrow> Fin p | _ \<Rightarrow> Fin 0),
               currency = or_else (map_of currencies y) ''USD''\<rparr>) years"

text \<open>
  The loop over the rows returned by the procedure, with the two arrays it pushes to. A
  similarity that is not a number fails the comparison \<^verbatim>\<open>similarity >= 50\<close>. An array or
  an object that is present is truthy, also when it is empty.
\<close>

fun process_results ::
  "string \<Rightarrow> string \<Rightarrow> match_row list \<Rightarrow> SimilarProduct list \<times> SimilarHistoricalData list
     \<Rightarrow> SimilarProduct list \<times> SimilarHistoricalData list" where
  "process_results hsnCode country [] acc = acc"
| "process_results hsnCode country (item # data) (similarProducts, similarHistoricalData) =
     (if doc_hsn_code item = Some hsnCode \<and> doc_country item = Some country
      then process_results hsnCode country data (similarProducts, similarHistoricalData)
      else
        (case row_similarity item of
           None \<Rightarrow> process_results hsnCode country data (similarProducts, similarHistoricalData)
         | Some s \<Rightarrow>
             (let similarity = s * 100 in
              if meta md_type item = Some ''product_with_history'' \<and> similarity \<ge> 50 then
                (let pushed =
                       similarProducts @
                         [\<lparr>hsn_code = or_else (doc_hsn_code item) ''Unknown'',
                           product_name = or_else (meta md_name item) ''Unknown Product'',
                           similarity = min 100 similarity,
                           countries = [or_else (doc_country item) ''Unknown'']\<rparr>]
                 in case (meta md_years item, meta md_prices item) of
                      (Some years, Some prices) \<Rightarrow>
                        process_results hsnCode country data
                          (pushed,
                           similarHistoricalData @
                             [\<lparr>hsn_code = or_else (doc_hsn_code item) ''Unknown'',
                               product_name = or_else (meta md_name item) ''Unknown Product'',
                               similarity = min 100 similarity,
                               countries = [or_else (doc_country item) ''Unknown''],
                               historicalData_of =
                                 docHistoricalData years prices
                                   (case meta md_currencies item of None \<Rightarrow> [] | Some cs \<Rightarrow> cs)\<rparr>])
                    | _ \<Rightarrow> process_results hsnCode country data (pushed, similarHistoricalData))
              else process_results hsnCode country data (similarProducts, similarHistoricalData))))"

definition findSimilarHistoricalData ::
  "string \<Rightarrow> string \<Rightarrow> string \<Rightarrow> HistoricalData list \<Rightarrow> int \<Rightarrow> world
     \<Rightarrow> (SimilarProduct list \<times> SimilarHistoricalData list) \<times> world" where
  "findSimilarHistoricalData productName hsnCode country historicalData limit w =
     (case storeProductWithHistoricalData productName hsnCode country historicalData w of
        (Inl error, w1) \<Rightarrow> (([], []), w1)
      | (Inr u, w1) \<Rightarrow>
          (let query = product_text productName hsnCode country historicalData in
           case generateEmbedding query 3 w1 of
             (Inl error, w2) \<Rightarrow> (([], []), w2)
           | (Inr queryEmbedding, w2) \<Rightarrow>
               (case rpc_match_documents queryEmbedding 0.3 (limit * 2) w2 of
                  ((data, Some error), w3) \<Rightarrow> (([], []), w3)
                | ((None, None), w3) \<Rightarrow> (([], []), w3)
                | ((Some data, None), w3) \<Rightarrow>
                    if data = [] then (([], []), w3)
                    else
                      (let (similarProducts, similarHistoricalData) =
                             process_results hsnCode country data ([], [])
                       in ((slice0 limit similarProducts, slice0 limit similarHistoricalData),
                           w3)))))"


section \<open>Vector store helpers (\<^verbatim>\<open>src/lib/vectorStore.ts\<close>)\<close>

definition toLowerCase :: "string \<Rightarrow> string" where
  "toLowerCase s =
     map (\<lambda>c. if 65 \<le> (of_char c :: nat) \<and> (of_char c :: nat) \<le> 90
              then ''abcdefghijklmnopqrstuvwxyz'' ! ((of_char c :: nat) - 65) else c) s"

text \<open>
  \<^verbatim>\<open>s.split(/\s+/)\<close>: every maximal run of white space is one separator; a separator at
  either end leaves an empty string there.
\<close>

fun split_ws_from :: "string \<Rightarrow> string \<Rightarrow> string list" where
  "split_ws_from cur [] = [rev cur]"
| "split_ws_from cur (c # cs) =
     (if is_space c then
        (case cs of
           [] \<Rightarrow> rev cur # split_ws_from [] cs
         | d # ds \<Rightarrow> if is_space d then split_ws_from cur cs
                     else rev cur # split_ws_from [] cs)
      else split_ws_from (c # cur) cs)"

definition split_ws :: "string \<Rightarrow> string list" where
  "split_ws s = split_ws_from [] s"

text \<open>\<^verbatim>\<open>s.includes(t)\<close>: \<open>t\<close> occurs in \<open>s\<close>.\<close>

fun str_includes :: "string \<Rightarrow> string \<Rightarrow> bool" where
  "str_includes [] t = (t = [])"
| "str_includes (c # cs) t = (take (length t) (c # cs) = t \<or> str_includes cs t)"

text \<open>\<^verbatim>\<open>s.replace(pat, rep)\<close> with a string pattern: the first occurrence only.\<close>

fun replace_first :: "string \<Rightarrow> string \<Rightarrow> string \<Rightarrow> string" where
  "replace_first pat rep [] = (if pat = [] then rep else [])"
| "replace_first pat rep (c # cs) =
     (if take (length pat) (c # cs) = pat then rep @ drop (length pat) (c # cs)
      else c # replace_first pat rep cs)"

text \<open>
  The query of the fallback: documents of the historical type, without those whose column
  \<^verbatim>\<open>hsn_code\<close> is the excluded code when one is given, at most 100 rows. The comparison
  \<^verbatim>\<open>neq\<close> of the store drops a row whose column is null.
\<close>

definition select_history_documents ::
  "string option \<Rightarrow> world \<Rightarrow> (document list option \<times> pg_error option) \<times> world" where
  "select_history_documents excludeHsnCode w =
     (case db_request w of
        (Some err, w') \<Rightarrow> ((None, Some err), w')
      | (None, w') \<Rightarrow>
          ((Some (take 100
                    (filter (\<lambda>d. meta md_type d = Some ''product_with_history''
                                 \<and> (case or_opt excludeHsnCode None of
                                      None \<Rightarrow> True
                                    | Some ex \<Rightarrow>
                                        (case doc_hsn_code d of
                                           None \<Rightarrow> False
                                         | Some h \<Rightarrow> h \<noteq> ex)))
                       (documents w'))), None), w'))"

text \<open>The body of the loop over the documents: the product pushed for one document, if any.\<close>

definition simple_candidate :: "string list \<Rightarrow> document \<Rightarrow> VectorSimilarProduct option" where
  "simple_candidate queryWords doc =
     (let contentWords = (case doc_content doc of None \<Rightarrow> [] | Some c \<Rightarrow> split_ws (toLowerCase c));
          nameWords = split_ws (toLowerCase (or_else (meta md_name doc) []));
          allWords = contentWords @ nameWords;
          commonWords =
            filter (\<lambda>queryWord. \<exists>docWord \<in> set allWords.
                      str_includes docWord queryWord \<or> str_includes queryWord docWord) queryWords;
          similarity = real (length commonWords) / real (max (length queryWords) 1) * 100
      in if similarity > 20 then
           Some \<lparr>hsn_code = or_else (or_opt (doc_hsn_code doc) (meta md_hsn_code doc)) ''Unknown'',
                 product_name = or_else (meta md_name doc) ''Unknown Product'',
                 similarity = similarity,
                 countries = [or_else (or_opt (doc_country doc) (meta md_country doc)) ''Unknown''],
                 content = Some (or_else (doc_content doc) []),
                 vs_metadata = doc_metadata doc\<rparr>
         else None)"

definition searchSimilarProductsSimple ::
  "string \<Rightarrow> string option \<Rightarrow> int \<Rightarrow> world \<Rightarrow> VectorSimilarProduct list \<times> world" where
  "searchSimilarProductsSimple query excludeHsnCode k w =
     (case select_history_documents excludeHsnCode w of
        ((data, Some error), w') \<Rightarrow> ([], w')
      | ((None, None), w') \<Rightarrow> ([], w')
      | ((Some data, None), w') \<Rightarrow>
          (let queryWords = filter (\<lambda>word. length word > 2) (split_ws (toLowerCase query));
               similarities = List.map_filter (simple_candidate queryWords) data;
               results = slice0 k (js_sort (\<lambda>a b. Fin (similarity b - similarity a)) similarities)
           in (results, w')))"

text \<open>The filter of the primary path of \<^verbatim>\<open>searchSimilarProducts\<close>.\<close>

definition keep_row :: "string option \<Rightarrow> match_row \<Rightarrow> bool" where
  "keep_row excludeHsnCode item =
     (if (case or_opt excludeHsnCode None of
            None \<Rightarrow> False
          | Some ex \<Rightarrow> doc_hsn_code item = Some ex \<or> meta md_hsn_code item = Some ex)
      then False
      else if meta md_type item \<noteq> Some ''product_with_history'' then False
      else (case row_similarity item of None \<Rightarrow> False | Some s \<Rightarrow> s \<ge> 0.1))"

text \<open>
  The mapping of a kept row. Reading \<^verbatim>\<open>item.content.split\<close> throws a \<^verbatim>\<open>TypeError\<close> when the
  row has neither a name nor a content.
\<close>

definition to_product :: "match_row \<Rightarrow> js_error + VectorSimilarProduct" where
  "to_product item =
     (case (case or_opt (meta md_name item) None of
              Some n \<Rightarrow> Inr n
            | None \<Rightarrow>
                (case doc_content item of
                   None \<Rightarrow> Inl TypeError
                 | Some c \<Rightarrow>
                     Inr (or_else (Some (replace_first ''Product: '' []
                                           (takeWhile (\<lambda>ch. ch \<noteq> CHR 0x0A) c)))
                            ''Unknown Product''))) of
        Inl e \<Rightarrow> Inl e
      | Inr name \<Rightarrow>
          Inr \<lparr>hsn_code = or_else (or_opt (doc_hsn_code item) (meta md_hsn_code item)) ''Unknown'',
                product_name = name,
                similarity = min 100 ((case row_similarity item of None \<Rightarrow> 0 | Some s \<Rightarrow> s) * 100),
                countries = [or_else (or_opt (doc_country item) (meta md_country item)) ''Unknown''],
                content = doc_content item,
                vs_metadata = doc_metadata item\<rparr>)"

text \<open>\<^verbatim>\<open>xs.map(f)\<close> for an \<open>f\<close> that may throw: the first error aborts the mapping.\<close>

fun map_throwing :: "('a \<Rightarrow> js_error + 'b) \<Rightarrow> 'a list \<Rightarrow> js_error + 'b list" where
  "map_throwing f [] = Inr []"
| "map_throwing f (x # xs) =
     (case f x of
        Inl e \<Rightarrow> Inl e
      | Inr y \<Rightarrow> (case map_throwing f xs of Inl e \<Rightarrow> Inl e | Inr ys \<Rightarrow> Inr (y # ys)))"

definition searchSimilarProducts ::
  "string \<Rightarrow> string option \<Rightarrow> int \<Rightarrow> world \<Rightarrow> VectorSimilarProduct list \<times> world" where
  "searchSimilarProducts query excludeHsnCode k w =
     (case generateEmbedding query 3 w of
        (Inl error, w1) \<Rightarrow> searchSimilarProductsSimple query excludeHsnCode k w1
      | (Inr queryEmbedding, w1) \<Rightarrow>
          (case rpc_match_documents queryEmbedding 0.1 (k + 10) w1 of
             ((data, Some error), w2) \<Rightarrow> searchSimilarProductsSimple query excludeHsnCode k w2
           | ((None, None), w2) \<Rightarrow> searchSimilarProductsSimple query excludeHsnCode k w2
           | ((Some data, None), w2) \<Rightarrow>
               if data = [] then searchSimilarProductsSimple query excludeHsnCode k w2
               else
                 (case map_throwing to_product (slice0 k (filter (keep_row excludeHsnCode) data)) of
                    Inl error \<Rightarrow> searchSimilarProductsSimple query excludeHsnCode k w2
                  | Inr similarProducts \<Rightarrow> (similarProducts, w2))))"


section \<open>Remote analysis and prediction (\<^verbatim>\<open>src/lib/api.ts\<close>, lines 305-310 and 402-545)\<close>

text \<open>The body of \<^verbatim>\<open>initializeProductEmbedding\<close> is empty; the country has a default value.\<close>

definition initializeProductEmbedding ::
  "string \<Rightarrow> string \<Rightarrow> string option \<Rightarrow> world \<Rightarrow> (js_error + unit) \<times> world" where
  "initializeProductEmbedding productName hsnCode country w = (Inr (), w)"

text \<open>
  \<^verbatim>\<open>axios.post\<close> to the generative service. The answer is an error or the content of the
  first choice, which may be missing.
\<close>

definition groq_call :: "groq_request \<Rightarrow> world \<Rightarrow> (string + string option) \<times> world" where
  "groq_call req w = (groq_post w (groq_calls w) req, w\<lparr>groq_calls := Suc (groq_calls w)\<rparr>)"

definition analyzeWithEnhancedContext ::
  "HistoricalData list \<Rightarrow> string \<Rightarrow> string \<Rightarrow> string
     \<Rightarrow> SimilarProduct list \<times> SimilarHistoricalData list \<Rightarrow> world \<Rightarrow> (js_error + string) \<times> world" where
  "analyzeWithEnhancedContext historicalData productName country hsnCode similarResults w =
     (case groq_call (AnalysisRequest historicalData productName country hsnCode
                        (fst similarResults) (snd similarResults)) w of
        (Inl error, w') \<Rightarrow> (Inl (GroqAnalysisError (ServiceError error)), w')
      | (Inr c, w') \<Rightarrow> (Inr (or_else c ''No response''), w'))"

definition generateMarketPrediction ::
  "HistoricalData list \<Rightarrow> string \<Rightarrow> string \<Rightarrow> SimilarProduct list \<Rightarrow> world
     \<Rightarrow> (js_error + string) \<times> world" where
  "generateMarketPrediction historicalData productName country similarProducts w =
     (case groq_call (PredictionRequest historicalData productName country similarProducts) w of
        (Inl error, w') \<Rightarrow> (Inl (PredictionError (ServiceError error)), w')
      | (Inr c, w') \<Rightarrow> (Inr (or_else c ''No prediction available''), w'))"


section \<open>The analyzer screen (\<^verbatim>\<open>src/app/(tabs)/index.tsx\<close>)\<close>

text \<open>
  The report of the local analysis, by the values its template interpolates (the
  pictographs of the fixed lines are left out).
\<close>

record local_report =
  lr_productName :: string
  lr_hsnCode :: string
  lr_countryName :: string
  currentSellingPrice :: jsnum
  currentYear :: string
  trend :: string
  recentChange :: jsnum
  minHistoricalPrice :: jsnum
  maxHistoricalPrice :: jsnum
  marketPosition :: string
  similarProductsSection :: "SimilarProduct list"
  recommendation :: string
  dataPoints :: nat

text \<open>The texts the screen shows as result and as prediction, by the template they come from.\<close>

datatype result_text =
    Blank
  | NoHistoricalData
  | LocalReport local_report
  | AiAnalysis string
  | AnalysisFailed js_error

datatype prediction_text = NoPrediction | MarketPrediction string | PredictionUnavailable

datatype alert =
    MissingInformation
  | NoDataFound "string list"
  | NoDataAvailable
  | AnalysisErrorAlert js_error

definition analyzeLocalData ::
  "HistoricalData list \<Rightarrow> string \<Rightarrow> string \<Rightarrow> string \<Rightarrow> SimilarProduct list option \<Rightarrow> result_text" where
  "analyzeLocalData data productName countryName hsnCode similarProducts =
     (case data of
        [] \<Rightarrow> NoHistoricalData
      | d0 # rest \<Rightarrow>
          (let prices = map price data;
               currentSellingPrice = price d0;
               previousPrice = (case rest of [] \<Rightarrow> price d0 | d1 # ds \<Rightarrow> price d1);
               minHistoricalPrice = foldl js_min (price d0) (map price rest);
               maxHistoricalPrice = foldl js_max (price d0) (map price rest);
               recentChange =
                 (if length prices > 1
                  then js_times100 (js_div (js_sub currentSellingPrice previousPrice) previousPrice)
                  else Fin 0);
               trend =
                 (if length prices > 1 then
                    (if js_gt recentChange 2 then ''increasing''
                     else if js_lt recentChange (- 2) then ''decreasing''
                     else ''stable'')
                  else ''stable'')
           in LocalReport
                \<lparr>lr_productName = productName, lr_hsnCode = hsnCode, lr_countryName = countryName,
                 currentSellingPrice = currentSellingPrice,
                 currentYear = year d0,
                 trend = trend,
                 recentChange = recentChange,
                 minHistoricalPrice = minHistoricalPrice,
                 maxHistoricalPrice = maxHistoricalPrice,
                 marketPosition =
                   (if js_eq currentSellingPrice maxHistoricalPrice then ''At HIGHEST historical price''
                    else if js_eq currentSellingPrice minHistoricalPrice then ''At LOWEST historical price''
                    else if js_greater currentSellingPrice
                              (js_div (js_add minHistoricalPrice maxHistoricalPrice) (Fin 2))
                    then ''Above historical average''
                    else ''Below historical average''),
                 similarProductsSection = (case similarProducts of None \<Rightarrow> [] | Some ps \<Rightarrow> ps),
                 recommendation =
                   (if trend = ''increasing'' then ''Prices trending UP - Consider timing''
                    else if trend = ''decreasing'' then ''Prices trending DOWN - Good opportunity''
                    else ''Stable pricing - Predictable conditions''),
                 dataPoints = length data\<rparr>))"

text \<open>The state of the screen: the React state variables and the alerts shown so far.\<close>

record screen =
  st_product :: string
  st_hsnCode :: string
  st_country :: string
  st_result :: result_text
  st_isLoading :: bool
  st_isLoadingSimilar :: bool
  st_historicalData :: "HistoricalData list"
  st_useAI :: bool
  st_prediction :: prediction_text
  st_similarProducts :: "SimilarProduct list"
  st_similarHistoricalData :: "SimilarHistoricalData list"
  st_useEmbeddings :: bool
  st_alerts :: "alert list"

definition trim :: "string \<Rightarrow> string" where
  "trim s = rev (dropWhile is_space (rev (dropWhile is_space s)))"

definition toUpperCase :: "string \<Rightarrow> string" where
  "toUpperCase s =
     map (\<lambda>c. if 97 \<le> (of_char c :: nat) \<and> (of_char c :: nat) \<le> 122
              then ''ABCDEFGHIJKLMNOPQRSTUVWXYZ'' ! ((of_char c :: nat) - 97) else c) s"

text \<open>
  Lines 228-258: the dispatch to the remote or the local analysis. The result is the
  screen reached and the error thrown, if any.
\<close>

definition dispatch_analysis ::
  "HistoricalData list \<Rightarrow> SimilarProduct list \<times> SimilarHistoricalData list \<Rightarrow> screen \<Rightarrow> screen
     \<Rightarrow> world \<Rightarrow> (js_error option \<times> screen) \<times> world" where
  "dispatch_analysis data similarResults s0 s w =
     (if st_useAI s0 then
        (case analyzeWithEnhancedContext data (trim (st_product s0)) (trim (st_country s0))
                (trim (st_hsnCode s0)) similarResults w of
           (Inl error, w1) \<Rightarrow> ((Some error, s), w1)
         | (Inr aiResult, w1) \<Rightarrow>
             (let s1 = s\<lparr>st_result := AiAnalysis aiResult\<rparr> in
              case generateMarketPrediction data (trim (st_product s0)) (trim (st_country s0))
                     (fst similarResults) w1 of
                (Inl predError, w2) \<Rightarrow> ((None, s1\<lparr>st_prediction := PredictionUnavailable\<rparr>), w2)
              | (Inr predictionResult, w2) \<Rightarrow>
                  ((None, s1\<lparr>st_prediction := MarketPrediction predictionResult\<rparr>), w2)))
      else
        ((None, s\<lparr>st_result :=
                     analyzeLocalData data (trim (st_product s0)) (trim (st_country s0))
                       (trim (st_hsnCode s0)) (Some (fst similarResults))\<rparr>), w))"

text \<open>
  Lines 204-226: the similarity search, made when embeddings are enabled. \<open>s0\<close> is the
  state the handler was created with, which its closure reads.
\<close>

definition similar_step ::
  "screen \<Rightarrow> HistoricalData list \<Rightarrow> world
     \<Rightarrow> (SimilarProduct list \<times> SimilarHistoricalData list) \<times> world" where
  "similar_step s0 data w =
     (if st_useEmbeddings s0
      then findSimilarHistoricalData (trim (st_product s0)) (trim (st_hsnCode s0))
             (toUpperCase (trim (st_country s0))) data 5 w
      else (([], []), w))"

text \<open>
  The body of the outer \<^verbatim>\<open>try\<close> of \<^verbatim>\<open>handleAnalyze\<close>; \<open>s\<close> is the state being written.
\<close>

definition handleAnalyze_try ::
  "screen \<Rightarrow> screen \<Rightarrow> world \<Rightarrow> (js_error option \<times> screen) \<times> world" where
  "handleAnalyze_try s0 s w =
     (let w0 = (if st_useEmbeddings s0
                then snd (initializeProductEmbedding (trim (st_product s0)) (trim (st_hsnCode s0))
                            (Some (toUpperCase (trim (st_country s0)))) w)
                else w) in
      case fetchHistoricalData (trim (st_hsnCode s0)) (toUpperCase (trim (st_country s0))) w0 of
        (Inl dataError, w1) \<Rightarrow>
          (let (availableCountries, w2) = getAvailableCountries (trim (st_hsnCode s0)) w1;
               shown = (if length availableCountries > 0 then NoDataFound availableCountries
                        else NoDataAvailable)
           in ((None, s\<lparr>st_alerts := st_alerts s @ [shown], st_result := NoHistoricalData\<rparr>), w2))
      | (Inr data, w1) \<Rightarrow>
          (let s1 = s\<lparr>st_historicalData := data\<rparr> in
           case similar_step s0 data w1 of
             (similarResults, w2) \<Rightarrow>
               dispatch_analysis data similarResults s0
                 (if st_useEmbeddings s0
                  then s1\<lparr>st_similarProducts := fst similarResults,
                          st_similarHistoricalData := snd similarResults,
                          st_isLoadingSimilar := False\<rparr>
                  else s1) w2))"

definition handleAnalyze :: "screen \<Rightarrow> world \<Rightarrow> screen \<times> world" where
  "handleAnalyze s0 w =
     (if trim (st_product s0) = [] \<or> trim (st_country s0) = [] \<or> trim (st_hsnCode s0) = []
      then (s0\<lparr>st_alerts := st_alerts s0 @ [MissingInformation]\<rparr>, w)
      else
        (let s = s0\<lparr>st_isLoading := True, st_isLoadingSimilar := False, st_result := Blank,
                    st_prediction := NoPrediction, st_historicalData := [],
                    st_similarProducts := [], st_similarHistoricalData := []\<rparr> in
         case handleAnalyze_try s0 s w of
           ((thrown, s1), w1) \<Rightarrow>
             (let s2 = (case thrown of
                          None \<Rightarrow> s1
                        | Some error \<Rightarrow>
                            s1\<lparr>st_alerts := st_alerts s1 @ [AnalysisErrorAlert error],
                               st_result := AnalysisFailed error\<rparr>)
              in (s2\<lparr>st_isLoading := False, st_isLoadingSimilar := False\<rparr>, w1))))"

declare generateEmbedding_from.simps [simp del]
declare show_nat.simps [simp del]
declare bit_length.simps [simp del]


section \<open>Auxiliary notions and sample inputs\<close>

text \<open>\<^verbatim>\<open>Number.isFinite\<close>: neither \<^verbatim>\<open>NaN\<close> nor an infinity.\<close>

definition isFinite :: "jsnum \<Rightarrow> bool" where
  "isFinite x = (case x of Fin r \<Rightarrow> True | _ \<Rightarrow> False)"

text \<open>
  The leading numeric token of a record's year label (0 when the label has none, or one that
  is not finite).
\<close>

definition leading_year :: "HistoricalData \<Rightarrow> real" where
  "leading_year r = (case year_key (year r) of Fin k \<Rightarrow> k | _ \<Rightarrow> 0)"

text \<open>
  What a truthy cell of a market column parses to: the entries of the object, or of the
  JSON text.
\<close>

definition column_entries ::
  "(string \<Rightarrow> (string \<times> jsval) list option) \<Rightarrow> cell \<Rightarrow> (string \<times> jsval) list option" where
  "column_entries json c =
     (case c of
        CObject es \<Rightarrow> Some es
      | CText s \<Rightarrow> if s = [] then None else json s
      | _ \<Rightarrow> None)"

text \<open>The records \<^verbatim>\<open>parseCountryData\<close> keeps, before sorting and truncation.\<close>

definition valid_records :: "(string \<times> jsval) list \<Rightarrow> HistoricalData list" where
  "valid_records es =
     filter valid_price (map (\<lambda>(y, p). \<lparr>year = y, price = parseFloat p, currency = ''USD''\<rparr>) es)"

text \<open>A world whose services all answer, with empty tables.\<close>

definition world0 :: world where
  "world0 =
     \<lparr>hf_embed = (\<lambda>k t. Inr (replicate 384 0)),
      db_fault = (\<lambda>k. None),
      rpc_match = (\<lambda>q t c. Some []),
      groq_post = (\<lambda>k r. Inr (Some ''Prices are stable.'')),
      clock = (\<lambda>k. 1000 + k),
      json_entries = (\<lambda>s. None),
      hf_calls = 0, db_calls = 0, groq_calls = 0, clock_reads = 0,
      embeddings = False, waits = [], documents = [], market_prices = []\<rparr>"

definition sample_entries :: "(string \<times> jsval) list" where
  "sample_entries =
     [(''2019'', JNum 0), (''2021'', JNum 90), (''2023'', JStr ''120.50''),
      (''2022-2023'', JNum 110), (''2018'', JStr ''n/a'')]"

definition sample_row :: row where
  "sample_row = [(''hsn_code'', CNum 1234), (''INDIA'', CObject sample_entries), (''CHINA'', CNull)]"

definition sample_world :: world where
  "sample_world = world0\<lparr>market_prices := [sample_row]\<rparr>"

text \<open>A market column with a year and a range of years that start with the same year.\<close>

definition range_prices :: "row list" where
  "range_prices =
     [[(''hsn_code'', CNum 1234),
       (''INDIA'', CObject [(''2020'', JNum 100), (''2020-2021'', JNum 120)])]]"

definition range_world :: world where
  "range_world = world0\<lparr>market_prices := range_prices\<rparr>"

definition range_records :: "HistoricalData list" where
  "range_records =
     [\<lparr>year = ''2020'', price = Fin 100, currency = ''USD''\<rparr>,
      \<lparr>year = ''2020-2021'', price = Fin 120, currency = ''USD''\<rparr>]"

text \<open>
  A market column whose only price is a text too small for a double, and one whose prices
  are a literal too large for a double and the text \<^verbatim>\<open>Infinity\<close>.
\<close>

definition tiny_world :: world where
  "tiny_world =
     world0\<lparr>market_prices :=
       [[(''hsn_code'', CNum 1234), (''INDIA'', CObject [(''2021'', JStr ''1e-400'')])]]\<rparr>"

definition huge_world :: world where
  "huge_world =
     world0\<lparr>market_prices :=
       [[(''hsn_code'', CNum 1234),
         (''INDIA'', CObject [(''2020'', JStr ''1e400''), (''2021'', JStr ''Infinity'')])]]\<rparr>"

text \<open>The two record lists of the local analysis examples, newest first.\<close>

definition rising :: "HistoricalData list" where
  "rising = [\<lparr>year = ''2024'', price = Fin 120, currency = ''USD''\<rparr>,
             \<lparr>year = ''2023'', price = Fin 100, currency = ''USD''\<rparr>]"


text \<open>
  A filled-in screen in remote mode without embeddings, and two worlds: one whose
  generative service answers the first request and fails the second, one whose service
  fails at once.
\<close>

definition remote_screen :: screen where
  "remote_screen =
     \<lparr>st_product = ''Basmati rice'', st_hsnCode = ''1234'', st_country = '' india'',
      st_result = Blank, st_isLoading = False, st_isLoadingSimilar = False,
      st_historicalData = [], st_useAI = True, st_prediction = NoPrediction,
      st_similarProducts = [], st_similarHistoricalData = [], st_useEmbeddings = False,
      st_alerts = []\<rparr>"

definition sample_records :: "HistoricalData list" where
  "sample_records =
     [\<lparr>year = ''2023'', price = Fin 120.5, currency = ''USD''\<rparr>,
      \<lparr>year = ''2022-2023'', price = Fin 110, currency = ''USD''\<rparr>,
      \<lparr>year = ''2021'', price = Fin 90, currency = ''USD''\<rparr>]"

definition prediction_down :: world where
  "prediction_down =
     sample_world\<lparr>groq_post := (\<lambda>k r. if k = 0 then Inr (Some ''Prices are stable.'')
                                      else Inl ''timeout'')\<rparr>"

definition service_down :: world where
  "service_down = sample_world\<lparr>groq_post := (\<lambda>k r. Inl ''timeout'')\<rparr>"

text \<open>Two worlds agree on everything but the state of the embedding client.\<close>

definition same_store :: "world \<Rightarrow> world \<Rightarrow> bool" where
  "same_store w w' =
     (documents w' = documents w \<and> market_prices w' = market_prices w
      \<and> db_calls w' = db_calls w \<and> clock_reads w' = clock_reads w \<and> groq_calls w' = groq_calls w
      \<and> db_fault w' = db_fault w \<and> clock w' = clock w \<and> rpc_match w' = rpc_match w
      \<and> hf_embed w' = hf_embed w \<and> groq_post w' = groq_post w
      \<and> json_entries w' = json_entries w)"

text \<open>A world whose embedding service answers the first request with 383 numbers.\<close>

definition probe_short :: world where
  "probe_short =
     world0\<lparr>hf_embed := (\<lambda>k t. if k = 0 then Inr (replicate 383 0) else Inr (replicate 384 0))\<rparr>"

text \<open>The documents stored for a code and a market.\<close>

definition key_docs :: "string \<Rightarrow> string \<Rightarrow> world \<Rightarrow> document list" where
  "key_docs hsnCode country w =
     filter (\<lambda>d. doc_hsn_code d = Some hsnCode \<and> doc_country d = Some country) (documents w)"

text \<open>The last time written on a document: its update time, or else its creation time.\<close>

definition last_written :: "document \<Rightarrow> nat option" where
  "last_written d = (case doc_updated_at d of Some t \<Rightarrow> Some t | None \<Rightarrow> doc_created_at d)"

text \<open>The row an update writes over a document, and the row an insert adds.\<close>

definition updated_doc :: "string \<Rightarrow> real list \<Rightarrow> metadata \<Rightarrow> nat \<Rightarrow> document \<Rightarrow> document" where
  "updated_doc tx embedding md t d =
     d\<lparr>doc_content := Some tx, doc_embedding := embedding, doc_metadata := Some md,
       doc_updated_at := Some t\<rparr>"

definition inserted_doc ::
  "document list \<Rightarrow> string \<Rightarrow> real list \<Rightarrow> string \<Rightarrow> string \<Rightarrow> metadata \<Rightarrow> nat \<Rightarrow> document" where
  "inserted_doc ds tx embedding hsnCode country md t =
     \<lparr>doc_id = fresh_id ds, doc_content = Some tx, doc_embedding = embedding,
      doc_hsn_code = Some hsnCode, doc_country = Some country, doc_metadata = Some md,
      doc_created_at = Some t, doc_updated_at = None\<rparr>"

text \<open>
  The world after a successful upsert, from the world \<open>w1\<close> in which the embedding was
  made: when the lookup found the document \<open>ident\<close>, and when it found none.
\<close>

definition after_update ::
  "string \<Rightarrow> string \<Rightarrow> string \<Rightarrow> HistoricalData list \<Rightarrow> real list \<Rightarrow> nat \<Rightarrow> world \<Rightarrow> world" where
  "after_update productName hsnCode country historicalData embedding ident w1 =
     w1\<lparr>db_calls := db_calls w1 + 2, clock_reads := clock_reads w1 + 3,
        documents :=
          map (\<lambda>d. if doc_id d = ident
                   then updated_doc (product_text productName hsnCode country historicalData) embedding
                          ((product_metadata productName hsnCode country historicalData
                              (clock w1 (clock_reads w1)))
                             \<lparr>md_updated_at := Some (clock w1 (clock_reads w1 + 1))\<rparr>)
                          (clock w1 (clock_reads w1 + 2)) d
                   else d) (documents w1)\<rparr>"

definition after_insert ::
  "string \<Rightarrow> string \<Rightarrow> string \<Rightarrow> HistoricalData list \<Rightarrow> real list \<Rightarrow> world \<Rightarrow> world" where
  "after_insert productName hsnCode country historicalData embedding w1 =
     w1\<lparr>db_calls := db_calls w1 + 2, clock_reads := clock_reads w1 + 2,
        documents := documents w1 @
          [inserted_doc (documents w1) (product_text productName hsnCode country historicalData) embedding
             hsnCode country
             (product_metadata productName hsnCode country historicalData (clock w1 (clock_reads w1)))
             (clock w1 (clock_reads w1 + 1))]\<rparr>"

text \<open>An empty store after one and after two upserts for the same code and market.\<close>

definition stored_once :: world where
  "stored_once =
     snd (storeProductWithHistoricalData ''Basmati rice'' ''1234'' ''INDIA'' sample_records world0)"

definition stored_twice :: world where
  "stored_twice =
     snd (storeProductWithHistoricalData ''Basmati rice'' ''1234'' ''INDIA'' rising stored_once)"

text \<open>A store that holds two documents for one code and market, and the same after upserts.\<close>

definition duplicated :: world where
  "duplicated =
     world0\<lparr>documents :=
       [\<lparr>doc_id = 1, doc_content = Some ''Product: Rice'', doc_embedding = [],
         doc_hsn_code = Some ''1234'', doc_country = Some ''INDIA'', doc_metadata = None,
         doc_created_at = Some 10, doc_updated_at = None\<rparr>,
        \<lparr>doc_id = 2, doc_content = Some ''Product: Rice'', doc_embedding = [],
         doc_hsn_code = Some ''1234'', doc_country = Some ''INDIA'', doc_metadata = None,
         doc_created_at = Some 20, doc_updated_at = None\<rparr>]\<rparr>"

definition duplicated_once :: world where
  "duplicated_once =
     snd (storeProductWithHistoricalData ''Basmati rice'' ''1234'' ''INDIA'' sample_records duplicated)"

definition duplicated_twice :: world where
  "duplicated_twice =
     snd (storeProductWithHistoricalData ''Basmati rice'' ''1234'' ''INDIA'' rising duplicated_once)"

text \<open>
  The primary path of \<^verbatim>\<open>findSimilarHistoricalData\<close>, row by row. A row passes the gate
  when it is not the querying product, has the historical type and a similarity of at
  least 50 percent; it carries a history when its metadata has both the year list and the
  price map (empty or not).
\<close>

definition passes_gate :: "string \<Rightarrow> string \<Rightarrow> match_row \<Rightarrow> bool" where
  "passes_gate hsnCode country item =
     (\<not> (doc_hsn_code item = Some hsnCode \<and> doc_country item = Some country)
      \<and> meta md_type item = Some ''product_with_history''
      \<and> (case row_similarity item of None \<Rightarrow> False | Some s \<Rightarrow> s * 100 \<ge> 50))"

definition carries_history :: "match_row \<Rightarrow> bool" where
  "carries_history item = (meta md_years item \<noteq> None \<and> meta md_prices item \<noteq> None)"

definition candidate_similarity :: "match_row \<Rightarrow> real" where
  "candidate_similarity item = (case row_similarity item of None \<Rightarrow> 0 | Some s \<Rightarrow> s)"

text \<open>The entries pushed for a row that passes the gate.\<close>

definition product_of :: "match_row \<Rightarrow> SimilarProduct" where
  "product_of item =
     \<lparr>hsn_code = or_else (doc_hsn_code item) ''Unknown'',
      product_name = or_else (meta md_name item) ''Unknown Product'',
      similarity = min 100 (candidate_similarity item * 100),
      countries = [or_else (doc_country item) ''Unknown'']\<rparr>"

definition history_of :: "match_row \<Rightarrow> SimilarHistoricalData" where
  "history_of item =
     \<lparr>hsn_code = or_else (doc_hsn_code item) ''Unknown'',
      product_name = or_else (meta md_name item) ''Unknown Product'',
      similarity = min 100 (candidate_similarity item * 100),
      countries = [or_else (doc_country item) ''Unknown''],
      historicalData_of =
        docHistoricalData (case meta md_years item of None \<Rightarrow> [] | Some ys \<Rightarrow> ys)
          (case meta md_prices item of None \<Rightarrow> [] | Some ps \<Rightarrow> ps)
          (case meta md_currencies item of None \<Rightarrow> [] | Some cs \<Rightarrow> cs)\<rparr>"

text \<open>The words of a query that the keyword fallback compares.\<close>

definition query_words :: "string \<Rightarrow> string list" where
  "query_words query = filter (\<lambda>word. length word > 2) (split_ws (toLowerCase query))"

text \<open>The rows the query of the keyword fallback selects.\<close>

definition selectable :: "string option \<Rightarrow> document \<Rightarrow> bool" where
  "selectable excludeHsnCode d =
     (meta md_type d = Some ''product_with_history''
      \<and> (case or_opt excludeHsnCode None of
            None \<Rightarrow> True
          | Some ex \<Rightarrow> (case doc_hsn_code d of None \<Rightarrow> False | Some h \<Rightarrow> h \<noteq> ex)))"

text \<open>
  Rows as the nearest-neighbour procedure returns them, ranked by similarity: 90 percent
  with a history, 60 percent without one, 40 percent with a history.
\<close>

definition history_md :: metadata where
  "history_md =
     \<lparr>md_hsn_code = Some ''1006'', md_name = Some ''Rice'', md_country = Some ''INDIA'',
      md_type = Some ''product_with_history'', md_description = None,
      md_years = Some [''2022''], md_prices = Some [(''2022'', Some 80)],
      md_currencies = Some [(''2022'', ''USD'')], md_created_at = None, md_updated_at = None\<rparr>"

definition candidate :: "nat \<Rightarrow> string \<Rightarrow> metadata \<Rightarrow> real \<Rightarrow> match_row" where
  "candidate ident code md s =
     \<lparr>doc_id = ident, doc_content = Some ''Product: Rice'', doc_embedding = [],
      doc_hsn_code = Some code, doc_country = Some ''INDIA'', doc_metadata = Some md,
      doc_created_at = None, doc_updated_at = None, row_similarity = Some s\<rparr>"

definition ranked_rows :: "match_row list" where
  "ranked_rows =
     [candidate 7 ''1006'' history_md (9 / 10),
      candidate 8 ''1007'' (history_md\<lparr>md_years := None, md_prices := None\<rparr>) (3 / 5),
      candidate 9 ''1008'' history_md (2 / 5)]"

definition ranked_world :: world where
  "ranked_world = world0\<lparr>rpc_match := (\<lambda>q t c. Some ranked_rows)\<rparr>"

definition ranked_stored :: world where
  "ranked_stored =
     snd (storeProductWithHistoricalData ''Basmati rice'' ''1234'' ''INDIA'' sample_records ranked_world)"

definition ranked_embedded :: world where
  "ranked_embedded =
     snd (generateEmbedding (product_text ''Basmati rice'' ''1234'' ''INDIA'' sample_records) 3
            ranked_stored)"

text \<open>A world whose procedure returns one row, below the gate, that carries a history.\<close>

definition below_gate_world :: world where
  "below_gate_world = world0\<lparr>rpc_match := (\<lambda>q t c. Some [candidate 9 ''1008'' history_md (2 / 5)])\<rparr>"

text \<open>Stored documents of another product and of the querying product.\<close>

definition other_doc :: document where
  "other_doc =
     \<lparr>doc_id = 7, doc_content = Some ''Product: Basmati rice'', doc_embedding = [],
      doc_hsn_code = Some ''1006'', doc_country = Some ''INDIA'', doc_metadata = Some history_md,
      doc_created_at = None, doc_updated_at = None\<rparr>"

definition own_doc :: document where
  "own_doc = other_doc\<lparr>doc_id := 3, doc_hsn_code := Some ''1234''\<rparr>"

definition keyword_product :: VectorSimilarProduct where
  "keyword_product =
     \<lparr>hsn_code = ''1006'', product_name = ''Rice'', similarity = 100, countries = [''INDIA''],
      content = Some ''Product: Basmati rice'', vs_metadata = Some history_md\<rparr>"

text \<open>
  Worlds whose nearest-neighbour procedure fails: at the first request to the store, and at
  the third one (after the lookup and the insert of an upsert).
\<close>

definition vector_down :: world where
  "vector_down =
     world0\<lparr>db_fault := (\<lambda>k. if k = 0 then Some ''rpc unavailable'' else None),
            documents := [own_doc, other_doc]\<rparr>"

definition vector_down_embedded :: world where
  "vector_down_embedded = vector_down\<lparr>hf_calls := 2, embeddings := True\<rparr>"

definition vector_down_answered :: world where
  "vector_down_answered = vector_down_embedded\<lparr>db_calls := Suc (db_calls vector_down_embedded)\<rparr>"

definition rpc_down :: world where
  "rpc_down =
     world0\<lparr>db_fault := (\<lambda>k. if k = 2 then Some ''rpc unavailable'' else None),
            documents := [other_doc]\<rparr>"

definition rpc_down_stored :: world where
  "rpc_down_stored =
     snd (storeProductWithHistoricalData ''Basmati rice'' ''1234'' ''INDIA'' sample_records rpc_down)"

definition rpc_down_embedded :: world where
  "rpc_down_embedded =
     snd (generateEmbedding (product_text ''Basmati rice'' ''1234'' ''INDIA'' sample_records) 3
            rpc_down_stored)"


section \<open>Rounding to a double\<close>

lemma round_half_even_int: "round_half_even (of_int z) = z"
  by (simp add: round_half_even_def)

lemma bit_length_le: "n < 2 ^ k \<Longrightarrow> bit_length n \<le> k"
proof (induction n arbitrary: k rule: bit_length.induct)
  case (1 n)
  show ?case
  proof (cases "n \<le> 0")
    case True
    then show ?thesis by (simp add: bit_length.simps [of n])
  next
    case False
    then obtain k' where k: "k = Suc k'"
      using 1(2) by (cases k) auto
    have "n div 2 < 2 ^ k'"
      using 1(2) k by auto
    then have "bit_length (n div 2) \<le> k'"
      using 1(1) [OF False] by simp
    then show ?thesis
      using False k by (simp add: bit_length.simps [of n])
  qed
qed

lemma bit_length_ge: "2 ^ k \<le> n \<Longrightarrow> Suc k \<le> bit_length n"
proof (induction n arbitrary: k rule: bit_length.induct)
  case (1 n)
  have pos: "\<not> n \<le> 0"
    using 1(2) by (smt (verit) zero_less_power)
  show ?case
  proof (cases k)
    case 0
    then show ?thesis using pos by (simp add: bit_length.simps [of n])
  next
    case (Suc k')
    then have "2 ^ k' \<le> n div 2"
      using 1(2) by auto
    then have "Suc k' \<le> bit_length (n div 2)"
      using 1(1) [OF pos] by simp
    then show ?thesis
      using pos Suc by (simp add: bit_length.simps [of n])
  qed
qed

lemma bit_length_eqI: "2 ^ k \<le> n \<Longrightarrow> n < 2 ^ Suc k \<Longrightarrow> bit_length n = Suc k"
  using bit_length_le [of n "Suc k"] bit_length_ge [of k n] by simp

lemma round_double_unfold:
  assumes "q = 1074" and "t = 2098"
  shows "round_double x =
     (let s = \<bar>x\<bar> * 2 ^ q;
          k = bit_length \<lfloor>s\<rfloor> - 53;
          m = real_of_int (round_half_even (s / 2 ^ k)) * 2 ^ k
      in if 2 ^ t \<le> m then (if x < 0 then NegInf else PosInf)
         else Fin ((if x < 0 then - m else m) / 2 ^ q))"
  unfolding assms by (rule round_double_def)

text \<open>
  A real that is a double rounds to itself: \<open>m / 2\<^sup>j\<close> with \<open>\<bar>m\<bar> < 2\<^sup>5\<^sup>3\<close> and \<open>j \<le> 1074\<close>, and
  so every integer below \<open>2\<^sup>5\<^sup>3\<close> in magnitude.
\<close>

lemma round_double_dyadic:
  assumes "\<bar>m\<bar> < 2 ^ 53" and "j \<le> 1074"
  shows "round_double (of_int m / 2 ^ j) = Fin (of_int m / 2 ^ j)"
proof -
  define q :: nat where "q = 1074"
  define t :: nat where "t = 2098"
  define i where "i = q - j"
  define n where "n = nat \<bar>m\<bar>"
  let ?x = "real_of_int m / 2 ^ j"
  have ij: "q = i + j" using assms(2) by (simp add: i_def q_def)
  have qt: "53 + q \<le> t" by (simp add: q_def t_def)
  have pq: "(2::real) ^ q = 2 ^ i * 2 ^ j"
    unfolding ij by (rule power_add)
  have nm: "real n = \<bar>real_of_int m\<bar>"
    by (simp add: n_def)
  have s: "\<bar>?x\<bar> * 2 ^ q = real (n * 2 ^ i)"
    unfolding pq by (simp add: nm abs_divide)
  have n53: "n < 2 ^ 53" using assms(1) by (simp only: n_def nat_less_numeral_power_cancel_iff)
  have "n * 2 ^ i < 2 ^ 53 * 2 ^ i"
    using n53 by (simp only: mult_less_cancel2 zero_less_power zero_less_numeral simp_thms)
  then have lt: "n * 2 ^ i < 2 ^ (53 + i)" by (simp only: power_add)
  then have "int (n * 2 ^ i) < 2 ^ (53 + i)"
    by (metis of_nat_less_numeral_power_cancel_iff)
  then have bl: "bit_length (int (n * 2 ^ i)) \<le> 53 + i"
    by (rule bit_length_le)
  define k where "k = bit_length (int (n * 2 ^ i)) - 53"
  have ki: "k \<le> i" using bl by (simp add: k_def)
  have fl: "\<lfloor>real (n * 2 ^ i)\<rfloor> = int (n * 2 ^ i)"
    by (rule floor_of_nat)
  have pk: "(2::real) ^ i = 2 ^ (i - k) * 2 ^ k"
    using ki by (metis power_add le_add_diff_inverse2)
  have qu: "real (n * 2 ^ i) / 2 ^ k = of_int (int (n * 2 ^ (i - k)))"
    using pk by simp
  have m: "real_of_int (round_half_even (real (n * 2 ^ i) / 2 ^ k)) * 2 ^ k = real (n * 2 ^ i)"
    unfolding qu round_half_even_int using pk by simp
  have "real (n * 2 ^ i) < real (2 ^ (53 + i))"
    using lt by (simp only: of_nat_less_iff)
  also have "\<dots> = 2 ^ (53 + i)" by simp
  also have "\<dots> \<le> (2::real) ^ t"
    using qt ij by (intro power_increasing) auto
  finally have small: "\<not> 2 ^ t \<le> real (n * 2 ^ i)" by simp
  have bk: "real (n * 2 ^ i) / 2 ^ q = \<bar>?x\<bar>"
    unfolding s [symmetric] by simp
  have "round_double ?x =
          Fin ((if ?x < 0 then - real (n * 2 ^ i) else real (n * 2 ^ i)) / 2 ^ q)"
    unfolding round_double_unfold [OF q_def t_def] Let_def s fl k_def [symmetric] m
    using small by (simp only: if_False)
  also have "\<dots> = Fin ?x"
    using bk by (cases "?x < 0") (simp_all add: abs_if)
  finally show ?thesis .
qed

lemma round_double_int: "\<bar>m\<bar> < 2 ^ 53 \<Longrightarrow> round_double (of_int m) = Fin (of_int m)"
  using round_double_dyadic [of m 0] by simp

lemma round_double_numeral:
  shows "numeral w < (2::int) ^ 53 \<Longrightarrow> round_double (numeral w) = Fin (numeral w)"
    and "numeral w < (2::int) ^ 53 \<Longrightarrow> round_double (- numeral w) = Fin (- numeral w)"
    and "round_double 0 = Fin 0"
    and "round_double 1 = Fin 1"
  using round_double_int [of "numeral w"] round_double_int [of "- numeral w"]
    round_double_int [of 0] round_double_int [of 1]
  by simp_all

text \<open>A real of magnitude below \<open>2\<^sup>-\<^sup>1\<^sup>0\<^sup>7\<^sup>5\<close> rounds to 0.\<close>

lemma round_double_tiny:
  assumes "\<bar>x\<bar> * 2 ^ 1075 < 1"
  shows "round_double x = Fin 0"
proof -
  define q :: nat where "q = 1074"
  define t :: nat where "t = 2098"
  have "(2::real) ^ 1075 = 2 ^ Suc q" by (simp only: q_def) simp
  then have h: "\<bar>x\<bar> * 2 ^ q < 1 / 2" using assms by simp
  have nn: "0 \<le> \<bar>x\<bar> * 2 ^ q" by simp
  have fl: "\<lfloor>\<bar>x\<bar> * 2 ^ q\<rfloor> = 0"
    using h nn by (simp add: floor_eq_iff)
  have r: "real_of_int (round_half_even (\<bar>x\<bar> * 2 ^ q / 2 ^ (bit_length 0 - 53)))
             * 2 ^ (bit_length 0 - 53) = 0"
    using h by (simp add: round_half_even_def fl bit_length.simps [of 0])
  have p: "\<not> (2::real) ^ t \<le> 0"
    by (simp add: not_le)
  show ?thesis
    unfolding round_double_unfold [OF q_def t_def] Let_def fl r using p by simp
qed

text \<open>A real of at least \<open>2\<^sup>1\<^sup>0\<^sup>2\<^sup>4\<close> rounds to the positive infinity.\<close>

lemma round_half_even_ge: "of_int z \<le> x \<Longrightarrow> z \<le> round_half_even x"
proof -
  assume "of_int z \<le> x"
  then have "z \<le> \<lfloor>x\<rfloor>" by (simp add: le_floor_iff)
  then show ?thesis by (simp add: round_half_even_def Let_def)
qed

lemma round_double_huge:
  assumes "2 ^ 1024 \<le> x"
  shows "round_double x = PosInf"
proof -
  define q :: nat where "q = 1074"
  define t :: nat where "t = 2098"
  have tq: "t = 1024 + q" by (simp add: q_def t_def)
  have x0: "0 < x" "\<not> x < 0"
    using assms by (smt (verit) zero_less_power)+
  define s where "s = \<bar>x\<bar> * 2 ^ q"
  have "(2::real) ^ 1024 * 2 ^ q \<le> x * 2 ^ q"
    using assms by (intro mult_right_mono) auto
  then have st: "2 ^ t \<le> s"
    using x0 by (simp add: s_def tq power_add)
  then have "of_int (2 ^ t) \<le> s" by simp
  then have ft: "2 ^ t \<le> \<lfloor>s\<rfloor>" by (simp only: le_floor_iff)
  define L where "L = bit_length \<lfloor>s\<rfloor>"
  have Lt: "Suc t \<le> L"
    unfolding L_def using ft by (rule bit_length_ge)
  define k where "k = L - 53"
  have Lk: "L = Suc (52 + k)"
    using Lt by (simp add: k_def t_def)
  have fpos: "0 < \<lfloor>s\<rfloor>"
    using ft by (smt (verit) zero_less_power)
  have "\<not> \<lfloor>s\<rfloor> < 2 ^ (52 + k)"
  proof
    assume "\<lfloor>s\<rfloor> < 2 ^ (52 + k)"
    then have "bit_length \<lfloor>s\<rfloor> \<le> 52 + k" by (rule bit_length_le)
    then show False using Lk by (simp add: L_def)
  qed
  then have "(2::int) ^ (52 + k) \<le> \<lfloor>s\<rfloor>" by simp
  then have "of_int (2 ^ (52 + k)) \<le> s" by (simp only: le_floor_iff)
  then have "(2::real) ^ 52 * 2 ^ k \<le> s" by (simp add: power_add)
  then have "of_int (2 ^ 52) \<le> s / 2 ^ k"
    by (simp add: pos_le_divide_eq)
  then have "2 ^ 52 \<le> round_half_even (s / 2 ^ k)"
    by (rule round_half_even_ge)
  then have "real_of_int (2 ^ 52) \<le> real_of_int (round_half_even (s / 2 ^ k))"
    by (simp only: of_int_le_iff)
  then have "real_of_int (2 ^ 52) * 2 ^ k \<le> real_of_int (round_half_even (s / 2 ^ k)) * 2 ^ k"
    by (intro mult_right_mono) auto
  moreover have "(2::real) ^ t \<le> real_of_int (2 ^ 52) * 2 ^ k"
  proof -
    have "t \<le> 52 + k" using Lt Lk by simp
    then have "(2::real) ^ t \<le> 2 ^ (52 + k)" by (intro power_increasing) auto
    then show ?thesis by (simp add: power_add)
  qed
  ultimately have big: "2 ^ t \<le> real_of_int (round_half_even (s / 2 ^ k)) * 2 ^ k"
    by linarith
  show ?thesis
    unfolding round_double_unfold [OF q_def t_def] Let_def s_def [symmetric] L_def [symmetric]
      k_def [symmetric]
    using big x0 by (simp only: if_True if_False)
qed

section \<open>Lists: sorting and slicing\<close>

lemma set_js_insert: "set (js_insert cmp x xs) = insert x (set xs)"
  by (induction xs) auto

lemma set_js_sort: "set (js_sort cmp xs) = set xs"
  by (induction xs) (auto simp: set_js_insert)

lemma length_js_insert: "length (js_insert cmp x xs) = Suc (length xs)"
  by (induction xs) auto

lemma length_js_sort: "length (js_sort cmp xs) = length xs"
  by (induction xs) (auto simp: length_js_insert)

lemma set_slice0: "set (slice0 k xs) \<subseteq> set xs"
  by (auto simp: slice0_def dest: in_set_takeD)

lemma length_slice0: "0 \<le> k \<Longrightarrow> length (slice0 k xs) \<le> nat k"
  by (simp add: slice0_def)

lemma sorted_wrt_slice0: "sorted_wrt R xs \<Longrightarrow> sorted_wrt R (slice0 k xs)"
  by (simp add: slice0_def sorted_wrt_take)

lemma sorted_wrt_js_insert:
  assumes "sorted_wrt R xs"
    and "\<And>y. y \<in> set xs \<Longrightarrow> comes_after cmp x y \<Longrightarrow> R y x"
    and "\<And>y. y \<in> set xs \<Longrightarrow> \<not> comes_after cmp x y \<Longrightarrow> R x y"
    and "\<And>a b. a \<in> set xs \<Longrightarrow> b \<in> set xs \<Longrightarrow> R x a \<Longrightarrow> R a b \<Longrightarrow> R x b"
  shows "sorted_wrt R (js_insert cmp x xs)"
  using assms
proof (induction xs)
  case Nil
  then show ?case by simp
next
  case (Cons y ys)
  show ?case
  proof (cases "comes_after cmp x y")
    case True
    have "sorted_wrt R (js_insert cmp x ys)"
      using Cons by auto
    moreover have "\<forall>z \<in> set (js_insert cmp x ys). R y z"
      using Cons.prems True by (auto simp: set_js_insert)
    ultimately show ?thesis using True by simp
  next
    case False
    then have "R x y" using Cons.prems by auto
    moreover have "\<forall>z \<in> set ys. R x z"
    proof
      fix z assume z: "z \<in> set ys"
      then have "R y z" using Cons.prems(1) by simp
      with \<open>R x y\<close> z show "R x z" using Cons.prems(4) [of y z] by simp
    qed
    ultimately show ?thesis using False Cons.prems(1) by simp
  qed
qed

lemma comes_after_by_year:
  assumes "isFinite (year_key (year a))" "isFinite (year_key (year b))"
  shows "comes_after by_year_desc a b \<longleftrightarrow> leading_year a < leading_year b"
  using assms
  by (auto simp: comes_after_def by_year_desc_def js_sub_def leading_year_def isFinite_def
      split: jsnum.splits)

lemma sorted_js_sort_by_year:
  assumes "\<forall>r \<in> set xs. isFinite (year_key (year r))"
  shows "sorted_wrt (\<lambda>a b. leading_year b \<le> leading_year a) (js_sort by_year_desc xs)"
  using assms
proof (induction xs)
  case Nil
  then show ?case by simp
next
  case (Cons x xs)
  then have IH: "sorted_wrt (\<lambda>a b. leading_year b \<le> leading_year a) (js_sort by_year_desc xs)"
    by simp
  have keys: "\<And>y. y \<in> set (js_sort by_year_desc xs) \<Longrightarrow> isFinite (year_key (year y))"
    using Cons.prems by (simp add: set_js_sort)
  have kx: "isFinite (year_key (year x))" using Cons.prems by simp
  show ?case
    unfolding js_sort.simps
  proof (rule sorted_wrt_js_insert [OF IH])
    fix y assume "y \<in> set (js_sort by_year_desc xs)" "comes_after by_year_desc x y"
    then show "leading_year x \<le> leading_year y"
      using comes_after_by_year [OF kx keys] by simp
  next
    fix y assume "y \<in> set (js_sort by_year_desc xs)" "\<not> comes_after by_year_desc x y"
    then show "leading_year y \<le> leading_year x"
      using comes_after_by_year [OF kx keys] by simp
  next
    fix a b assume "leading_year a \<le> leading_year x" "leading_year b \<le> leading_year a"
    then show "leading_year b \<le> leading_year x" by simp
  qed
qed

section \<open>Properties of the historical data accessor\<close>

lemma js_gt_not_NaN: "js_gt x r \<Longrightarrow> x \<noteq> NaN"
  by (cases x) simp_all

lemma valid_records_props:
  assumes "r \<in> set (valid_records es)"
  shows "js_gt (price r) 0 \<and> currency r = ''USD''"
proof -
  from assms obtain x where x: "x \<in> set es"
      "valid_price \<lparr>year = fst x, price = parseFloat (snd x), currency = ''USD''\<rparr>"
      "r = \<lparr>year = fst x, price = parseFloat (snd x), currency = ''USD''\<rparr>"
    unfolding valid_records_def by (auto simp: case_prod_beta)
  then show ?thesis
    by (simp add: valid_price_def)
qed

lemma valid_records_nonempty:
  assumes "(y, v) \<in> set es" "js_gt (parseFloat v) 0"
  shows "valid_records es \<noteq> []"
proof -
  let ?mk = "\<lambda>(y, p). \<lparr>year = y, price = parseFloat p, currency = ''USD''\<rparr>"
  have "valid_price (?mk (y, v))"
    using assms(2) js_gt_not_NaN [OF assms(2)] by (simp add: valid_price_def)
  moreover have "?mk (y, v) \<in> set (map ?mk es)"
    unfolding set_map by (rule imageI) (rule assms(1))
  ultimately have "filter valid_price (map ?mk es) \<noteq> []"
    unfolding filter_empty_conv by blast
  then show ?thesis
    unfolding valid_records_def by simp
qed

lemma parseCountryData_object:
  "parseCountryData json (CObject es) = Inr (slice0 5 (js_sort by_year_desc (valid_records es)))"
  by (simp add: parseCountryData_def valid_records_def)

lemma parseCountryData_text:
  "json s = Some es \<Longrightarrow>
   parseCountryData json (CText s) = Inr (slice0 5 (js_sort by_year_desc (valid_records es)))"
  by (simp add: parseCountryData_def valid_records_def)

lemma parseCountryData_text_fail:
  "json s = None \<Longrightarrow> parseCountryData json (CText s) = Inl (ParseError JsonError)"
  by (simp add: parseCountryData_def)

lemma parseCountryData_entries:
  assumes "column_entries json cd = Some es"
  shows "parseCountryData json cd = Inr (slice0 5 (js_sort by_year_desc (valid_records es)))"
proof (cases cd)
  case (CText s)
  then show ?thesis using assms
    by (simp add: column_entries_def parseCountryData_text split: if_splits)
next
  case (CObject es')
  then show ?thesis using assms
    by (simp add: column_entries_def parseCountryData_object)
qed (use assms in \<open>simp_all add: column_entries_def\<close>)

lemma parseCountryData_Inr:
  assumes "parseCountryData json cd = Inr recs"
  shows "\<exists>es. recs = slice0 5 (js_sort by_year_desc (valid_records es))"
proof (cases cd)
  case (CText s)
  show ?thesis
  proof (cases "json s")
    case None
    then show ?thesis using assms CText by (simp add: parseCountryData_text_fail)
  next
    case (Some es)
    then show ?thesis using assms CText by (auto simp: parseCountryData_text)
  qed
next
  case (CObject es')
  then show ?thesis using assms by (auto simp: parseCountryData_object)
qed (use assms in \<open>simp_all add: parseCountryData_def\<close>)

lemma slice0_nonempty: "0 < k \<Longrightarrow> xs \<noteq> [] \<Longrightarrow> slice0 k xs \<noteq> []"
  by (cases xs) (auto simp: slice0_def)

lemma js_sort_nonempty: "xs \<noteq> [] \<Longrightarrow> js_sort cmp xs \<noteq> []"
  using length_js_sort [of cmp xs] by (metis length_0_conv)

lemma fetchHistoricalData_Inr:
  assumes "fetchHistoricalData hsnCode country w = (Inr recs, w')"
  shows "\<exists>es. recs = slice0 5 (js_sort by_year_desc (valid_records es))"
proof -
  obtain d e w1 where sel: "select_market_prices hsnCode w = ((d, e), w1)"
    by (metis surj_pair)
  show ?thesis
  proof (cases e)
    case (Some err)
    then show ?thesis using assms sel
      by (simp add: fetchHistoricalData_def split: option.splits)
  next
    case None
    note e = this
    show ?thesis
    proof (cases d)
      case None
      then show ?thesis using assms sel e by (simp add: fetchHistoricalData_def)
    next
      case (Some data)
      note d = this
      show ?thesis
      proof (cases "falsy_cell (map_of data country)")
        case True
        then show ?thesis using assms sel e d
          by (simp add: fetchHistoricalData_def Let_def split: if_splits)
      next
        case False
        let ?cd = "case map_of data country of None \<Rightarrow> CNull | Some c \<Rightarrow> c"
        show ?thesis
        proof (cases "parseCountryData (json_entries w1) ?cd")
          case (Inl err)
          then show ?thesis using assms sel e d False
            by (simp add: fetchHistoricalData_def)
        next
          case (Inr parsed)
          then have "recs = parsed" using assms sel e d False
            by (simp add: fetchHistoricalData_def split: if_splits)
          then show ?thesis using parseCountryData_Inr [OF Inr] by simp
        qed
      qed
    qed
  qed
qed

lemma falsy_cell_entries: "column_entries json cd = Some es \<Longrightarrow> \<not> falsy_cell (Some cd)"
  by (cases cd) (auto simp: column_entries_def split: if_splits)

lemma fetchHistoricalData_returns:
  assumes "db_fault w (db_calls w) = None"
    and "parseInt hsnCode = Fin n"
    and "filter (\<lambda>r. map_of r ''hsn_code'' = Some (CNum n)) (market_prices w) = [data]"
    and "map_of data country = Some cd"
    and "column_entries (json_entries w) cd = Some es"
    and "valid_records es \<noteq> []"
  shows "fst (fetchHistoricalData hsnCode country w)
           = Inr (slice0 5 (js_sort by_year_desc (valid_records es)))"
proof -
  let ?w' = "w\<lparr>db_calls := Suc (db_calls w)\<rparr>"
  have sel: "select_market_prices hsnCode w = ((Some data, None), ?w')"
    using assms(1-3) by (simp add: select_market_prices_def db_request_def single_def)
  have ce: "column_entries (json_entries ?w') cd = Some es"
    using assms(5) by simp
  have ne: "slice0 5 (js_sort by_year_desc (valid_records es)) \<noteq> []"
    using assms(6) by (simp add: slice0_nonempty js_sort_nonempty)
  show ?thesis
    using sel assms(4) falsy_cell_entries [OF assms(5)] parseCountryData_entries [OF ce] ne
    by (simp add: fetchHistoricalData_def)
qed

text \<open>
  When no entry of the column reads as a number above 0, the accessor throws: the list of
  records is empty.
\<close>

lemma slice0_Nil_iff: "slice0 5 [] = []"
  by (simp add: slice0_def)

lemma fetchHistoricalData_throws:
  assumes "db_fault w (db_calls w) = None"
    and "parseInt hsnCode = Fin n"
    and "filter (\<lambda>r. map_of r ''hsn_code'' = Some (CNum n)) (market_prices w) = [data]"
    and "map_of data country = Some cd"
    and "column_entries (json_entries w) cd = Some es"
    and "valid_records es = []"
  shows "fst (fetchHistoricalData hsnCode country w) = Inl (FetchError (NoValidData country hsnCode))"
proof -
  let ?w' = "w\<lparr>db_calls := Suc (db_calls w)\<rparr>"
  have sel: "select_market_prices hsnCode w = ((Some data, None), ?w')"
    using assms(1-3) by (simp add: select_market_prices_def db_request_def single_def)
  have ce: "column_entries (json_entries ?w') cd = Some es"
    using assms(5) by simp
  have e: "slice0 5 (js_sort by_year_desc (valid_records es)) = []"
    using assms(6) by (simp add: slice0_Nil_iff)
  show ?thesis
    using sel assms(4) falsy_cell_entries [OF assms(5)] parseCountryData_entries [OF ce] e
    by (simp add: fetchHistoricalData_def)
qed

lemma valid_records_year:
  assumes "r \<in> set (valid_records es)"
  shows "year r \<in> fst ` set es"
proof -
  from assms obtain x where "x \<in> set es"
      "r = \<lparr>year = fst x, price = parseFloat (snd x), currency = ''USD''\<rparr>"
    unfolding valid_records_def by (auto simp: case_prod_beta)
  then show ?thesis by simp
qed

text \<open>The definitions that evaluate the parsers on a literal.\<close>

lemmas parse_defs = parseInt_def strip_sign_def has_hex_prefix_def is_space_def is_digit_def
  digits_value_def digit_val_def parseFloat_string_def exponent_part_def scale10_def year_key_def
  round_double_numeral

lemma round_double_samples:
  shows "round_double (241 / 2) = Fin (241 / 2)"
  using round_double_dyadic [of 241 1] by simp

text \<open>
  The conversions at the limits of a double: a text too small reads as 0, the word
  \<^verbatim>\<open>Infinity\<close> and a text too large read as the positive infinity, and an integer above
  \<open>2\<^sup>5\<^sup>3\<close> reads as the nearest double.
\<close>

lemma parse_limits:
  shows "parseFloat (JStr ''1e-400'') = Fin 0"
    and "parseFloat (JStr ''Infinity'') = PosInf"
    and "parseFloat (JStr ''1e400'') = PosInf"
    and "parseFloat (JNum (1 / 10 ^ 400)) = Fin 0"
    and "parseInt ''9007199254740993'' = Fin 9007199254740992"
proof -
  have "round_double (1 / 10 ^ 400) = Fin 0"
    by (rule round_double_tiny) simp
  then show "parseFloat (JStr ''1e-400'') = Fin 0" "parseFloat (JNum (1 / 10 ^ 400)) = Fin 0"
    by (simp_all add: parse_defs)
  show "parseFloat (JStr ''Infinity'') = PosInf"
    by (simp add: parse_defs)
  have "round_double (10 ^ 400) = PosInf"
    by (rule round_double_huge) simp
  then show "parseFloat (JStr ''1e400'') = PosInf"
    by (simp add: parse_defs)
  have fl: "\<lfloor>\<bar>9007199254740993::real\<bar> * 2 ^ 1074\<rfloor> = 9007199254740993 * 2 ^ 1074"
    by simp
  have b: "bit_length (9007199254740993 * 2 ^ 1074) = Suc 1127"
    by (rule bit_length_eqI) simp_all
  have "round_double 9007199254740993 = Fin 9007199254740992"
    unfolding round_double_def Let_def fl b by (simp add: round_half_even_def)
  then show "parseInt ''9007199254740993'' = Fin 9007199254740992"
    by (simp add: parse_defs)
qed

text \<open>
  Claim C4, as the code has it. When the row of the code is found and its market column
  parses to at least one entry whose price reads as a number above 0 (a positive double or
  the positive infinity), \<^verbatim>\<open>fetchHistoricalData\<close> returns a non-empty list of at most 5
  records, all with a price above 0. When the leading token of every year label of the column
  reads as a finite number, the list is in non-increasing order of that token; it need not be
  strictly decreasing.
\<close>

theorem fetchHistoricalData_sorted_capped:
  assumes "db_fault w (db_calls w) = None"
    and "parseInt hsnCode = Fin n"
    and "filter (\<lambda>r. map_of r ''hsn_code'' = Some (CNum n)) (market_prices w) = [data]"
    and "map_of data country = Some cd"
    and "column_entries (json_entries w) cd = Some es"
    and "\<exists>(y, v) \<in> set es. js_gt (parseFloat v) 0"
  shows "\<exists>recs. fst (fetchHistoricalData hsnCode country w) = Inr recs \<and> recs \<noteq> []
           \<and> length recs \<le> 5 \<and> (\<forall>r \<in> set recs. js_gt (price r) 0)
           \<and> ((\<forall>(y, v) \<in> set es. isFinite (year_key y))
                \<longrightarrow> sorted_wrt (\<lambda>a b. leading_year b \<le> leading_year a) recs)"
proof -
  let ?recs = "slice0 5 (js_sort by_year_desc (valid_records es))"
  have ne: "valid_records es \<noteq> []"
    using assms(6) valid_records_nonempty by blast
  have res: "fst (fetchHistoricalData hsnCode country w) = Inr ?recs"
    by (rule fetchHistoricalData_returns [OF assms(1-5) ne])
  have sub: "set ?recs \<subseteq> set (valid_records es)"
    using set_slice0 [of 5 "js_sort by_year_desc (valid_records es)"] by (simp add: set_js_sort)
  have "?recs \<noteq> []"
    using ne by (simp add: slice0_nonempty js_sort_nonempty)
  moreover have "length ?recs \<le> 5"
    using length_slice0 [of 5 "js_sort by_year_desc (valid_records es)"] by simp
  moreover have "\<forall>r \<in> set ?recs. js_gt (price r) 0"
    using sub valid_records_props by blast
  moreover have "sorted_wrt (\<lambda>a b. leading_year b \<le> leading_year a) ?recs"
    if "\<forall>(y, v) \<in> set es. isFinite (year_key y)"
  proof -
    have "\<forall>r \<in> set (valid_records es). isFinite (year_key (year r))"
      using that valid_records_year by fastforce
    then show ?thesis
      by (intro sorted_wrt_slice0 sorted_js_sort_by_year)
  qed
  ultimately show ?thesis using res by blast
qed

text \<open>The theorem of C4 at a stored column with five entries, three of them valid.\<close>

theorem fetchHistoricalData_sorted_capped_witness:
  "db_fault sample_world (db_calls sample_world) = None
   \<and> parseInt ''1234'' = Fin 1234
   \<and> filter (\<lambda>r. map_of r ''hsn_code'' = Some (CNum 1234)) (market_prices sample_world)
       = [sample_row]
   \<and> map_of sample_row ''INDIA'' = Some (CObject sample_entries)
   \<and> column_entries (json_entries sample_world) (CObject sample_entries) = Some sample_entries
   \<and> (\<exists>(y, v) \<in> set sample_entries. js_gt (parseFloat v) 0)
   \<and> list_all (\<lambda>(y, v). isFinite (year_key y)) sample_entries
   \<and> (\<exists>recs. fst (fetchHistoricalData ''1234'' ''INDIA'' sample_world) = Inr recs \<and> recs \<noteq> []
          \<and> length recs \<le> 5 \<and> (\<forall>r \<in> set recs. js_gt (price r) 0)
          \<and> sorted_wrt (\<lambda>a b. leading_year b \<le> leading_year a) recs)"
proof -
  have h1: "db_fault sample_world (db_calls sample_world) = None"
    by (simp add: sample_world_def world0_def)
  have h2: "parseInt ''1234'' = Fin 1234"
    by (simp add: parse_defs)
  have h3: "filter (\<lambda>r. map_of r ''hsn_code'' = Some (CNum 1234)) (market_prices sample_world)
              = [sample_row]"
    by (simp add: sample_world_def world0_def sample_row_def)
  have h4: "map_of sample_row ''INDIA'' = Some (CObject sample_entries)"
    by (simp add: sample_row_def)
  have h5: "column_entries (json_entries sample_world) (CObject sample_entries) = Some sample_entries"
    by (simp add: column_entries_def)
  have h6: "\<exists>(y, v) \<in> set sample_entries. js_gt (parseFloat v) 0"
    by (simp add: sample_entries_def parse_defs)
  have h7: "\<forall>(y, v) \<in> set sample_entries. isFinite (year_key y)"
    by (simp add: sample_entries_def parse_defs isFinite_def)
  show ?thesis
    using h1 h2 h3 h4 h5 h6 h7 fetchHistoricalData_sorted_capped [OF h1 h2 h3 h4 h5 h6]
    unfolding list_all_iff by blast
qed

text \<open>
  Claim C4 as stated fails: the labels \<^verbatim>\<open>2020\<close> and \<^verbatim>\<open>2020-2021\<close> have the same leading
  token, so the returned list is not strictly descending by it.
\<close>

theorem fetchHistoricalData_not_strict:
  "fst (fetchHistoricalData ''1234'' ''INDIA'' range_world) = Inr range_records
   \<and> map leading_year range_records = [2020, 2020]"
  by (simp add: fetchHistoricalData_def select_market_prices_def db_request_def single_def
      range_world_def world0_def range_prices_def parseCountryData_def valid_price_def
      slice0_def comes_after_def by_year_desc_def js_sub_def parse_defs range_records_def
      leading_year_def)

text \<open>
  A column whose only price is the text \<^verbatim>\<open>1e-400\<close> has no valid record, since the text reads
  as 0: the accessor throws. A column with the prices \<^verbatim>\<open>Infinity\<close> and \<^verbatim>\<open>1e400\<close> yields two
  records with an infinite price.
\<close>

lemma fetchHistoricalData_limits:
  shows "fst (fetchHistoricalData ''1234'' ''INDIA'' tiny_world)
           = Inl (FetchError (NoValidData ''INDIA'' ''1234''))"
    and "fst (fetchHistoricalData ''1234'' ''INDIA'' huge_world)
           = Inr [\<lparr>year = ''2021'', price = PosInf, currency = ''USD''\<rparr>,
                  \<lparr>year = ''2020'', price = PosInf, currency = ''USD''\<rparr>]"
proof -
  have p: "parseInt ''1234'' = Fin 1234" "year_key ''2021'' = Fin 2021" "year_key ''2020'' = Fin 2020"
    by (simp_all add: parse_defs)
  show "fst (fetchHistoricalData ''1234'' ''INDIA'' tiny_world)
           = Inl (FetchError (NoValidData ''INDIA'' ''1234''))"
    by (simp add: fetchHistoricalData_def select_market_prices_def db_request_def single_def
        tiny_world_def world0_def parseCountryData_def valid_price_def slice0_def p
        parse_limits [unfolded parseFloat.simps])
  show "fst (fetchHistoricalData ''1234'' ''INDIA'' huge_world)
           = Inr [\<lparr>year = ''2021'', price = PosInf, currency = ''USD''\<rparr>,
                  \<lparr>year = ''2020'', price = PosInf, currency = ''USD''\<rparr>]"
    by (simp add: fetchHistoricalData_def select_market_prices_def db_request_def single_def
        huge_world_def world0_def parseCountryData_def valid_price_def slice0_def p
        parse_limits [unfolded parseFloat.simps] comes_after_def by_year_desc_def js_sub_def)
qed

text \<open>
  Claim C10. Every record that \<^verbatim>\<open>parseCountryData\<close> produces, and so every record that
  \<^verbatim>\<open>fetchHistoricalData\<close> returns, has the currency \<^verbatim>\<open>USD\<close>.
\<close>

theorem parsed_currency_USD:
  "(parseCountryData json cd = Inr recs \<longrightarrow> (\<forall>r \<in> set recs. currency r = ''USD''))
   \<and> (fetchHistoricalData hsnCode country w = (Inr recs', w') \<longrightarrow> (\<forall>r \<in> set recs'. currency r = ''USD''))"
proof -
  have "\<forall>r \<in> set (slice0 5 (js_sort by_year_desc (valid_records es))). currency r = ''USD''" for es
    using set_slice0 [of 5 "js_sort by_year_desc (valid_records es)"] valid_records_props [of _ es]
    by (auto simp: set_js_sort)
  then show ?thesis
    using parseCountryData_Inr [of json cd recs] fetchHistoricalData_Inr [of hsnCode country w recs' w']
    by blast
qed

text \<open>The theorem of C10 at two stored columns.\<close>

theorem parsed_currency_USD_witness:
  "parseCountryData (\<lambda>s. None) (CObject sample_entries)
     = Inr [\<lparr>year = ''2023'', price = Fin 120.5, currency = ''USD''\<rparr>,
            \<lparr>year = ''2022-2023'', price = Fin 110, currency = ''USD''\<rparr>,
            \<lparr>year = ''2021'', price = Fin 90, currency = ''USD''\<rparr>]
   \<and> list_all (\<lambda>r. currency r = ''USD'')
         [\<lparr>year = ''2023'', price = Fin 120.5, currency = ''USD''\<rparr>,
          \<lparr>year = ''2022-2023'', price = Fin 110, currency = ''USD''\<rparr>,
          \<lparr>year = ''2021'', price = Fin 90, currency = ''USD''\<rparr>]
   \<and> fetchHistoricalData ''1234'' ''INDIA'' range_world
        = (Inr range_records, range_world\<lparr>db_calls := 1\<rparr>)
   \<and> list_all (\<lambda>r. currency r = ''USD'') range_records"
proof -
  have p: "parseCountryData (\<lambda>s. None) (CObject sample_entries)
     = Inr [\<lparr>year = ''2023'', price = Fin 120.5, currency = ''USD''\<rparr>,
            \<lparr>year = ''2022-2023'', price = Fin 110, currency = ''USD''\<rparr>,
            \<lparr>year = ''2021'', price = Fin 90, currency = ''USD''\<rparr>]"
    by (simp add: parseCountryData_def valid_price_def sample_entries_def
        slice0_def comes_after_def by_year_desc_def js_sub_def parse_defs round_double_samples)
  have f: "fetchHistoricalData ''1234'' ''INDIA'' range_world
        = (Inr range_records, range_world\<lparr>db_calls := 1\<rparr>)"
    by (simp add: fetchHistoricalData_def select_market_prices_def db_request_def single_def
      range_world_def world0_def range_prices_def parseCountryData_def valid_price_def
      slice0_def comes_after_def by_year_desc_def js_sub_def parse_defs range_records_def)
  show ?thesis
    using p f parsed_currency_USD [of "\<lambda>s. None" "CObject sample_entries" _ "''1234''" "''INDIA''"
        range_world range_records "range_world\<lparr>db_calls := 1\<rparr>"]
    unfolding list_all_iff by simp
qed



section \<open>Properties of the analyzer screen\<close>


text \<open>
  Claim C9. \<^verbatim>\<open>initializeProductEmbedding\<close> returns successfully on every input and leaves
  the world as it was: no call of a service, no write to a table, no change of state.
\<close>

theorem initializeProductEmbedding_noop:
  "initializeProductEmbedding productName hsnCode country w = (Inr (), w)"
  by (simp add: initializeProductEmbedding_def)

lemma handleAnalyze_try_fetched:
  assumes "fetchHistoricalData (trim (st_hsnCode s0)) (toUpperCase (trim (st_country s0))) w = (Inr data, w1)"
    and "similar_step s0 data w1 = (similarResults, w2)"
  shows "handleAnalyze_try s0 s w =
           dispatch_analysis data similarResults s0
             (s\<lparr>st_historicalData := data,
                st_similarProducts := (if st_useEmbeddings s0 then fst similarResults else st_similarProducts s),
                st_similarHistoricalData := (if st_useEmbeddings s0 then snd similarResults else st_similarHistoricalData s),
                st_isLoadingSimilar := (if st_useEmbeddings s0 then False else st_isLoadingSimilar s)\<rparr>) w2"
  using assms
  by (cases "st_useEmbeddings s0")
     (simp_all add: handleAnalyze_try_def similar_step_def initializeProductEmbedding_def)

text \<open>
  Claim C6. In remote mode, once the historical data is fetched: when the main analysis
  call succeeds and the prediction call fails, the screen shows the main analysis text,
  the prediction is the fixed unavailable placeholder and no alert is raised; when the main
  analysis call fails, its error ends the request (an alert and the failure text), and no
  prediction is requested.
\<close>

theorem prediction_failure_keeps_analysis:
  assumes "trim (st_product s0) \<noteq> []" and "trim (st_country s0) \<noteq> []" and "trim (st_hsnCode s0) \<noteq> []"
    and "st_useAI s0"
    and "fetchHistoricalData (trim (st_hsnCode s0)) (toUpperCase (trim (st_country s0))) w = (Inr data, w1)"
    and "similar_step s0 data w1 = (similarResults, w2)"
  shows "(analyzeWithEnhancedContext data (trim (st_product s0)) (trim (st_country s0))
            (trim (st_hsnCode s0)) similarResults w2 = (Inr text, w3)
          \<and> generateMarketPrediction data (trim (st_product s0)) (trim (st_country s0))
                (fst similarResults) w3 = (Inl predError, w4)
          \<longrightarrow> snd (handleAnalyze s0 w) = w4
              \<and> st_result (fst (handleAnalyze s0 w)) = AiAnalysis text
              \<and> st_prediction (fst (handleAnalyze s0 w)) = PredictionUnavailable
              \<and> st_alerts (fst (handleAnalyze s0 w)) = st_alerts s0)
       \<and> (analyzeWithEnhancedContext data (trim (st_product s0)) (trim (st_country s0))
            (trim (st_hsnCode s0)) similarResults w2 = (Inl error, w3')
          \<longrightarrow> snd (handleAnalyze s0 w) = w3'
              \<and> groq_calls w3' = Suc (groq_calls w2)
              \<and> st_result (fst (handleAnalyze s0 w)) = AnalysisFailed error
              \<and> st_prediction (fst (handleAnalyze s0 w)) = NoPrediction
              \<and> st_alerts (fst (handleAnalyze s0 w)) = st_alerts s0 @ [AnalysisErrorAlert error])"
proof -
  note tr = handleAnalyze_try_fetched [OF assms(5,6)]
  have calls: "groq_calls wb = Suc (groq_calls wa)"
    if "analyzeWithEnhancedContext h p c n sr wa = (r, wb)" for h p c n sr wa r wb
    using that by (auto simp: analyzeWithEnhancedContext_def groq_call_def split: sum.splits)
  show ?thesis
    using assms(1-4) calls [of data _ _ _ similarResults w2 "Inl error" w3']
    by (auto simp: handleAnalyze_def tr dispatch_analysis_def Let_def)
qed

lemma trim_samples: "trim ''Basmati rice'' = ''Basmati rice''" "trim ''1234'' = ''1234''" "trim '' india'' = ''india''"
  "toUpperCase ''india'' = ''INDIA''"
  by (simp_all add: trim_def is_space_def toUpperCase_def)

lemma sample_fetch:
  "fetchHistoricalData ''1234'' ''INDIA'' (sample_world\<lparr>groq_post := g\<rparr>)
     = (Inr sample_records, sample_world\<lparr>groq_post := g, db_calls := 1\<rparr>)"
  by (simp add: fetchHistoricalData_def select_market_prices_def db_request_def single_def
      sample_world_def world0_def sample_row_def sample_entries_def parseCountryData_def
      valid_price_def slice0_def comes_after_def by_year_desc_def js_sub_def parse_defs
      round_double_samples sample_records_def)

text \<open>The theorem of C6 at a filled-in screen, for each of the two worlds.\<close>

theorem prediction_failure_keeps_analysis_witness:
  "trim (st_product remote_screen) \<noteq> [] \<and> trim (st_country remote_screen) \<noteq> []
   \<and> trim (st_hsnCode remote_screen) \<noteq> [] \<and> st_useAI remote_screen
   \<and> fetchHistoricalData ''1234'' ''INDIA'' prediction_down
        = (Inr sample_records, prediction_down\<lparr>db_calls := 1\<rparr>)
   \<and> similar_step remote_screen sample_records (prediction_down\<lparr>db_calls := 1\<rparr>)
        = (([], []), prediction_down\<lparr>db_calls := 1\<rparr>)
   \<and> analyzeWithEnhancedContext sample_records ''Basmati rice'' ''india'' ''1234'' ([], [])
          (prediction_down\<lparr>db_calls := 1\<rparr>)
        = (Inr ''Prices are stable.'', prediction_down\<lparr>db_calls := 1, groq_calls := 1\<rparr>)
   \<and> generateMarketPrediction sample_records ''Basmati rice'' ''india'' []
          (prediction_down\<lparr>db_calls := 1, groq_calls := 1\<rparr>)
        = (Inl (PredictionError (ServiceError ''timeout'')),
           prediction_down\<lparr>db_calls := 1, groq_calls := 2\<rparr>)
   \<and> snd (handleAnalyze remote_screen prediction_down)
        = prediction_down\<lparr>db_calls := 1, groq_calls := 2\<rparr>
   \<and> st_result (fst (handleAnalyze remote_screen prediction_down)) = AiAnalysis ''Prices are stable.''
   \<and> st_prediction (fst (handleAnalyze remote_screen prediction_down)) = PredictionUnavailable
   \<and> st_alerts (fst (handleAnalyze remote_screen prediction_down)) = []
   \<and> fetchHistoricalData ''1234'' ''INDIA'' service_down
        = (Inr sample_records, service_down\<lparr>db_calls := 1\<rparr>)
   \<and> analyzeWithEnhancedContext sample_records ''Basmati rice'' ''india'' ''1234'' ([], [])
          (service_down\<lparr>db_calls := 1\<rparr>)
        = (Inl (GroqAnalysisError (ServiceError ''timeout'')),
           service_down\<lparr>db_calls := 1, groq_calls := 1\<rparr>)
   \<and> snd (handleAnalyze remote_screen service_down) = service_down\<lparr>db_calls := 1, groq_calls := 1\<rparr>
   \<and> st_result (fst (handleAnalyze remote_screen service_down))
        = AnalysisFailed (GroqAnalysisError (ServiceError ''timeout''))
   \<and> st_prediction (fst (handleAnalyze remote_screen service_down)) = NoPrediction
   \<and> st_alerts (fst (handleAnalyze remote_screen service_down))
        = [AnalysisErrorAlert (GroqAnalysisError (ServiceError ''timeout''))]"
proof -
  have s: "st_product remote_screen = ''Basmati rice''" "st_country remote_screen = '' india''"
    "st_hsnCode remote_screen = ''1234''" "st_useAI remote_screen" "\<not> st_useEmbeddings remote_screen"
    "st_alerts remote_screen = []"
    by (simp_all add: remote_screen_def)
  have nb: "trim (st_product remote_screen) \<noteq> []" "trim (st_country remote_screen) \<noteq> []"
    "trim (st_hsnCode remote_screen) \<noteq> []"
    by (simp_all add: s trim_samples)
  have f1: "fetchHistoricalData (trim (st_hsnCode remote_screen)) (toUpperCase (trim (st_country remote_screen)))
              prediction_down = (Inr sample_records, prediction_down\<lparr>db_calls := 1\<rparr>)"
    unfolding prediction_down_def by (simp add: s trim_samples sample_fetch)
  have f2: "fetchHistoricalData (trim (st_hsnCode remote_screen)) (toUpperCase (trim (st_country remote_screen)))
              service_down = (Inr sample_records, service_down\<lparr>db_calls := 1\<rparr>)"
    unfolding service_down_def by (simp add: s trim_samples sample_fetch)
  have s1: "similar_step remote_screen sample_records (prediction_down\<lparr>db_calls := 1\<rparr>)
        = (([], []), prediction_down\<lparr>db_calls := 1\<rparr>)"
    by (simp add: similar_step_def s)
  have s2: "similar_step remote_screen sample_records (service_down\<lparr>db_calls := 1\<rparr>)
        = (([], []), service_down\<lparr>db_calls := 1\<rparr>)"
    by (simp add: similar_step_def s)
  have a1: "analyzeWithEnhancedContext sample_records ''Basmati rice'' ''india'' ''1234'' ([], [])
          (prediction_down\<lparr>db_calls := 1\<rparr>)
        = (Inr ''Prices are stable.'', prediction_down\<lparr>db_calls := 1, groq_calls := 1\<rparr>)"
    by (simp add: analyzeWithEnhancedContext_def groq_call_def prediction_down_def sample_world_def world0_def)
  have p1: "generateMarketPrediction sample_records ''Basmati rice'' ''india'' []
          (prediction_down\<lparr>db_calls := 1, groq_calls := 1\<rparr>)
        = (Inl (PredictionError (ServiceError ''timeout'')),
           prediction_down\<lparr>db_calls := 1, groq_calls := 2\<rparr>)"
    by (simp add: generateMarketPrediction_def groq_call_def prediction_down_def sample_world_def world0_def)
  have a2: "analyzeWithEnhancedContext sample_records ''Basmati rice'' ''india'' ''1234'' ([], [])
          (service_down\<lparr>db_calls := 1\<rparr>)
        = (Inl (GroqAnalysisError (ServiceError ''timeout'')),
           service_down\<lparr>db_calls := 1, groq_calls := 1\<rparr>)"
    by (simp add: analyzeWithEnhancedContext_def groq_call_def service_down_def sample_world_def world0_def)
  note t1 = prediction_failure_keeps_analysis [OF nb s(4) f1 s1,
      of "''Prices are stable.''" "prediction_down\<lparr>db_calls := 1, groq_calls := 1\<rparr>"
         "PredictionError (ServiceError ''timeout'')" "prediction_down\<lparr>db_calls := 1, groq_calls := 2\<rparr>",
      THEN conjunct1]
  note t2 = prediction_failure_keeps_analysis [OF nb s(4) f2 s2,
      of _ _ _ _ "GroqAnalysisError (ServiceError ''timeout'')" "service_down\<lparr>db_calls := 1, groq_calls := 1\<rparr>",
      THEN conjunct2]
  show ?thesis
    using nb s(4,6) f1 f2 s1 a1 p1 a2 t1 t2 by (simp add: s trim_samples)
qed



section \<open>Properties of the embedding client\<close>

lemma same_store_refl: "same_store w w"
  by (simp add: same_store_def)

lemma same_store_trans: "same_store w w1 \<Longrightarrow> same_store w1 w2 \<Longrightarrow> same_store w w2"
  by (simp add: same_store_def)

lemma embedQuery_frame: "embedQuery text w = (r, w') \<Longrightarrow> same_store w w'"
  by (auto simp: embedQuery_def same_store_def)

lemma initializeEmbeddings_frame: "initializeEmbeddings w = (r, w') \<Longrightarrow> same_store w w'"
  by (auto simp: initializeEmbeddings_def same_store_def embedQuery_def split: sum.splits if_splits)

lemma embedding_attempt_frame:
  assumes "embedding_attempt text w = (r, w')"
  shows "same_store w w'"
proof (cases "embeddings w")
  case True
  then show ?thesis using assms
    by (auto simp: embedding_attempt_def embedQuery_def same_store_def split: sum.splits if_splits)
next
  case False
  obtain ri wi where i: "initializeEmbeddings w = (ri, wi)" by (metis surj_pair)
  note fi = initializeEmbeddings_frame [OF i]
  show ?thesis
  proof (cases ri)
    case (Inl e)
    then show ?thesis using assms False i fi by (auto simp: embedding_attempt_def)
  next
    case (Inr u)
    then show ?thesis using assms False i fi
      by (auto simp: embedding_attempt_def embedQuery_def same_store_def split: sum.splits if_splits)
  qed
qed

lemma generateEmbedding_from_frame:
  "generateEmbedding_from attempt text retries w = (r, w') \<Longrightarrow> same_store w w'"
proof (induction attempt "text" retries w rule: generateEmbedding_from.induct)
  case (1 attempt tx retries w)
  obtain ra wa where a: "embedding_attempt tx w = (ra, wa)" by (metis surj_pair)
  note fa = embedding_attempt_frame [OF a]
  note unf = "1.prems" [unfolded generateEmbedding_from.simps [of attempt tx retries w]]
  show ?case
  proof (cases "attempt \<le> retries")
    case False
    then show ?thesis using unf by (simp add: same_store_refl)
  next
    case True
    note le = this
    show ?thesis
    proof (cases ra)
      case (Inr v)
      then show ?thesis using unf le a fa by simp
    next
      case (Inl e)
      show ?thesis
      proof (cases "attempt = retries")
        case True
        then show ?thesis using unf a fa Inl by simp
      next
        case False
        let ?w = "wa\<lparr>waits := waits wa @ [2 ^ nat attempt * 1000]\<rparr>"
        have "generateEmbedding_from (attempt + 1) tx retries ?w = (r, w')"
          using unf le a Inl False by simp
        then have "same_store ?w w'"
          using "1.IH" [OF le a [symmetric] _ False] Inl by simp
        moreover have "same_store w ?w"
          using fa by (simp add: same_store_def)
        ultimately show ?thesis by (rule same_store_trans [rotated])
      qed
    qed
  qed
qed

lemma generateEmbedding_frame:
  "generateEmbedding text retries w = (r, w') \<Longrightarrow> same_store w w'"
  unfolding generateEmbedding_def by (rule generateEmbedding_from_frame)

text \<open>
  Claim C7, as the code has it. When the probe of the first-use initialization returns a
  vector whose length is not 384, \<^verbatim>\<open>initializeEmbeddings\<close> fails at once with the dimension
  error and makes no second request. \<^verbatim>\<open>generateEmbedding\<close> runs the initialization inside
  its retry loop: after such a failure on an attempt before the last it waits
  \<open>2\<^sup>a\<^sup>t\<^sup>t\<^sup>e\<^sup>m\<^sup>p\<^sup>t\<close> seconds and goes on with the next attempt, which initializes again; on the last
  attempt the failure surfaces, wrapped in the error of \<^verbatim>\<open>generateEmbedding\<close>.
\<close>

theorem init_mismatch_is_retried:
  assumes "\<not> embeddings w"
    and "hf_embed w (hf_calls w) ''test'' = Inr v"
    and "length v \<noteq> EXPECTED_DIMENSIONS"
  shows "initializeEmbeddings w
           = (Inl (InitError (DimensionError (length v))), w\<lparr>hf_calls := Suc (hf_calls w)\<rparr>)
       \<and> (attempt < retries \<longrightarrow>
            generateEmbedding_from attempt text retries w
              = generateEmbedding_from (attempt + 1) text retries
                  (w\<lparr>hf_calls := Suc (hf_calls w), waits := waits w @ [2 ^ nat attempt * 1000]\<rparr>))
       \<and> generateEmbedding_from retries text retries w
           = (Inl (EmbeddingError retries (InitError (DimensionError (length v)))),
              w\<lparr>hf_calls := Suc (hf_calls w)\<rparr>)"
proof -
  have i: "initializeEmbeddings w
           = (Inl (InitError (DimensionError (length v))), w\<lparr>hf_calls := Suc (hf_calls w)\<rparr>)"
    using assms by (simp add: initializeEmbeddings_def embedQuery_def)
  have a: "embedding_attempt text w
           = (Inl (InitError (DimensionError (length v))), w\<lparr>hf_calls := Suc (hf_calls w)\<rparr>)"
    using assms(1) i by (simp add: embedding_attempt_def)
  show ?thesis
    using i a
    by (simp add: generateEmbedding_from.simps [of attempt] generateEmbedding_from.simps [of retries "text" retries])
qed

text \<open>The theorem of C7 in a world whose first probe returns 383 numbers.\<close>

theorem init_mismatch_is_retried_witness:
  "\<not> embeddings probe_short
   \<and> hf_embed probe_short (hf_calls probe_short) ''test'' = Inr (replicate 383 0)
   \<and> length (replicate 383 (0::real)) \<noteq> EXPECTED_DIMENSIONS
   \<and> initializeEmbeddings probe_short
         = (Inl (InitError (DimensionError 383)), probe_short\<lparr>hf_calls := 1\<rparr>)
   \<and> (1::int) < 3
   \<and> generateEmbedding_from 1 ''rice'' 3 probe_short
         = generateEmbedding_from 2 ''rice'' 3 (probe_short\<lparr>hf_calls := 1, waits := [2000]\<rparr>)
   \<and> generateEmbedding_from 3 ''rice'' 3 probe_short
         = (Inl (EmbeddingError 3 (InitError (DimensionError 383))), probe_short\<lparr>hf_calls := 1\<rparr>)"
proof -
  have h1: "\<not> embeddings probe_short"
    by (simp add: probe_short_def world0_def)
  have h2: "hf_embed probe_short (hf_calls probe_short) ''test'' = Inr (replicate 383 0)"
    by (simp add: probe_short_def world0_def)
  have h3: "length (replicate 383 (0::real)) \<noteq> EXPECTED_DIMENSIONS"
    by (simp add: EXPECTED_DIMENSIONS_def)
  have c: "hf_calls probe_short = 0" "waits probe_short = []"
    by (simp_all add: probe_short_def world0_def)
  show ?thesis
    using h1 h2 h3 init_mismatch_is_retried [OF h1 h2 h3, of 1 3 "''rice''"]
    by (simp add: c)
qed

text \<open>
  Claim C7 as stated fails: after the mismatch of the first probe, \<^verbatim>\<open>generateEmbedding\<close>
  waits 2000 ms, initializes again and returns a vector, with three requests in all.
\<close>

theorem generateEmbedding_retries_initialization:
  "fst (generateEmbedding ''rice'' 3 probe_short) = Inr (replicate 384 0)
   \<and> hf_calls (snd (generateEmbedding ''rice'' 3 probe_short)) = 3
   \<and> waits (snd (generateEmbedding ''rice'' 3 probe_short)) = [2000]"
  by (simp add: generateEmbedding_def generateEmbedding_from.simps embedding_attempt_def
      initializeEmbeddings_def embedQuery_def probe_short_def world0_def EXPECTED_DIMENSIONS_def)



section \<open>Properties of the document store adapter\<close>

lemma select_document_ok:
  assumes "db_fault w (db_calls w) = None"
  shows "select_document hsnCode country w
           = (single (map doc_id (key_docs hsnCode country w)), w\<lparr>db_calls := Suc (db_calls w)\<rparr>)"
  using assms by (simp add: select_document_def db_request_def key_docs_def)

lemma select_document_fault:
  assumes "db_fault w (db_calls w) = Some m"
  shows "select_document hsnCode country w
           = ((None, Some (PgError [] m)), w\<lparr>db_calls := Suc (db_calls w)\<rparr>)"
  using assms by (simp add: select_document_def db_request_def)

lemma single_cases:
  "single xs = (if length xs = 1 then (Some (hd xs), None)
                else (None, Some (PgError ''PGRST116'' ''JSON object requested, multiple (or no) rows returned'')))"
  by (cases xs; cases "tl xs") (auto simp: single_def split: list.splits)

lemma store_success:
  assumes ok: "storeProductWithHistoricalData productName hsnCode country historicalData w = (Inr (), w')"
    and ne: "historicalData \<noteq> []"
  shows "\<exists>embedding w1. same_store w w1 \<and>
           w' = (if length (key_docs hsnCode country w1) = 1
                 then after_update productName hsnCode country historicalData embedding
                        (doc_id (hd (key_docs hsnCode country w1))) w1
                 else after_insert productName hsnCode country historicalData embedding w1)"
proof -
  let ?tx = "product_text productName hsnCode country historicalData"
  obtain rg w1 where g: "generateEmbedding ?tx 3 w = (rg, w1)" by (metis surj_pair)
  have fr: "same_store w w1" by (rule generateEmbedding_frame [OF g])
  show ?thesis
  proof (cases rg)
    case (Inl e)
    then show ?thesis using ok ne g by (simp add: storeProductWithHistoricalData_def)
  next
    case (Inr embedding)
    note rg = this
    show ?thesis
    proof (cases "db_fault w1 (db_calls w1)")
      case (Some m)
      then show ?thesis using ok ne g rg
        by (simp add: storeProductWithHistoricalData_def select_document_fault)
    next
      case None
      note sel = select_document_ok [OF None, of hsnCode country]
      let ?w2 = "w1\<lparr>db_calls := Suc (db_calls w1)\<rparr>"
      show ?thesis
      proof (cases "length (key_docs hsnCode country w1) = 1")
        case True
        let ?ident = "doc_id (hd (key_docs hsnCode country w1))"
        have s: "select_document hsnCode country w1 = ((Some ?ident, None), ?w2)"
        proof -
          have "key_docs hsnCode country w1 \<noteq> []" using True by auto
          then show ?thesis using sel True by (simp add: single_cases hd_map)
        qed
        show ?thesis
        proof (cases "db_fault w1 (Suc (db_calls w1))")
          case (Some m)
          then show ?thesis using ok ne g rg s
            by (simp add: storeProductWithHistoricalData_def new_Date_def update_document_def
                db_request_def)
        next
          case None
          then have "w' = after_update productName hsnCode country historicalData embedding ?ident w1"
            using ok ne g rg s
            by (auto simp: storeProductWithHistoricalData_def new_Date_def update_document_def
                db_request_def after_update_def updated_doc_def eval_nat_numeral cong: if_cong)
          then show ?thesis using fr True by auto
        qed
      next
        case False
        have s: "select_document hsnCode country w1
                   = ((None, Some (PgError ''PGRST116'' ''JSON object requested, multiple (or no) rows returned'')), ?w2)"
          using sel False by (simp add: single_cases)
        show ?thesis
        proof (cases "db_fault w1 (Suc (db_calls w1))")
          case (Some m)
          then show ?thesis using ok ne g rg s
            by (simp add: storeProductWithHistoricalData_def new_Date_def insert_document_def
                db_request_def)
        next
          case None
          then have "w' = after_insert productName hsnCode country historicalData embedding w1"
            using ok ne g rg s
            by (auto simp: storeProductWithHistoricalData_def new_Date_def insert_document_def
                db_request_def after_insert_def inserted_doc_def eval_nat_numeral)
          then show ?thesis using fr False by auto
        qed
      qed
    qed
  qed
qed

lemma same_store_key_docs: "same_store w w1 \<Longrightarrow> key_docs hsnCode country w1 = key_docs hsnCode country w"
  by (simp add: same_store_def key_docs_def)

lemma key_docs_after_update:
  "key_docs hsnCode country (after_update productName h c historicalData embedding ident w1)
     = map (\<lambda>d. if doc_id d = ident
                 then updated_doc (product_text productName h c historicalData) embedding
                        ((product_metadata productName h c historicalData (clock w1 (clock_reads w1)))
                           \<lparr>md_updated_at := Some (clock w1 (clock_reads w1 + 1))\<rparr>)
                        (clock w1 (clock_reads w1 + 2)) d
                 else d) (key_docs hsnCode country w1)"
  by (simp add: key_docs_def after_update_def filter_map comp_def updated_doc_def cong: if_cong)

lemma ids_after_update:
  "map doc_id (documents (after_update productName h c historicalData embedding ident w1))
     = map doc_id (documents w1)"
  by (simp add: after_update_def updated_doc_def comp_def cong: if_cong)

lemma key_docs_after_insert:
  "key_docs hsnCode country (after_insert productName hsnCode country historicalData embedding w1)
     = key_docs hsnCode country w1 @
         [inserted_doc (documents w1) (product_text productName hsnCode country historicalData) embedding
            hsnCode country
            (product_metadata productName hsnCode country historicalData (clock w1 (clock_reads w1)))
            (clock w1 (clock_reads w1 + 1))]"
  by (simp add: key_docs_def after_insert_def inserted_doc_def)

lemma after_first_upsert:
  assumes "length (key_docs hsnCode country w) \<le> 1"
    and "historicalData \<noteq> []"
    and "storeProductWithHistoricalData productName hsnCode country historicalData w = (Inr (), w1)"
  shows "\<exists>d1. key_docs hsnCode country w1 = [d1]
            \<and> last_written d1 = Some (clock w (clock_reads w1 - 1))
            \<and> clock w1 = clock w \<and> clock_reads w < clock_reads w1"
proof -
  from store_success [OF assms(3,2)] obtain embedding wa where
    fr: "same_store w wa" and
    w1: "w1 = (if length (key_docs hsnCode country wa) = 1
               then after_update productName hsnCode country historicalData embedding
                      (doc_id (hd (key_docs hsnCode country wa))) wa
               else after_insert productName hsnCode country historicalData embedding wa)"
    by blast
  have kd: "key_docs hsnCode country wa = key_docs hsnCode country w"
    by (rule same_store_key_docs [OF fr])
  have cl: "clock wa = clock w" "clock_reads wa = clock_reads w"
    using fr by (simp_all add: same_store_def)
  show ?thesis
  proof (cases "length (key_docs hsnCode country wa) = 1")
    case True
    then obtain d where d: "key_docs hsnCode country wa = [d]"
      by (cases "key_docs hsnCode country wa") auto
    have eq: "w1 = after_update productName hsnCode country historicalData embedding (doc_id d) wa"
      using w1 True d by simp
    have k: "key_docs hsnCode country w1 =
               [updated_doc (product_text productName hsnCode country historicalData) embedding
                  ((product_metadata productName hsnCode country historicalData (clock wa (clock_reads wa)))
                     \<lparr>md_updated_at := Some (clock wa (clock_reads wa + 1))\<rparr>)
                  (clock wa (clock_reads wa + 2)) d]"
      unfolding eq by (simp add: key_docs_after_update d)
    have c: "clock w1 = clock w" "clock_reads w1 = clock_reads w + 3"
      unfolding eq by (simp_all add: after_update_def cl)
    show ?thesis
      unfolding k c by (simp add: last_written_def updated_doc_def cl)
  next
    case False
    then have "length (key_docs hsnCode country w) \<noteq> 1"
      using kd by simp
    with assms(1) have "length (key_docs hsnCode country w) = 0"
      by linarith
    then have e: "key_docs hsnCode country wa = []"
      using kd by simp
    have eq: "w1 = after_insert productName hsnCode country historicalData embedding wa"
      using w1 False by simp
    have k: "key_docs hsnCode country w1 =
               [inserted_doc (documents wa) (product_text productName hsnCode country historicalData)
                  embedding hsnCode country
                  (product_metadata productName hsnCode country historicalData (clock wa (clock_reads wa)))
                  (clock wa (clock_reads wa + 1))]"
      unfolding eq by (simp add: key_docs_after_insert e)
    have c: "clock w1 = clock w" "clock_reads w1 = clock_reads w + 2"
      unfolding eq by (simp_all add: after_insert_def cl)
    show ?thesis
      unfolding k c by (simp add: last_written_def inserted_doc_def cl)
  qed
qed

text \<open>
  Claim C8, as the code has it. In a store that holds at most one document for a code and
  market, two successful upserts with non-empty records leave exactly one document for
  that key. The second one adds no row: it updates the document of the first in place
  (same id, new content) and sets its update time to the clock reading it takes, the
  reading number \<open>clock_reads w1 + 2\<close>; the last time the first upsert wrote on the document
  is the reading number \<open>clock_reads w1 - 1\<close>. The update time is strictly greater when the
  clock readings strictly increase.
\<close>

theorem upsert_twice_one_document:
  assumes "length (key_docs hsnCode country w) \<le> 1"
    and "historicalData \<noteq> []" and "historicalData' \<noteq> []"
    and "storeProductWithHistoricalData productName hsnCode country historicalData w = (Inr (), w1)"
    and "storeProductWithHistoricalData productName' hsnCode country historicalData' w1 = (Inr (), w2)"
  shows "\<exists>d1 d2. key_docs hsnCode country w1 = [d1] \<and> key_docs hsnCode country w2 = [d2]
           \<and> map doc_id (documents w2) = map doc_id (documents w1)
           \<and> doc_id d2 = doc_id d1
           \<and> doc_content d2 = Some (product_text productName' hsnCode country historicalData')
           \<and> last_written d1 = Some (clock w (clock_reads w1 - 1))
           \<and> doc_updated_at d2 = Some (clock w (clock_reads w1 + 2))
           \<and> (\<exists>t1 t2. last_written d1 = Some t1 \<and> doc_updated_at d2 = Some t2
                  \<and> (strict_mono (clock w) \<longrightarrow> t1 < t2))"
proof -
  from after_first_upsert [OF assms(1,2,4)] obtain d1 where
    d1: "key_docs hsnCode country w1 = [d1]" and
    lw: "last_written d1 = Some (clock w (clock_reads w1 - 1))" and
    cl: "clock w1 = clock w" and pos: "clock_reads w < clock_reads w1"
    by blast
  from store_success [OF assms(5,3)] obtain embedding wb where
    fr: "same_store w1 wb" and
    w2: "w2 = (if length (key_docs hsnCode country wb) = 1
               then after_update productName' hsnCode country historicalData' embedding
                      (doc_id (hd (key_docs hsnCode country wb))) wb
               else after_insert productName' hsnCode country historicalData' embedding wb)"
    by blast
  have kd: "key_docs hsnCode country wb = [d1]"
    using same_store_key_docs [OF fr] d1 by simp
  have clb: "clock wb = clock w" "clock_reads wb = clock_reads w1" "documents wb = documents w1"
    using fr cl by (simp_all add: same_store_def)
  have w2': "w2 = after_update productName' hsnCode country historicalData' embedding (doc_id d1) wb"
    using w2 kd by simp
  let ?d2 = "updated_doc (product_text productName' hsnCode country historicalData') embedding
               ((product_metadata productName' hsnCode country historicalData' (clock wb (clock_reads wb)))
                  \<lparr>md_updated_at := Some (clock wb (clock_reads wb + 1))\<rparr>)
               (clock wb (clock_reads wb + 2)) d1"
  have k2: "key_docs hsnCode country w2 = [?d2]"
    unfolding w2' by (simp add: key_docs_after_update kd)
  have ids: "map doc_id (documents w2) = map doc_id (documents w1)"
    unfolding w2' by (simp add: ids_after_update clb)
  have up: "doc_updated_at ?d2 = Some (clock w (clock_reads w1 + 2))" "doc_id ?d2 = doc_id d1"
    "doc_content ?d2 = Some (product_text productName' hsnCode country historicalData')"
    by (simp_all add: updated_doc_def clb)
  have lt: "strict_mono (clock w) \<longrightarrow> clock w (clock_reads w1 - 1) < clock w (clock_reads w1 + 2)"
    using pos by (auto simp: strict_mono_def)
  show ?thesis
    using d1 k2 ids up lw lt by blast
qed

lemma store_eval:
  assumes ne: "historicalData \<noteq> []"
    and g: "generateEmbedding (product_text productName hsnCode country historicalData) 3 w
              = (Inr embedding, w1)"
    and f1: "db_fault w1 (db_calls w1) = None"
    and f2: "db_fault w1 (Suc (db_calls w1)) = None"
  shows "storeProductWithHistoricalData productName hsnCode country historicalData w
           = (Inr (),
              if length (key_docs hsnCode country w1) = 1
              then after_update productName hsnCode country historicalData embedding
                     (doc_id (hd (key_docs hsnCode country w1))) w1
              else after_insert productName hsnCode country historicalData embedding w1)"
proof (cases "length (key_docs hsnCode country w1) = 1")
  case True
  then have "key_docs hsnCode country w1 \<noteq> []" by auto
  then have s: "select_document hsnCode country w1
                  = ((Some (doc_id (hd (key_docs hsnCode country w1))), None),
                     w1\<lparr>db_calls := Suc (db_calls w1)\<rparr>)"
    using select_document_ok [OF f1, of hsnCode country] True by (simp add: single_cases hd_map)
  show ?thesis
    using ne g s f2 True
    by (auto simp: storeProductWithHistoricalData_def new_Date_def update_document_def
        db_request_def after_update_def updated_doc_def eval_nat_numeral cong: if_cong)
next
  case False
  then have s: "select_document hsnCode country w1
                  = ((None, Some (PgError ''PGRST116'' ''JSON object requested, multiple (or no) rows returned'')),
                     w1\<lparr>db_calls := Suc (db_calls w1)\<rparr>)"
    using select_document_ok [OF f1, of hsnCode country] by (simp add: single_cases)
  show ?thesis
    using ne g s f2 False
    by (auto simp: storeProductWithHistoricalData_def new_Date_def insert_document_def
        db_request_def after_insert_def inserted_doc_def eval_nat_numeral)
qed

lemma generateEmbedding_healthy:
  assumes "hf_embed w = (\<lambda>k t. Inr (replicate 384 0))"
  shows "generateEmbedding tx 3 w
           = (Inr (replicate 384 0),
              w\<lparr>hf_calls := (if embeddings w then Suc (hf_calls w) else Suc (Suc (hf_calls w))),
                embeddings := True\<rparr>)"
  using assms
  by (simp add: generateEmbedding_def generateEmbedding_from.simps [of 1] embedding_attempt_def
      initializeEmbeddings_def embedQuery_def EXPECTED_DIMENSIONS_def)

lemma store_healthy:
  assumes hf: "hf_embed w = (\<lambda>k t. Inr (replicate 384 0))"
    and db: "db_fault w = (\<lambda>k. None)"
    and ne: "historicalData \<noteq> []"
  shows "fst (storeProductWithHistoricalData productName hsnCode country historicalData w) = Inr ()"
    and "hf_embed (snd (storeProductWithHistoricalData productName hsnCode country historicalData w))
           = (\<lambda>k t. Inr (replicate 384 0))"
    and "db_fault (snd (storeProductWithHistoricalData productName hsnCode country historicalData w))
           = (\<lambda>k. None)"
    and "length (key_docs hsnCode country
                   (snd (storeProductWithHistoricalData productName hsnCode country historicalData w)))
           = (if length (key_docs hsnCode country w) = 1 then 1
              else Suc (length (key_docs hsnCode country w)))"
    and "rpc_match (snd (storeProductWithHistoricalData productName hsnCode country historicalData w))
           = rpc_match w"
proof -
  let ?w1 = "w\<lparr>hf_calls := (if embeddings w then Suc (hf_calls w) else Suc (Suc (hf_calls w))),
                embeddings := True\<rparr>"
  let ?tx = "product_text productName hsnCode country historicalData"
  have g: "generateEmbedding ?tx 3 w = (Inr (replicate 384 0), ?w1)"
    by (rule generateEmbedding_healthy [OF hf])
  have f: "db_fault ?w1 (db_calls ?w1) = None" "db_fault ?w1 (Suc (db_calls ?w1)) = None"
    using db by simp_all
  have kd: "key_docs hsnCode country ?w1 = key_docs hsnCode country w"
    by (simp add: key_docs_def)
  note ev = store_eval [OF ne g f]
  show "fst (storeProductWithHistoricalData productName hsnCode country historicalData w) = Inr ()"
    unfolding ev by simp
  show "hf_embed (snd (storeProductWithHistoricalData productName hsnCode country historicalData w))
           = (\<lambda>k t. Inr (replicate 384 0))"
    unfolding ev using hf by (simp add: after_update_def after_insert_def)
  show "db_fault (snd (storeProductWithHistoricalData productName hsnCode country historicalData w))
           = (\<lambda>k. None)"
    unfolding ev using db by (simp add: after_update_def after_insert_def)
  show "length (key_docs hsnCode country
                   (snd (storeProductWithHistoricalData productName hsnCode country historicalData w)))
           = (if length (key_docs hsnCode country w) = 1 then 1
              else Suc (length (key_docs hsnCode country w)))"
    unfolding ev kd by (simp add: key_docs_after_update key_docs_after_insert kd)
  show "rpc_match (snd (storeProductWithHistoricalData productName hsnCode country historicalData w))
           = rpc_match w"
    unfolding ev by (simp add: after_update_def after_insert_def)
qed

lemma healthy_samples: "hf_embed world0 = (\<lambda>k t. Inr (replicate 384 0))" "db_fault world0 = (\<lambda>k. None)"
  "hf_embed duplicated = (\<lambda>k t. Inr (replicate 384 0))" "db_fault duplicated = (\<lambda>k. None)"
  by (simp_all add: world0_def duplicated_def)

lemma records_ne: "sample_records \<noteq> []" "rising \<noteq> []"
  by (simp_all add: sample_records_def rising_def)

text \<open>The theorem of C8 for two upserts into the empty store.\<close>

theorem upsert_twice_one_document_witness:
  "length (key_docs ''1234'' ''INDIA'' world0) \<le> 1
   \<and> sample_records \<noteq> [] \<and> rising \<noteq> []
   \<and> storeProductWithHistoricalData ''Basmati rice'' ''1234'' ''INDIA'' sample_records world0
        = (Inr (), stored_once)
   \<and> storeProductWithHistoricalData ''Basmati rice'' ''1234'' ''INDIA'' rising stored_once
        = (Inr (), stored_twice)
   \<and> strict_mono (clock world0)
   \<and> (\<exists>d1 d2. key_docs ''1234'' ''INDIA'' stored_once = [d1]
          \<and> key_docs ''1234'' ''INDIA'' stored_twice = [d2]
          \<and> map doc_id (documents stored_twice) = map doc_id (documents stored_once)
          \<and> doc_id d2 = doc_id d1
          \<and> doc_content d2 = Some (product_text ''Basmati rice'' ''1234'' ''INDIA'' rising)
          \<and> last_written d1 = Some (clock world0 (clock_reads stored_once - 1))
          \<and> doc_updated_at d2 = Some (clock world0 (clock_reads stored_once + 2))
          \<and> (\<exists>t1 t2. last_written d1 = Some t1 \<and> doc_updated_at d2 = Some t2 \<and> t1 < t2))"
proof -
  have h1: "length (key_docs ''1234'' ''INDIA'' world0) \<le> 1"
    by (simp add: key_docs_def world0_def)
  have h4: "storeProductWithHistoricalData ''Basmati rice'' ''1234'' ''INDIA'' sample_records world0
              = (Inr (), stored_once)"
    using store_healthy(1) [OF healthy_samples(1,2) records_ne(1), where productName = "''Basmati rice''" and hsnCode = "''1234''" and country = "''INDIA''"]
    by (simp add: stored_once_def prod_eq_iff)
  have hs: "hf_embed stored_once = (\<lambda>k t. Inr (replicate 384 0))" "db_fault stored_once = (\<lambda>k. None)"
    unfolding stored_once_def
    by (rule store_healthy(2,3) [OF healthy_samples(1,2) records_ne(1)])+
  have h5: "storeProductWithHistoricalData ''Basmati rice'' ''1234'' ''INDIA'' rising stored_once
              = (Inr (), stored_twice)"
    using store_healthy(1) [OF hs records_ne(2), where productName = "''Basmati rice''" and hsnCode = "''1234''" and country = "''INDIA''"]
    by (simp add: stored_twice_def prod_eq_iff)
  have sm: "strict_mono (clock world0)"
    by (simp add: world0_def strict_mono_def)
  show ?thesis
    using h1 records_ne h4 h5 sm upsert_twice_one_document [OF h1 records_ne h4 h5]
    by blast
qed

text \<open>
  Claim C8 as stated fails for some states of the store: when two documents have the key,
  the lookup with \<^verbatim>\<open>.single()\<close> answers \<^verbatim>\<open>PGRST116\<close>, which the code takes for an absent
  document, and each upsert inserts one more document for the key.
\<close>

theorem upsert_on_duplicates_inserts:
  "length (key_docs ''1234'' ''INDIA'' duplicated) = 2
   \<and> fst (storeProductWithHistoricalData ''Basmati rice'' ''1234'' ''INDIA'' sample_records duplicated)
       = Inr ()
   \<and> length (key_docs ''1234'' ''INDIA'' duplicated_once) = 3
   \<and> fst (storeProductWithHistoricalData ''Basmati rice'' ''1234'' ''INDIA'' rising duplicated_once)
       = Inr ()
   \<and> length (key_docs ''1234'' ''INDIA'' duplicated_twice) = 4"
proof -
  have k0: "length (key_docs ''1234'' ''INDIA'' duplicated) = 2"
    by (simp add: key_docs_def duplicated_def world0_def)
  note a = store_healthy [OF healthy_samples(3,4) records_ne(1), where productName = "''Basmati rice''" and hsnCode = "''1234''" and country = "''INDIA''",
      folded duplicated_once_def]
  note b = store_healthy [OF a(2,3) records_ne(2), where productName = "''Basmati rice''" and hsnCode = "''1234''" and country = "''INDIA''",
      folded duplicated_twice_def]
  have k1: "length (key_docs ''1234'' ''INDIA'' duplicated_once) = 3"
    using a(4) k0 by simp
  have k2: "length (key_docs ''1234'' ''INDIA'' duplicated_twice) = 4"
    using b(4) k1 by simp
  show ?thesis
    using k0 a(1) k1 b(1) k2 by simp
qed



section \<open>Properties of the similarity search\<close>

lemma process_skip:
  assumes "\<not> passes_gate hsnCode country item"
  shows "process_results hsnCode country (item # data) (sp, sh)
           = process_results hsnCode country data (sp, sh)"
proof (cases "doc_hsn_code item = Some hsnCode \<and> doc_country item = Some country")
  case True
  then show ?thesis by simp
next
  case False
  then have k: "(doc_hsn_code item = Some hsnCode \<and> doc_country item = Some country) = False"
    by simp
  show ?thesis
  proof (cases "row_similarity item")
    case None
    then show ?thesis by (simp add: k)
  next
    case (Some s)
    then have "\<not> (meta md_type item = Some ''product_with_history'' \<and> s * 100 \<ge> 50)"
      using assms False by (simp add: passes_gate_def)
    then show ?thesis using Some by (auto simp: k Let_def)
  qed
qed

lemma process_both:
  assumes "passes_gate hsnCode country item" and "carries_history item"
  shows "process_results hsnCode country (item # data) (sp, sh)
           = process_results hsnCode country data (sp @ [product_of item], sh @ [history_of item])"
proof -
  obtain s where s: "row_similarity item = Some s" "s * 100 \<ge> 50"
    using assms(1) by (auto simp: passes_gate_def split: option.splits)
  obtain ys ps where h: "meta md_years item = Some ys" "meta md_prices item = Some ps"
    using assms(2) by (auto simp: carries_history_def)
  have k: "(doc_hsn_code item = Some hsnCode \<and> doc_country item = Some country) = False"
    "meta md_type item = Some ''product_with_history''"
    using assms(1) by (simp_all add: passes_gate_def)
  show ?thesis
    by (simp add: k s h Let_def product_of_def history_of_def candidate_similarity_def)
qed

lemma process_product_only:
  assumes "passes_gate hsnCode country item" and "\<not> carries_history item"
  shows "process_results hsnCode country (item # data) (sp, sh)
           = process_results hsnCode country data (sp @ [product_of item], sh)"
proof -
  obtain s where s: "row_similarity item = Some s" "s * 100 \<ge> 50"
    using assms(1) by (auto simp: passes_gate_def split: option.splits)
  have k: "(doc_hsn_code item = Some hsnCode \<and> doc_country item = Some country) = False"
    "meta md_type item = Some ''product_with_history''"
    using assms(1) by (simp_all add: passes_gate_def)
  have "meta md_years item = None \<or> meta md_prices item = None"
    using assms(2) by (simp add: carries_history_def)
  then show ?thesis
  proof
    assume "meta md_years item = None"
    then show ?thesis
      by (simp add: k s Let_def product_of_def candidate_similarity_def)
  next
    assume n: "meta md_prices item = None"
    show ?thesis
      by (cases "meta md_years item")
         (simp_all add: k s n Let_def product_of_def candidate_similarity_def)
  qed
qed

lemma process_results_eq:
  "process_results hsnCode country data (sp, sh)
     = (sp @ map product_of (filter (passes_gate hsnCode country) data),
        sh @ map history_of
               (filter (\<lambda>item. passes_gate hsnCode country item \<and> carries_history item) data))"
proof (induction data arbitrary: sp sh)
  case Nil
  then show ?case by simp
next
  case (Cons item data)
  consider "\<not> passes_gate hsnCode country item"
    | "passes_gate hsnCode country item" "carries_history item"
    | "passes_gate hsnCode country item" "\<not> carries_history item"
    by blast
  then show ?case
  proof cases
    case 1
    show ?thesis unfolding process_skip [OF 1] Cons.IH using 1 by simp
  next
    case 2
    show ?thesis unfolding process_both [OF 2] Cons.IH using 2 by simp
  next
    case 3
    show ?thesis unfolding process_product_only [OF 3] Cons.IH using 3 by simp
  qed
qed

lemma slice0_Nil: "slice0 k [] = []"
  by (simp add: slice0_def)

lemma findSimilar_primary:
  assumes st: "storeProductWithHistoricalData productName hsnCode country historicalData w = (Inr u, w1)"
    and ge: "generateEmbedding (product_text productName hsnCode country historicalData) 3 w1
               = (Inr queryEmbedding, w2)"
    and rp: "rpc_match_documents queryEmbedding 0.3 (limit * 2) w2 = ((Some data, None), w3)"
  shows "findSimilarHistoricalData productName hsnCode country historicalData limit w
           = ((slice0 limit (map product_of (filter (passes_gate hsnCode country) data)),
               slice0 limit (map history_of
                  (filter (\<lambda>item. passes_gate hsnCode country item \<and> carries_history item) data))),
              w3)"
proof (cases "data = []")
  case True
  then show ?thesis
    using st ge rp by (simp add: findSimilarHistoricalData_def slice0_Nil)
next
  case False
  then show ?thesis
    using st ge rp by (simp add: findSimilarHistoricalData_def process_results_eq)
qed

lemma findSimilar_unavailable:
  assumes st: "storeProductWithHistoricalData productName hsnCode country historicalData w = (Inr u, w1)"
    and ge: "generateEmbedding (product_text productName hsnCode country historicalData) 3 w1
               = (Inr queryEmbedding, w2)"
    and rp: "rpc_match_documents queryEmbedding 0.3 (limit * 2) w2 = ((data, err), w3)"
    and un: "err \<noteq> None \<or> data = None \<or> data = Some []"
  shows "findSimilarHistoricalData productName hsnCode country historicalData limit w = (([], []), w3)"
proof (cases err)
  case (Some e)
  then show ?thesis
    using st ge rp by (simp add: findSimilarHistoricalData_def split: option.splits)
next
  case None
  then show ?thesis
    using st ge rp un by (auto simp: findSimilarHistoricalData_def)
qed

lemma findSimilar_shape:
  "\<exists>data. fst (findSimilarHistoricalData productName hsnCode country historicalData limit w)
     = (slice0 limit (map product_of (filter (passes_gate hsnCode country) data)),
        slice0 limit (map history_of
           (filter (\<lambda>item. passes_gate hsnCode country item \<and> carries_history item) data)))"
proof -
  let ?R = "findSimilarHistoricalData productName hsnCode country historicalData limit w"
  have empty: "fst ?R = ([], []) \<Longrightarrow> ?thesis"
    by (rule exI [of _ "[]"]) (simp add: slice0_Nil)
  obtain rs w1 where st: "storeProductWithHistoricalData productName hsnCode country historicalData w = (rs, w1)"
    by (metis surj_pair)
  show ?thesis
  proof (cases rs)
    case (Inl e)
    then show ?thesis using st by (intro empty) (simp add: findSimilarHistoricalData_def)
  next
    case (Inr u)
    note rs = this
    obtain rg w2 where ge: "generateEmbedding (product_text productName hsnCode country historicalData) 3 w1
               = (rg, w2)"
      by (metis surj_pair)
    show ?thesis
    proof (cases rg)
      case (Inl e)
      then show ?thesis using st rs ge by (intro empty) (simp add: findSimilarHistoricalData_def)
    next
      case (Inr q)
      obtain data err w3 where rp: "rpc_match_documents q 0.3 (limit * 2) w2 = ((data, err), w3)"
        by (metis surj_pair)
      show ?thesis
      proof (cases "err \<noteq> None \<or> data = None \<or> data = Some []")
        case True
        then show ?thesis
          using findSimilar_unavailable [OF st [unfolded rs] ge [unfolded Inr] rp] by (intro empty) simp
      next
        case False
        then obtain rows where "data = Some rows" "err = None" by auto
        then show ?thesis
          using findSimilar_primary [OF st [unfolded rs] ge [unfolded Inr]] rp by auto
      qed
    qed
  qed
qed

lemma product_of_bounds:
  assumes "passes_gate hsnCode country item"
  shows "50 \<le> similarity (product_of item)" and "similarity (product_of item) \<le> 100"
    and "similarity (history_of item) = similarity (product_of item)"
  using assms
  by (auto simp: passes_gate_def product_of_def history_of_def candidate_similarity_def
           split: option.splits)

lemma ranked_outputs:
  assumes "sorted_wrt (\<lambda>a b. candidate_similarity b \<le> candidate_similarity a) data"
  shows "sorted_wrt (\<lambda>a b. similarity b \<le> similarity a) (slice0 limit (map product_of (filter P data)))"
    and "sorted_wrt (\<lambda>a b. similarity b \<le> similarity a) (slice0 limit (map history_of (filter Q data)))"
proof -
  have m: "sorted_wrt (\<lambda>a b. min 100 (candidate_similarity b * 100) \<le> min 100 (candidate_similarity a * 100))
             (filter R data)" for R
    by (rule sorted_wrt_filter, rule sorted_wrt_mono_rel [OF _ assms]) (auto simp: min_def)
  show "sorted_wrt (\<lambda>a b. similarity b \<le> similarity a) (slice0 limit (map product_of (filter P data)))"
    using m [of P] by (intro sorted_wrt_slice0) (simp add: sorted_wrt_map product_of_def)
  show "sorted_wrt (\<lambda>a b. similarity b \<le> similarity a) (slice0 limit (map history_of (filter Q data)))"
    using m [of Q] by (intro sorted_wrt_slice0) (simp add: sorted_wrt_map history_of_def)
qed

text \<open>
  Claim C1, as the code has it. On the primary path both lists are made from the rows that
  pass the 50 percent gate: the products from all of them, the historical entries from
  those that also carry a year list and a price map. Each list is cut to \<open>limit\<close> entries
  (for a limit that is not negative) and keeps the order of the rows, so a ranking by
  descending similarity is preserved.
\<close>

theorem similar_history_behind_gate:
  assumes "storeProductWithHistoricalData productName hsnCode country historicalData w = (Inr u, w1)"
    and "generateEmbedding (product_text productName hsnCode country historicalData) 3 w1
           = (Inr queryEmbedding, w2)"
    and "rpc_match_documents queryEmbedding 0.3 (limit * 2) w2 = ((Some data, None), w3)"
  shows "findSimilarHistoricalData productName hsnCode country historicalData limit w
           = ((slice0 limit (map product_of (filter (passes_gate hsnCode country) data)),
               slice0 limit (map history_of
                  (filter (\<lambda>item. passes_gate hsnCode country item \<and> carries_history item) data))),
              w3)
       \<and> (0 \<le> limit \<longrightarrow>
            length (fst (fst (findSimilarHistoricalData productName hsnCode country historicalData limit w)))
              \<le> nat limit
            \<and> length (snd (fst (findSimilarHistoricalData productName hsnCode country historicalData limit w)))
              \<le> nat limit)
       \<and> (sorted_wrt (\<lambda>a b. candidate_similarity b \<le> candidate_similarity a) data \<longrightarrow>
            sorted_wrt (\<lambda>a b. similarity b \<le> similarity a)
              (fst (fst (findSimilarHistoricalData productName hsnCode country historicalData limit w)))
            \<and> sorted_wrt (\<lambda>a b. similarity b \<le> similarity a)
              (snd (fst (findSimilarHistoricalData productName hsnCode country historicalData limit w))))"
  unfolding findSimilar_primary [OF assms]
  by (simp add: length_slice0 ranked_outputs)

lemma rpc_healthy:
  assumes "db_fault w = (\<lambda>k. None)" and "rpc_match w = (\<lambda>q t c. Some rows)"
  shows "rpc_match_documents q t c w = ((Some rows, None), w\<lparr>db_calls := Suc (db_calls w)\<rparr>)"
  using assms by (simp add: rpc_match_documents_def db_request_def)

lemma findSimilar_healthy:
  assumes hf: "hf_embed w = (\<lambda>k t. Inr (replicate 384 0))"
    and db: "db_fault w = (\<lambda>k. None)"
    and ne: "historicalData \<noteq> []"
    and rpc: "rpc_match w = (\<lambda>q t c. Some rows)"
  shows "fst (findSimilarHistoricalData productName hsnCode country historicalData limit w)
           = (slice0 limit (map product_of (filter (passes_gate hsnCode country) rows)),
              slice0 limit (map history_of
                 (filter (\<lambda>item. passes_gate hsnCode country item \<and> carries_history item) rows)))"
proof -
  let ?st = "storeProductWithHistoricalData productName hsnCode country historicalData w"
  note sh = store_healthy [OF hf db ne, where productName = productName and hsnCode = hsnCode
      and country = country]
  have st: "?st = (Inr (), snd ?st)"
    using sh(1) by (simp add: prod_eq_iff)
  let ?w2 = "(snd ?st)\<lparr>hf_calls := (if embeddings (snd ?st) then Suc (hf_calls (snd ?st))
                                       else Suc (Suc (hf_calls (snd ?st)))), embeddings := True\<rparr>"
  have ge: "generateEmbedding (product_text productName hsnCode country historicalData) 3 (snd ?st)
              = (Inr (replicate 384 0), ?w2)"
    by (rule generateEmbedding_healthy [OF sh(2)])
  have rp: "rpc_match_documents (replicate 384 0) 0.3 (limit * 2) ?w2
              = ((Some rows, None), ?w2\<lparr>db_calls := Suc (db_calls ?w2)\<rparr>)"
    by (rule rpc_healthy) (simp_all add: sh(3,5) rpc)
  show ?thesis
    unfolding findSimilar_primary [OF st ge rp] by simp
qed

lemma ranked_healthy:
  "hf_embed ranked_world = (\<lambda>k t. Inr (replicate 384 0))" "db_fault ranked_world = (\<lambda>k. None)"
  "rpc_match ranked_world = (\<lambda>q t c. Some ranked_rows)"
  "hf_embed below_gate_world = (\<lambda>k t. Inr (replicate 384 0))" "db_fault below_gate_world = (\<lambda>k. None)"
  "rpc_match below_gate_world = (\<lambda>q t c. Some [candidate 9 ''1008'' history_md (2 / 5)])"
  by (simp_all add: ranked_world_def below_gate_world_def world0_def)

lemma gate_samples:
  "passes_gate ''1234'' ''INDIA'' (candidate 7 ''1006'' history_md (9 / 10))"
  "passes_gate ''1234'' ''INDIA'' (candidate 8 ''1007'' (history_md\<lparr>md_years := None, md_prices := None\<rparr>) (3 / 5))"
  "\<not> passes_gate ''1234'' ''INDIA'' (candidate 9 ''1008'' history_md (2 / 5))"
  "carries_history (candidate 7 ''1006'' history_md (9 / 10))"
  "carries_history (candidate 9 ''1008'' history_md (2 / 5))"
  "\<not> carries_history (candidate 8 ''1007'' (history_md\<lparr>md_years := None, md_prices := None\<rparr>) (3 / 5))"
  by (simp_all add: passes_gate_def carries_history_def candidate_def history_md_def meta_def)

text \<open>
  Claim C1 as stated fails: a row with a similarity of 40 percent that carries a year list
  and a price map contributes no historical entry.
\<close>

theorem history_entry_needs_gate:
  "rpc_match below_gate_world (replicate 384 0) 0.3 10 = Some [candidate 9 ''1008'' history_md (2 / 5)]
   \<and> meta md_years (candidate 9 ''1008'' history_md (2 / 5)) = Some [''2022'']
   \<and> meta md_prices (candidate 9 ''1008'' history_md (2 / 5)) = Some [(''2022'', Some 80)]
   \<and> row_similarity (candidate 9 ''1008'' history_md (2 / 5)) = Some (2 / 5)
   \<and> fst (findSimilarHistoricalData ''Basmati rice'' ''1234'' ''INDIA'' sample_records 5 below_gate_world)
        = ([], [])"
proof -
  have "fst (findSimilarHistoricalData ''Basmati rice'' ''1234'' ''INDIA'' sample_records 5 below_gate_world)
        = ([], [])"
    unfolding findSimilar_healthy [OF ranked_healthy(4,5) records_ne(1) ranked_healthy(6)]
    by (simp add: gate_samples slice0_Nil)
  then show ?thesis
    by (simp add: ranked_healthy(6) candidate_def history_md_def meta_def)
qed

text \<open>The theorem of C1 for three ranked rows and the limit 1.\<close>

theorem similar_history_behind_gate_witness:
  "storeProductWithHistoricalData ''Basmati rice'' ''1234'' ''INDIA'' sample_records ranked_world
     = (Inr (), ranked_stored)
   \<and> generateEmbedding (product_text ''Basmati rice'' ''1234'' ''INDIA'' sample_records) 3 ranked_stored
     = (Inr (replicate 384 0), ranked_embedded)
   \<and> rpc_match_documents (replicate 384 0) 0.3 (1 * 2) ranked_embedded
     = ((Some ranked_rows, None), ranked_embedded\<lparr>db_calls := Suc (db_calls ranked_embedded)\<rparr>)
   \<and> (0::int) \<le> 1
   \<and> sorted_wrt (\<lambda>a b. candidate_similarity b \<le> candidate_similarity a) ranked_rows
   \<and> findSimilarHistoricalData ''Basmati rice'' ''1234'' ''INDIA'' sample_records 1 ranked_world
     = (([product_of (candidate 7 ''1006'' history_md (9 / 10))],
         [history_of (candidate 7 ''1006'' history_md (9 / 10))]),
        ranked_embedded\<lparr>db_calls := Suc (db_calls ranked_embedded)\<rparr>)
   \<and> similarity (product_of (candidate 7 ''1006'' history_md (9 / 10))) = 90
   \<and> length (fst (fst (findSimilarHistoricalData ''Basmati rice'' ''1234'' ''INDIA'' sample_records 1
                          ranked_world))) \<le> nat 1
   \<and> length (snd (fst (findSimilarHistoricalData ''Basmati rice'' ''1234'' ''INDIA'' sample_records 1
                          ranked_world))) \<le> nat 1
   \<and> sorted_wrt (\<lambda>a b. similarity b \<le> similarity a)
        (fst (fst (findSimilarHistoricalData ''Basmati rice'' ''1234'' ''INDIA'' sample_records 1
                     ranked_world)))
   \<and> sorted_wrt (\<lambda>a b. similarity b \<le> similarity a)
        (snd (fst (findSimilarHistoricalData ''Basmati rice'' ''1234'' ''INDIA'' sample_records 1
                     ranked_world)))"
proof -
  note sh = store_healthy [OF ranked_healthy(1,2) records_ne(1), where productName = "''Basmati rice''"
      and hsnCode = "''1234''" and country = "''INDIA''", folded ranked_stored_def]
  have st: "storeProductWithHistoricalData ''Basmati rice'' ''1234'' ''INDIA'' sample_records ranked_world
     = (Inr (), ranked_stored)"
    using sh(1) by (simp add: ranked_stored_def prod_eq_iff)
  have ge: "generateEmbedding (product_text ''Basmati rice'' ''1234'' ''INDIA'' sample_records) 3 ranked_stored
     = (Inr (replicate 384 0), ranked_embedded)"
    unfolding ranked_embedded_def by (simp add: generateEmbedding_healthy [OF sh(2)])
  have fr: "same_store ranked_stored ranked_embedded"
    by (rule generateEmbedding_frame [OF ge])
  have rp: "rpc_match_documents (replicate 384 0) 0.3 (1 * 2) ranked_embedded
     = ((Some ranked_rows, None), ranked_embedded\<lparr>db_calls := Suc (db_calls ranked_embedded)\<rparr>)"
    using fr sh(3,5) by (intro rpc_healthy) (simp_all add: same_store_def ranked_healthy(3))
  have so: "sorted_wrt (\<lambda>a b. candidate_similarity b \<le> candidate_similarity a) ranked_rows"
    by (simp add: ranked_rows_def candidate_similarity_def candidate_def)
  have v: "similarity (product_of (candidate 7 ''1006'' history_md (9 / 10))) = 90"
    by (simp add: product_of_def candidate_similarity_def candidate_def)
  show ?thesis
    using st ge rp so v similar_history_behind_gate [OF st ge rp]
    by (simp add: ranked_rows_def gate_samples slice0_def)
qed

lemma scaled_ratio_le: "r \<le> (1::real) \<Longrightarrow> r * 100 \<le> 100"
  by simp

lemma simple_candidate_bounds:
  assumes "simple_candidate queryWords doc = Some p"
  shows "20 < similarity p" and "similarity p \<le> 100"
proof -
  let ?allWords = "(case doc_content doc of None \<Rightarrow> [] | Some c \<Rightarrow> split_ws (toLowerCase c))
                    @ split_ws (toLowerCase (or_else (meta md_name doc) []))"
  let ?common = "filter (\<lambda>queryWord. \<exists>docWord \<in> set ?allWords.
                      str_includes docWord queryWord \<or> str_includes queryWord docWord) queryWords"
  let ?s = "real (length ?common) / real (max (length queryWords) 1) * 100"
  have p: "similarity p = ?s" "20 < ?s"
    using assms by (auto simp: simple_candidate_def Let_def split: if_splits)
  have "length ?common \<le> length queryWords"
    by (rule length_filter_le)
  also have "\<dots> \<le> max (length queryWords) 1"
    by (rule max.cobounded1)
  finally have "real (length ?common) \<le> real (max (length queryWords) 1)"
    by (rule iffD2 [OF of_nat_le_iff])
  moreover have "0 < real (max (length queryWords) 1)"
    by simp
  ultimately have "real (length ?common) / real (max (length queryWords) 1) \<le> 1"
    by (simp only: divide_le_eq_1_pos)
  then have "?s \<le> 100" by (rule scaled_ratio_le)
  then show "20 < similarity p" and "similarity p \<le> 100"
    using p by simp_all
qed

lemma simple_candidate_code:
  assumes "simple_candidate queryWords doc = Some p"
  shows "hsn_code p = or_else (or_opt (doc_hsn_code doc) (meta md_hsn_code doc)) ''Unknown''"
  using assms by (auto simp: simple_candidate_def Let_def split: if_splits)

lemma select_history_documents_ok:
  assumes "db_fault w (db_calls w) = None"
  shows "select_history_documents excludeHsnCode w
           = ((Some (take 100 (filter (selectable excludeHsnCode) (documents w))), None),
              w\<lparr>db_calls := Suc (db_calls w)\<rparr>)"
  using assms by (simp add: select_history_documents_def db_request_def selectable_def [abs_def])

lemma select_history_documents_fault:
  assumes "db_fault w (db_calls w) = Some m"
  shows "select_history_documents excludeHsnCode w
           = ((None, Some (PgError [] m)), w\<lparr>db_calls := Suc (db_calls w)\<rparr>)"
  using assms by (simp add: select_history_documents_def db_request_def)

lemma simple_result:
  "fst (searchSimilarProductsSimple query excludeHsnCode k w)
     = (if db_fault w (db_calls w) = None
        then slice0 k (js_sort (\<lambda>a b. Fin (similarity b - similarity a))
               (List.map_filter (simple_candidate (query_words query))
                  (take 100 (filter (selectable excludeHsnCode) (documents w)))))
        else [])"
proof (cases "db_fault w (db_calls w)")
  case None
  then show ?thesis
    by (simp add: searchSimilarProductsSimple_def select_history_documents_ok query_words_def)
next
  case (Some m)
  then show ?thesis
    by (simp add: searchSimilarProductsSimple_def select_history_documents_fault)
qed

lemma simple_sources:
  assumes "p \<in> set (fst (searchSimilarProductsSimple query excludeHsnCode k w))"
  shows "\<exists>d \<in> set (documents w). selectable excludeHsnCode d
            \<and> simple_candidate (query_words query) d = Some p"
proof -
  let ?ds = "take 100 (filter (selectable excludeHsnCode) (documents w))"
  let ?cs = "List.map_filter (simple_candidate (query_words query)) ?ds"
  have "p \<in> set (slice0 k (js_sort (\<lambda>a b. Fin (similarity b - similarity a)) ?cs))"
    using assms by (simp add: simple_result split: if_splits)
  then have "p \<in> set (js_sort (\<lambda>a b. Fin (similarity b - similarity a)) ?cs)"
    using set_slice0 by (rule rev_subsetD)
  then have "p \<in> set (List.map_filter (simple_candidate (query_words query)) ?ds)"
    by (simp only: set_js_sort)
  then obtain d where "d \<in> set ?ds" "simple_candidate (query_words query) d = Some p"
    by (auto simp: List.map_filter_def)
  moreover have "set ?ds \<subseteq> {d \<in> set (documents w). selectable excludeHsnCode d}"
    using set_take_subset [of 100 "filter (selectable excludeHsnCode) (documents w)"] by auto
  ultimately show ?thesis by blast
qed

lemma simple_length:
  assumes "0 \<le> k"
  shows "length (fst (searchSimilarProductsSimple query excludeHsnCode k w)) \<le> nat k"
  using assms by (simp add: simple_result length_slice0)

lemma keep_row_similarity:
  assumes "keep_row excludeHsnCode item"
  obtains s where "row_similarity item = Some s" "s \<ge> 0.1"
  using assms by (auto simp: keep_row_def split: if_splits option.splits)

lemma to_product_bounds:
  assumes "keep_row excludeHsnCode item" and "to_product item = Inr p"
  shows "0 \<le> similarity p" and "similarity p \<le> 100"
proof -
  obtain s where s: "row_similarity item = Some s" "s \<ge> 0.1"
    using assms(1) by (rule keep_row_similarity)
  have "similarity p = min 100 (s * 100)"
    using assms(2) s by (auto simp: to_product_def split: sum.splits)
  then show "0 \<le> similarity p" and "similarity p \<le> 100"
    using s(2) by simp_all
qed

lemma map_throwing_sources:
  assumes "map_throwing f xs = Inr ys" and "y \<in> set ys"
  shows "\<exists>x \<in> set xs. f x = Inr y"
  using assms
proof (induction xs arbitrary: ys)
  case Nil
  then show ?case by simp
next
  case (Cons x xs)
  then obtain y0 ys0 where f: "f x = Inr y0" and m: "map_throwing f xs = Inr ys0" and ys: "ys = y0 # ys0"
    by (auto split: sum.splits)
  show ?case
  proof (cases "y = y0")
    case True
    then show ?thesis using f by simp
  next
    case False
    then have "y \<in> set ys0" using Cons.prems(2) ys by simp
    then show ?thesis using Cons.IH [OF m] by auto
  qed
qed

lemma searchSimilarProducts_shape:
  "(\<exists>w'. fst (searchSimilarProducts query excludeHsnCode k w)
            = fst (searchSimilarProductsSimple query excludeHsnCode k w'))
   \<or> (\<exists>data. map_throwing to_product (slice0 k (filter (keep_row excludeHsnCode) data))
               = Inr (fst (searchSimilarProducts query excludeHsnCode k w)))"
proof -
  obtain rg w1 where ge: "generateEmbedding query 3 w = (rg, w1)" by (metis surj_pair)
  show ?thesis
  proof (cases rg)
    case (Inl e)
    then show ?thesis using ge by (auto simp: searchSimilarProducts_def)
  next
    case (Inr q)
    note rg = this
    obtain data err w2 where rp: "rpc_match_documents q 0.1 (k + 10) w1 = ((data, err), w2)"
      by (metis surj_pair)
    show ?thesis
    proof (cases err)
      case (Some e)
      then show ?thesis using ge rg rp
        by (auto simp: searchSimilarProducts_def split: option.splits)
    next
      case None
      note err = this
      show ?thesis
      proof (cases data)
        case None
        then show ?thesis using ge rg rp err by (auto simp: searchSimilarProducts_def)
      next
        case (Some rows)
        show ?thesis
        proof (cases "map_throwing to_product (slice0 k (filter (keep_row excludeHsnCode) rows))")
          case (Inl e)
          then show ?thesis using ge rg rp err Some
            by (auto simp: searchSimilarProducts_def)
        next
          case (Inr ps)
          show ?thesis
          proof (cases "rows = []")
            case True
            then show ?thesis using ge rg rp err Some by (auto simp: searchSimilarProducts_def)
          next
            case False
            then have "fst (searchSimilarProducts query excludeHsnCode k w) = ps"
              using ge rg rp err Some Inr by (simp add: searchSimilarProducts_def)
            then show ?thesis using Inr by auto
          qed
        qed
      qed
    qed
  qed
qed

lemma query_words_sample: "query_words ''Basmati rice'' = [''basmati'', ''rice'']"
  by (simp add: query_words_def toLowerCase_def split_ws_def is_space_def)

lemma simple_candidate_sample: "simple_candidate [''basmati'', ''rice''] other_doc = Some keyword_product"
  by (simp add: simple_candidate_def other_doc_def history_md_def meta_def toLowerCase_def
      split_ws_def is_space_def keyword_product_def)

lemma selectable_samples: "selectable (Some ''1234'') other_doc" "\<not> selectable (Some ''1234'') own_doc"
  by (simp_all add: selectable_def other_doc_def own_doc_def history_md_def meta_def)

lemma simple_keyword:
  assumes "db_fault w (db_calls w) = None"
    and "filter (selectable (Some ''1234'')) (documents w) = [other_doc]"
  shows "fst (searchSimilarProductsSimple ''Basmati rice'' (Some ''1234'') 5 w) = [keyword_product]"
  using assms by (simp add: simple_result query_words_sample simple_candidate_sample List.map_filter_def slice0_def)

lemma in_range_slice:
  assumes "p \<in> set (slice0 k (map f (filter P data)))"
  obtains item where "item \<in> set data" "P item" "p = f item"
  using assms set_slice0 [of k "map f (filter P data)"] by auto

text \<open>
  Claim C3. Every similarity score that \<^verbatim>\<open>findSimilarHistoricalData\<close> (in both lists),
  \<^verbatim>\<open>searchSimilarProducts\<close> and the keyword fallback \<^verbatim>\<open>searchSimilarProductsSimple\<close> return
  lies between 0 and 100.
\<close>

theorem similarity_scores_in_range:
  "(\<forall>p \<in> set (fst (fst (findSimilarHistoricalData productName hsnCode country historicalData limit w))).
       0 \<le> similarity p \<and> similarity p \<le> 100)
   \<and> (\<forall>p \<in> set (snd (fst (findSimilarHistoricalData productName hsnCode country historicalData limit w))).
       0 \<le> similarity p \<and> similarity p \<le> 100)
   \<and> (\<forall>p \<in> set (fst (searchSimilarProducts query excludeHsnCode k w')).
       0 \<le> similarity p \<and> similarity p \<le> 100)
   \<and> (\<forall>p \<in> set (fst (searchSimilarProductsSimple query excludeHsnCode k w')).
       0 \<le> similarity p \<and> similarity p \<le> 100)"
proof (intro conjI ballI)
  obtain data where sh:
    "fst (findSimilarHistoricalData productName hsnCode country historicalData limit w)
       = (slice0 limit (map product_of (filter (passes_gate hsnCode country) data)),
          slice0 limit (map history_of
             (filter (\<lambda>item. passes_gate hsnCode country item \<and> carries_history item) data)))"
    using findSimilar_shape by blast
  {
    fix p assume "p \<in> set (fst (fst (findSimilarHistoricalData productName hsnCode country historicalData limit w)))"
    then have "p \<in> set (slice0 limit (map product_of (filter (passes_gate hsnCode country) data)))"
      by (simp add: sh)
    then obtain item where "passes_gate hsnCode country item" "p = product_of item"
      by (rule in_range_slice)
    then show "0 \<le> similarity p" "similarity p \<le> 100"
      using product_of_bounds [of hsnCode country item] by simp_all
  }
  {
    fix p assume "p \<in> set (snd (fst (findSimilarHistoricalData productName hsnCode country historicalData limit w)))"
    then have "p \<in> set (slice0 limit (map history_of
             (filter (\<lambda>item. passes_gate hsnCode country item \<and> carries_history item) data)))"
      by (simp add: sh)
    then obtain item where "passes_gate hsnCode country item \<and> carries_history item" "p = history_of item"
      by (rule in_range_slice)
    then show "0 \<le> similarity p" "similarity p \<le> 100"
      using product_of_bounds [of hsnCode country item] by simp_all
  }
  have simple: "0 \<le> similarity p \<and> similarity p \<le> 100"
    if "p \<in> set (fst (searchSimilarProductsSimple query excludeHsnCode k v))" for p v
  proof -
    from simple_sources [OF that] obtain d where "simple_candidate (query_words query) d = Some p"
      by blast
    then show ?thesis using simple_candidate_bounds [of "query_words query" d p] by simp
  qed
  {
    fix p assume "p \<in> set (fst (searchSimilarProductsSimple query excludeHsnCode k w'))"
    then show "0 \<le> similarity p" "similarity p \<le> 100"
      using simple by simp_all
  }
  {
    fix p assume p: "p \<in> set (fst (searchSimilarProducts query excludeHsnCode k w'))"
    have "0 \<le> similarity p \<and> similarity p \<le> 100"
      using searchSimilarProducts_shape [of query excludeHsnCode k w']
    proof
      assume "\<exists>v. fst (searchSimilarProducts query excludeHsnCode k w')
                    = fst (searchSimilarProductsSimple query excludeHsnCode k v)"
      then show ?thesis using p simple by auto
    next
      assume "\<exists>data. map_throwing to_product (slice0 k (filter (keep_row excludeHsnCode) data))
                       = Inr (fst (searchSimilarProducts query excludeHsnCode k w'))"
      then obtain data where m: "map_throwing to_product (slice0 k (filter (keep_row excludeHsnCode) data))
                       = Inr (fst (searchSimilarProducts query excludeHsnCode k w'))"
        by blast
      from map_throwing_sources [OF m p] obtain item where
        i: "item \<in> set (slice0 k (filter (keep_row excludeHsnCode) data))" "to_product item = Inr p"
        by blast
      have "keep_row excludeHsnCode item"
        using i(1) set_slice0 [of k "filter (keep_row excludeHsnCode) data"] by auto
      then show ?thesis using to_product_bounds [OF _ i(2)] by simp
    qed
    then show "0 \<le> similarity p" "similarity p \<le> 100" by simp_all
  }
qed

lemma keep_row_samples:
  "filter (keep_row (Some ''1234'')) ranked_rows = ranked_rows"
  by (simp add: ranked_rows_def keep_row_def candidate_def history_md_def meta_def)

lemma ranked_products:
  "\<exists>ps. map_throwing to_product ranked_rows = Inr ps \<and> map similarity ps = [90, 60, 40]
         \<and> map hsn_code ps = [''1006'', ''1007'', ''1008'']"
  by (simp add: ranked_rows_def to_product_def candidate_def history_md_def meta_def)

lemma search_ranked:
  "map similarity (fst (searchSimilarProducts ''Basmati rice'' (Some ''1234'') 5 ranked_world)) = [90, 60, 40]"
proof -
  let ?w1 = "ranked_world\<lparr>hf_calls := (if embeddings ranked_world then Suc (hf_calls ranked_world)
                                       else Suc (Suc (hf_calls ranked_world))), embeddings := True\<rparr>"
  have ge: "generateEmbedding ''Basmati rice'' 3 ranked_world = (Inr (replicate 384 0), ?w1)"
    by (rule generateEmbedding_healthy [OF ranked_healthy(1)])
  have rp: "rpc_match_documents (replicate 384 0) 0.1 (5 + 10) ?w1
              = ((Some ranked_rows, None), ?w1\<lparr>db_calls := Suc (db_calls ?w1)\<rparr>)"
    by (rule rpc_healthy) (simp_all add: ranked_healthy)
  have ne: "ranked_rows \<noteq> []" by (simp add: ranked_rows_def)
  have sl: "slice0 5 ranked_rows = ranked_rows" by (simp add: slice0_def ranked_rows_def)
  obtain ps where ps: "map_throwing to_product ranked_rows = Inr ps" "map similarity ps = [90, 60, 40]"
    using ranked_products by (elim exE conjE)
  show ?thesis
    using ge rp ne ps by (simp add: searchSimilarProducts_def keep_row_samples sl)
qed

text \<open>The theorem of C3 on results that are not empty.\<close>

theorem similarity_scores_in_range_witness:
  "map similarity (fst (fst (findSimilarHistoricalData ''Basmati rice'' ''1234'' ''INDIA''
                               sample_records 5 ranked_world))) = [90, 60]
   \<and> map similarity (snd (fst (findSimilarHistoricalData ''Basmati rice'' ''1234'' ''INDIA''
                               sample_records 5 ranked_world))) = [90]
   \<and> map similarity (fst (searchSimilarProducts ''Basmati rice'' (Some ''1234'') 5 ranked_world))
        = [90, 60, 40]
   \<and> map similarity (fst (searchSimilarProductsSimple ''Basmati rice'' (Some ''1234'') 5
                            (vector_down\<lparr>db_calls := 1\<rparr>))) = [100]
   \<and> list_all (\<lambda>p. 0 \<le> similarity p \<and> similarity p \<le> 100)
        (fst (fst (findSimilarHistoricalData ''Basmati rice'' ''1234'' ''INDIA'' sample_records 5
                     ranked_world)))
   \<and> list_all (\<lambda>p. 0 \<le> similarity p \<and> similarity p \<le> 100)
        (snd (fst (findSimilarHistoricalData ''Basmati rice'' ''1234'' ''INDIA'' sample_records 5
                     ranked_world)))
   \<and> list_all (\<lambda>p. 0 \<le> similarity p \<and> similarity p \<le> 100)
        (fst (searchSimilarProducts ''Basmati rice'' (Some ''1234'') 5 ranked_world))
   \<and> list_all (\<lambda>p. 0 \<le> similarity p \<and> similarity p \<le> 100)
        (fst (searchSimilarProductsSimple ''Basmati rice'' (Some ''1234'') 5
                (vector_down\<lparr>db_calls := 1\<rparr>)))"
proof -
  have f: "fst (findSimilarHistoricalData ''Basmati rice'' ''1234'' ''INDIA'' sample_records 5 ranked_world)
             = ([product_of (candidate 7 ''1006'' history_md (9 / 10)),
                 product_of (candidate 8 ''1007'' (history_md\<lparr>md_years := None, md_prices := None\<rparr>) (3 / 5))],
                [history_of (candidate 7 ''1006'' history_md (9 / 10))])"
    unfolding findSimilar_healthy [OF ranked_healthy(1,2) records_ne(1) ranked_healthy(3)]
    by (simp add: ranked_rows_def gate_samples slice0_def)
  have v: "similarity (product_of (candidate 7 ''1006'' history_md (9 / 10))) = 90"
    "similarity (product_of (candidate 8 ''1007'' (history_md\<lparr>md_years := None, md_prices := None\<rparr>) (3 / 5))) = 60"
    "similarity (history_of (candidate 7 ''1006'' history_md (9 / 10))) = 90"
    by (simp_all add: product_of_def history_of_def candidate_similarity_def candidate_def)
  have k: "fst (searchSimilarProductsSimple ''Basmati rice'' (Some ''1234'') 5 (vector_down\<lparr>db_calls := 1\<rparr>))
             = [keyword_product]"
    by (rule simple_keyword) (simp_all add: vector_down_def world0_def selectable_samples)
  have kv: "similarity keyword_product = 100"
    by (simp add: keyword_product_def)
  show ?thesis
    using similarity_scores_in_range [of "''Basmati rice''" "''1234''" "''INDIA''" sample_records 5
        ranked_world "''Basmati rice''" "Some ''1234''" 5 ranked_world]
      similarity_scores_in_range [of "''Basmati rice''" "''1234''" "''INDIA''" sample_records 5
        ranked_world "''Basmati rice''" "Some ''1234''" 5 "vector_down\<lparr>db_calls := 1\<rparr>"]
    unfolding list_all_iff f k search_ranked
    by (simp add: v kv)
qed

lemma search_falls_back:
  assumes ge: "generateEmbedding query 3 w = (Inr q, w1)"
    and rp: "rpc_match_documents q 0.1 (k + 10) w1 = ((data, err), w2)"
    and un: "err \<noteq> None \<or> data = None \<or> data = Some []"
  shows "searchSimilarProducts query excludeHsnCode k w
           = searchSimilarProductsSimple query excludeHsnCode k w2"
proof (cases err)
  case (Some e)
  then show ?thesis
    using ge rp by (simp add: searchSimilarProducts_def split: option.splits)
next
  case None
  then show ?thesis
    using ge rp un by (auto simp: searchSimilarProducts_def)
qed

lemma selectable_column:
  assumes "selectable (Some x) d" and "x \<noteq> []"
  obtains h where "doc_hsn_code d = Some h" "h \<noteq> x"
  using assms by (auto simp: selectable_def split: option.splits)

text \<open>
  Claim C2, as the code has it. In \<^verbatim>\<open>searchSimilarProducts\<close>, when the nearest-neighbour
  query fails or returns no rows, the result is that of the keyword fallback. The fallback
  returns at most \<open>k\<close> entries (for a \<open>k\<close> that is not negative), each built from a stored
  document whose code column differs from the excluded code; when no stored document has
  an empty code column, no entry has the excluded code. \<^verbatim>\<open>findSimilarHistoricalData\<close> has
  no fallback: in the same situation it returns two empty lists.
\<close>

theorem fallback_on_unavailable_search:
  "(generateEmbedding query 3 w = (Inr q, w1)
      \<and> rpc_match_documents q 0.1 (k + 10) w1 = ((data, err), w2)
      \<and> (err \<noteq> None \<or> data = None \<or> data = Some [])
    \<longrightarrow> searchSimilarProducts query excludeHsnCode k w
          = searchSimilarProductsSimple query excludeHsnCode k w2)
   \<and> (0 \<le> k \<longrightarrow> length (fst (searchSimilarProductsSimple query excludeHsnCode k w)) \<le> nat k)
   \<and> (x \<noteq> [] \<longrightarrow>
        (\<forall>p \<in> set (fst (searchSimilarProductsSimple query (Some x) k w)).
           \<exists>d \<in> set (documents w). \<exists>h. doc_hsn_code d = Some h \<and> h \<noteq> x
              \<and> simple_candidate (query_words query) d = Some p))
   \<and> (x \<noteq> [] \<and> (\<forall>d \<in> set (documents w). doc_hsn_code d \<noteq> Some []) \<longrightarrow>
        (\<forall>p \<in> set (fst (searchSimilarProductsSimple query (Some x) k w)). hsn_code p \<noteq> x))
   \<and> (storeProductWithHistoricalData productName hsnCode country historicalData w = (Inr u, wa)
      \<and> generateEmbedding (product_text productName hsnCode country historicalData) 3 wa = (Inr q', wb)
      \<and> rpc_match_documents q' 0.3 (limit * 2) wb = ((data', err'), wc)
      \<and> (err' \<noteq> None \<or> data' = None \<or> data' = Some [])
    \<longrightarrow> findSimilarHistoricalData productName hsnCode country historicalData limit w = (([], []), wc))"
proof -
  have src: "\<exists>d \<in> set (documents w). \<exists>h. doc_hsn_code d = Some h \<and> h \<noteq> x
              \<and> simple_candidate (query_words query) d = Some p"
    if "x \<noteq> []" "p \<in> set (fst (searchSimilarProductsSimple query (Some x) k w))" for p
  proof -
    from simple_sources [OF that(2)] obtain d where
      d: "d \<in> set (documents w)" "selectable (Some x) d" "simple_candidate (query_words query) d = Some p"
      by blast
    from selectable_column [OF d(2) that(1)] obtain h where "doc_hsn_code d = Some h" "h \<noteq> x"
      by blast
    then show ?thesis using d by blast
  qed
  have code: "hsn_code p \<noteq> x"
    if "x \<noteq> []" "\<forall>d \<in> set (documents w). doc_hsn_code d \<noteq> Some []"
       "p \<in> set (fst (searchSimilarProductsSimple query (Some x) k w))" for p
  proof -
    from src [OF that(1,3)] obtain d h where
      d: "d \<in> set (documents w)" "doc_hsn_code d = Some h" "h \<noteq> x"
         "simple_candidate (query_words query) d = Some p"
      by blast
    have "h \<noteq> []" using that(2) d(1,2) by auto
    then have "hsn_code p = h"
      using simple_candidate_code [OF d(4)] d(2) by simp
    then show ?thesis using d(3) by simp
  qed
  show ?thesis
    using search_falls_back [of query w q w1 k data err w2 excludeHsnCode]
      simple_length [of k query excludeHsnCode w] src code
      findSimilar_unavailable [of productName hsnCode country historicalData w u wa q' wb limit data' err' wc]
    by blast
qed

lemma rpc_faulty:
  assumes "db_fault w (db_calls w) = Some m"
  shows "rpc_match_documents q t c w = ((None, Some (PgError [] m)), w\<lparr>db_calls := Suc (db_calls w)\<rparr>)"
  using assms by (simp add: rpc_match_documents_def db_request_def)

lemma vector_down_facts:
  "hf_embed vector_down = (\<lambda>k t. Inr (replicate 384 0))"
  "db_fault vector_down = (\<lambda>k. if k = 0 then Some ''rpc unavailable'' else None)"
  "db_calls vector_down = 0" "documents vector_down = [own_doc, other_doc]"
  "\<not> embeddings vector_down" "hf_calls vector_down = 0"
  by (simp_all add: vector_down_def world0_def)

lemma rpc_down_facts:
  "hf_embed rpc_down = (\<lambda>k t. Inr (replicate 384 0))"
  "db_fault rpc_down = (\<lambda>k. if k = 2 then Some ''rpc unavailable'' else None)"
  "db_calls rpc_down = 0" "documents rpc_down = [other_doc]"
  "\<not> embeddings rpc_down" "hf_calls rpc_down = 0"
  by (simp_all add: rpc_down_def world0_def)

lemma rpc_down_stored_eq:
  shows "storeProductWithHistoricalData ''Basmati rice'' ''1234'' ''INDIA'' sample_records rpc_down
     = (Inr (), rpc_down_stored)"
  and "documents rpc_down_stored
     = [other_doc,
        inserted_doc [other_doc] (product_text ''Basmati rice'' ''1234'' ''INDIA'' sample_records)
          (replicate 384 0) ''1234'' ''INDIA''
          (product_metadata ''Basmati rice'' ''1234'' ''INDIA'' sample_records (clock rpc_down 0))
          (clock rpc_down 1)]"
  and "db_calls rpc_down_stored = 2"
  and "db_fault rpc_down_stored = db_fault rpc_down"
  and "hf_embed rpc_down_stored = (\<lambda>k t. Inr (replicate 384 0))"
proof -
  let ?w1 = "rpc_down\<lparr>hf_calls := 2, embeddings := True\<rparr>"
  have g: "generateEmbedding (product_text ''Basmati rice'' ''1234'' ''INDIA'' sample_records) 3 rpc_down
             = (Inr (replicate 384 0), ?w1)"
    by (simp add: generateEmbedding_healthy [OF rpc_down_facts(1)] rpc_down_facts)
  have f: "db_fault ?w1 (db_calls ?w1) = None" "db_fault ?w1 (Suc (db_calls ?w1)) = None"
    by (simp_all add: rpc_down_facts)
  have kd: "key_docs ''1234'' ''INDIA'' ?w1 = []"
    by (simp add: key_docs_def rpc_down_facts other_doc_def)
  have ev: "storeProductWithHistoricalData ''Basmati rice'' ''1234'' ''INDIA'' sample_records rpc_down
              = (Inr (), after_insert ''Basmati rice'' ''1234'' ''INDIA'' sample_records (replicate 384 0) ?w1)"
    using store_eval [OF records_ne(1) g f] by (simp add: kd)
  then have eq: "rpc_down_stored
              = after_insert ''Basmati rice'' ''1234'' ''INDIA'' sample_records (replicate 384 0) ?w1"
    by (simp add: rpc_down_stored_def)
  show "storeProductWithHistoricalData ''Basmati rice'' ''1234'' ''INDIA'' sample_records rpc_down
     = (Inr (), rpc_down_stored)"
    using ev eq by simp
  show "documents rpc_down_stored
     = [other_doc,
        inserted_doc [other_doc] (product_text ''Basmati rice'' ''1234'' ''INDIA'' sample_records)
          (replicate 384 0) ''1234'' ''INDIA''
          (product_metadata ''Basmati rice'' ''1234'' ''INDIA'' sample_records (clock rpc_down 0))
          (clock rpc_down 1)]"
    unfolding eq by (simp add: after_insert_def rpc_down_def world0_def)
  show "db_calls rpc_down_stored = 2" "db_fault rpc_down_stored = db_fault rpc_down"
    "hf_embed rpc_down_stored = (\<lambda>k t. Inr (replicate 384 0))"
    unfolding eq by (simp_all add: after_insert_def rpc_down_facts)
qed

lemma rpc_down_embedded_eq:
  shows "generateEmbedding (product_text ''Basmati rice'' ''1234'' ''INDIA'' sample_records) 3 rpc_down_stored
     = (Inr (replicate 384 0), rpc_down_embedded)"
  and "same_store rpc_down_stored rpc_down_embedded"
proof -
  show g: "generateEmbedding (product_text ''Basmati rice'' ''1234'' ''INDIA'' sample_records) 3 rpc_down_stored
     = (Inr (replicate 384 0), rpc_down_embedded)"
    unfolding rpc_down_embedded_def by (simp add: generateEmbedding_healthy [OF rpc_down_stored_eq(5)])
  show "same_store rpc_down_stored rpc_down_embedded"
    by (rule generateEmbedding_frame [OF g])
qed

lemma rpc_down_rpc:
  "rpc_match_documents (replicate 384 0) 0.3 (5 * 2) rpc_down_embedded
     = ((None, Some (PgError [] ''rpc unavailable'')),
        rpc_down_embedded\<lparr>db_calls := Suc (db_calls rpc_down_embedded)\<rparr>)"
  using rpc_down_embedded_eq(2)
  by (intro rpc_faulty) (simp add: same_store_def rpc_down_stored_eq rpc_down_facts)

lemma rpc_down_result:
  "findSimilarHistoricalData ''Basmati rice'' ''1234'' ''INDIA'' sample_records 5 rpc_down
     = (([], []), rpc_down_embedded\<lparr>db_calls := Suc (db_calls rpc_down_embedded)\<rparr>)"
  by (rule findSimilar_unavailable [OF rpc_down_stored_eq(1) rpc_down_embedded_eq(1) rpc_down_rpc]) simp

lemma sel_inserted: "\<not> selectable (Some ''1234'') (inserted_doc ds tx e ''1234'' c md t)"
  by (simp add: selectable_def inserted_doc_def)

text \<open>
  Claim C2 as stated fails for \<^verbatim>\<open>findSimilarHistoricalData\<close>: when the procedure fails it
  returns two empty lists after three requests to the store, although the keyword fallback
  on that store has a match.
\<close>

theorem no_fallback_in_findSimilarHistoricalData:
  "db_fault rpc_down 2 = Some ''rpc unavailable''
   \<and> fst (findSimilarHistoricalData ''Basmati rice'' ''1234'' ''INDIA'' sample_records 5 rpc_down)
       = ([], [])
   \<and> db_calls (snd (findSimilarHistoricalData ''Basmati rice'' ''1234'' ''INDIA'' sample_records 5
                       rpc_down)) = 3
   \<and> fst (searchSimilarProductsSimple ''Basmati rice'' (Some ''1234'') 5
            (snd (findSimilarHistoricalData ''Basmati rice'' ''1234'' ''INDIA'' sample_records 5
                    rpc_down)))
       = [keyword_product]"
proof -
  let ?w = "rpc_down_embedded\<lparr>db_calls := Suc (db_calls rpc_down_embedded)\<rparr>"
  have c: "db_calls rpc_down_embedded = 2" "documents rpc_down_embedded = documents rpc_down_stored"
    "db_fault rpc_down_embedded = db_fault rpc_down"
    using rpc_down_embedded_eq(2) by (simp_all add: same_store_def rpc_down_stored_eq)
  have k: "fst (searchSimilarProductsSimple ''Basmati rice'' (Some ''1234'') 5 ?w) = [keyword_product]"
    by (rule simple_keyword)
       (simp_all add: c rpc_down_facts rpc_down_stored_eq(2) selectable_samples sel_inserted)
  show ?thesis
    using k unfolding rpc_down_result by (simp add: c rpc_down_facts)
qed

text \<open>The theorem of C2 in the two worlds whose procedure fails.\<close>

theorem fallback_on_unavailable_search_witness:
  "generateEmbedding ''Basmati rice'' 3 vector_down = (Inr (replicate 384 0), vector_down_embedded)
   \<and> rpc_match_documents (replicate 384 0) 0.1 (5 + 10) vector_down_embedded
       = ((None, Some (PgError [] ''rpc unavailable'')), vector_down_answered)
   \<and> searchSimilarProducts ''Basmati rice'' (Some ''1234'') 5 vector_down
       = searchSimilarProductsSimple ''Basmati rice'' (Some ''1234'') 5 vector_down_answered
   \<and> fst (searchSimilarProductsSimple ''Basmati rice'' (Some ''1234'') 5 vector_down_answered)
       = [keyword_product]
   \<and> (0::int) \<le> 5
   \<and> length (fst (searchSimilarProductsSimple ''Basmati rice'' (Some ''1234'') 5 vector_down_answered))
       \<le> nat 5
   \<and> ''1234'' \<noteq> []
   \<and> list_all (\<lambda>p. \<exists>d \<in> set (documents vector_down_answered). \<exists>h. doc_hsn_code d = Some h
                     \<and> h \<noteq> ''1234'' \<and> simple_candidate (query_words ''Basmati rice'') d = Some p)
        (fst (searchSimilarProductsSimple ''Basmati rice'' (Some ''1234'') 5 vector_down_answered))
   \<and> list_all (\<lambda>d. doc_hsn_code d \<noteq> Some []) (documents vector_down_answered)
   \<and> list_all (\<lambda>p. hsn_code p \<noteq> ''1234'')
        (fst (searchSimilarProductsSimple ''Basmati rice'' (Some ''1234'') 5 vector_down_answered))
   \<and> storeProductWithHistoricalData ''Basmati rice'' ''1234'' ''INDIA'' sample_records rpc_down
       = (Inr (), rpc_down_stored)
   \<and> generateEmbedding (product_text ''Basmati rice'' ''1234'' ''INDIA'' sample_records) 3 rpc_down_stored
       = (Inr (replicate 384 0), rpc_down_embedded)
   \<and> rpc_match_documents (replicate 384 0) 0.3 (5 * 2) rpc_down_embedded
       = ((None, Some (PgError [] ''rpc unavailable'')),
          rpc_down_embedded\<lparr>db_calls := Suc (db_calls rpc_down_embedded)\<rparr>)
   \<and> findSimilarHistoricalData ''Basmati rice'' ''1234'' ''INDIA'' sample_records 5 rpc_down
       = (([], []), rpc_down_embedded\<lparr>db_calls := Suc (db_calls rpc_down_embedded)\<rparr>)"
proof -
  have ge: "generateEmbedding ''Basmati rice'' 3 vector_down = (Inr (replicate 384 0), vector_down_embedded)"
    by (simp add: generateEmbedding_healthy [OF vector_down_facts(1)] vector_down_facts
        vector_down_embedded_def)
  have rp: "rpc_match_documents (replicate 384 0) 0.1 (5 + 10) vector_down_embedded
       = ((None, Some (PgError [] ''rpc unavailable'')), vector_down_answered)"
    unfolding vector_down_answered_def
    by (rule rpc_faulty) (simp add: vector_down_embedded_def vector_down_facts)
  have docs: "documents vector_down_answered = [own_doc, other_doc]"
    by (simp add: vector_down_answered_def vector_down_embedded_def vector_down_facts)
  have k: "fst (searchSimilarProductsSimple ''Basmati rice'' (Some ''1234'') 5 vector_down_answered)
       = [keyword_product]"
    by (rule simple_keyword)
       (simp_all add: docs selectable_samples, simp add: vector_down_answered_def vector_down_embedded_def vector_down_facts)
  have ne: "''1234'' \<noteq> []" by simp
  have cols: "\<forall>d \<in> set (documents vector_down_answered). doc_hsn_code d \<noteq> Some []"
    by (simp add: docs own_doc_def other_doc_def)
  note t1 = fallback_on_unavailable_search [where query = "''Basmati rice''" and w = vector_down
      and q = "replicate 384 0" and ?w1.0 = vector_down_embedded and k = 5 and data = None
      and err = "Some (PgError [] ''rpc unavailable'')" and ?w2.0 = vector_down_answered
      and excludeHsnCode = "Some ''1234''", THEN conjunct1]
  note t2 = fallback_on_unavailable_search [where query = "''Basmati rice''"
      and w = vector_down_answered and k = 5 and excludeHsnCode = "Some ''1234''" and x = "''1234''",
      THEN conjunct2]
  note t3 = fallback_on_unavailable_search [where w = rpc_down and productName = "''Basmati rice''"
      and hsnCode = "''1234''" and country = "''INDIA''" and historicalData = sample_records
      and u = "()" and wa = rpc_down_stored and q' = "replicate 384 0" and wb = rpc_down_embedded
      and limit = 5 and data' = None and err' = "Some (PgError [] ''rpc unavailable'')"
      and wc = "rpc_down_embedded\<lparr>db_calls := Suc (db_calls rpc_down_embedded)\<rparr>",
      THEN conjunct2, THEN conjunct2, THEN conjunct2, THEN conjunct2]
  show ?thesis
    unfolding list_all_iff
    using ge rp k ne cols rpc_down_stored_eq(1) rpc_down_embedded_eq(1) rpc_down_rpc t1 t2 t3
    by (simp add: keyword_product_def)
qed


end
